theory Spec2Isabelle
  imports Complex_Main
begin

section \<open>EcoGuard: ingestion, risk scoring and alert fanout\<close>

text \<open>
  Conventions of the embedding. A JavaScript number is a \<^typ>\<open>real\<close> and the arithmetic
  is exact, except in \<open>calculateDistance\<close>, where the rounding of IEEE doubles decides
  whether the result is a number and is a parameter; a \<^verbatim>\<open>Date\<close> is the integer that
  \<^verbatim>\<open>getTime()\<close> returns, milliseconds since the epoch; the value of
  \<^verbatim>\<open>Date.now()\<close> or \<^verbatim>\<open>new Date()\<close> is an explicit argument, \<open>now\<close> or a
  \<open>clock\<close>; a string is the list of the bytes of its UTF-8 encoding.
\<close>

type_synonym date = int

subsection \<open>AlertService: time and distance decay\<close>

definition calculateTimeDecay :: "date \<Rightarrow> date \<Rightarrow> real" where
  "calculateTimeDecay now eventTime =
     (let hoursAgo = real_of_int (now - eventTime) / (1000 * 60 * 60)
      in max 0.1 (exp (- hoursAgo / 12)))"

definition calculateDistanceDecay :: "real \<Rightarrow> real \<Rightarrow> real" where
  "calculateDistanceDecay distance maxRadius = max 0.1 (1 - (distance / maxRadius))"

subsection \<open>Event model (models/Event.ts)\<close>

datatype event_type = Earthquake | Flood | Aqi | Storm | Fire

datatype geometry_type = Point | Polygon

text \<open>
  A value held in the free-form \<^verbatim>\<open>properties\<close> of an event; \<open>JNaN\<close> is the number
  NaN.
\<close>

datatype jsval =
  JUndefined | JNull | JBool bool | JNum real | JNaN | JStr string
  | JArr "jsval list" | JObj "(string \<times> jsval) list"

record geometry =
  gtype :: geometry_type
  coordinates :: "real list"

type_synonym bbox = "real \<times> real \<times> real \<times> real"

record event =
  event_id :: string
  source :: string
  etype :: event_type
  severity :: real
  confidence :: real
  geometry :: geometry
  area_bbox :: bbox
  starts_at :: date
  ends_at :: "date option"
  properties :: "(string \<times> jsval) list"
  ingested_at :: date

subsection \<open>Event store\<close>

text \<open>
  Modelled from the spec: the store is MongoDB behind Mongoose, outside the repository;
  section 4.5 requires "upsert-by-id returning the resulting record". The collection is the
  list of its documents in insertion order. \<^verbatim>\<open>findOneAndUpdate({_id}, eventData,
  {upsert: true, new: true})\<close> sets every field that \<open>eventData\<close> carries on the document
  with that id (every adapter writes all fields except, sometimes, \<^verbatim>\<open>ends_at\<close>), inserts
  the document when there is none, and returns the document as it is after the write.
\<close>

definition set_fields :: "event \<Rightarrow> event \<Rightarrow> event" where
  "set_fields old eventData =
     eventData\<lparr>ends_at := (case ends_at eventData of None \<Rightarrow> ends_at old | Some d \<Rightarrow> Some d)\<rparr>"

fun findOneAndUpdate :: "event \<Rightarrow> event list \<Rightarrow> event \<times> event list" where
  "findOneAndUpdate eventData [] = (eventData, [eventData])"
| "findOneAndUpdate eventData (doc # rest) =
     (if event_id doc = event_id eventData
      then (let doc' = set_fields doc eventData in (doc', doc' # rest))
      else (let (result, rest') = findOneAndUpdate eventData rest in (result, doc # rest')))"

fun findById :: "string \<Rightarrow> event list \<Rightarrow> event option" where
  "findById eid [] = None"
| "findById eid (doc # rest) = (if event_id doc = eid then Some doc else findById eid rest)"

subsection \<open>USGSService\<close>

text \<open>
  One feature of the feed. \<open>f_mag\<close> is \<^verbatim>\<open>properties.mag\<close>, \<open>None\<close> for JSON null;
  \<open>f_lng\<close>, \<open>f_lat\<close>, \<open>f_depth\<close> are the GeoJSON position \<^verbatim>\<open>geometry.coordinates\<close>.
\<close>

record usgs_feature =
  f_id :: string
  f_mag :: "real option"
  f_lng :: real
  f_lat :: real
  f_depth :: real
  f_time :: date
  f_place :: jsval
  f_magType :: jsval
  f_alert :: jsval
  f_tsunami :: jsval
  f_url :: jsval
  f_felt :: jsval
  f_sig :: jsval

definition calculateBoundingBox :: "real \<Rightarrow> real \<Rightarrow> real \<Rightarrow> bbox" where
  "calculateBoundingBox lng lat magnitude =
     (let radiusKm = max 10 (magnitude * 50);
          radiusDegrees = radiusKm / 111
      in (lng - radiusDegrees, lat - radiusDegrees, lng + radiusDegrees, lat + radiusDegrees))"

definition usgs_eventData :: "date \<Rightarrow> usgs_feature \<Rightarrow> real \<Rightarrow> event" where
  "usgs_eventData now feature magnitude =
     \<lparr> event_id = ''usgs-'' @ f_id feature,
       source = ''usgs'',
       etype = Earthquake,
       severity = magnitude,
       confidence = 0.95,
       geometry = \<lparr> gtype = Point, coordinates = [f_lng feature, f_lat feature] \<rparr>,
       area_bbox = calculateBoundingBox (f_lng feature) (f_lat feature) magnitude,
       starts_at = f_time feature,
       ends_at = None,
       properties =
         [(''place'', f_place feature), (''depth_km'', JNum (f_depth feature)),
          (''mag_type'', f_magType feature), (''alert'', f_alert feature),
          (''tsunami'', f_tsunami feature), (''url'', f_url feature),
          (''felt_reports'', f_felt feature), (''significance'', f_sig feature)],
       ingested_at = now \<rparr>"

record ingest_state =
  docs :: "event list"
  inserted :: nat
  updated :: nat

text \<open>
  The insert-or-update test that every adapter makes after its write: the returned
  document's \<^verbatim>\<open>ingested_at\<close> against the one just written.
\<close>

definition write_event :: "event \<Rightarrow> ingest_state \<Rightarrow> ingest_state" where
  "write_event eventData st =
     (let (result, docs') = findOneAndUpdate eventData (docs st)
      in if ingested_at result = ingested_at eventData
         then st\<lparr>docs := docs', inserted := inserted st + 1\<rparr>
         else st\<lparr>docs := docs', updated := updated st + 1\<rparr>)"

text \<open>
  The loop over \<^verbatim>\<open>data.features\<close>; \<open>clock i\<close> is what \<^verbatim>\<open>new Date()\<close> returns
  while feature number \<open>i\<close> of the feed is processed. A null magnitude compares as 0 and
  is skipped with the magnitudes under 2.5.
\<close>

fun ingest_features :: "(nat \<Rightarrow> date) \<Rightarrow> nat \<Rightarrow> usgs_feature list \<Rightarrow> ingest_state \<Rightarrow> ingest_state" where
  "ingest_features clock i [] st = st"
| "ingest_features clock i (feature # rest) st =
     (case f_mag feature of
        None \<Rightarrow> ingest_features clock (Suc i) rest st
      | Some magnitude \<Rightarrow>
          (if magnitude < 2.5 then ingest_features clock (Suc i) rest st
           else ingest_features clock (Suc i) rest
                  (write_event (usgs_eventData (clock i) feature magnitude) st)))"

text \<open>
  \<open>fetched\<close> is the outcome of the fetch and JSON parse: \<open>Inl\<close> the error that is logged
  and thrown again, \<open>Inr\<close> the features. The result is what the promise settles to, with
  the collection after the call.
\<close>

definition ingestEarthquakes ::
  "(nat \<Rightarrow> date) \<Rightarrow> string + usgs_feature list \<Rightarrow> event list \<Rightarrow> (string + nat \<times> nat) \<times> event list" where
  "ingestEarthquakes clock fetched db =
     (case fetched of
        Inl err \<Rightarrow> (Inl err, db)
      | Inr features \<Rightarrow>
          (let st = ingest_features clock 0 features \<lparr>docs = db, inserted = 0, updated = 0\<rparr>
           in (Inr (inserted st, updated st), docs st)))"

subsection \<open>Risk routes: the bounding box of a heatmap request\<close>

text \<open>\<^verbatim>\<open>String.prototype.split\<close> on a one-character separator.\<close>

fun split_on :: "char \<Rightarrow> string \<Rightarrow> string list" where
  "split_on sep [] = [[]]"
| "split_on sep (c # cs) =
     (if c = sep then [] # split_on sep cs
      else (case split_on sep cs of [] \<Rightarrow> [[c]] | w # ws \<Rightarrow> (c # w) # ws))"

text \<open>
  A number read from a string is \<open>None\<close> for NaN. An array element taken by destructuring
  is \<^verbatim>\<open>undefined\<close> beyond the end of the array; \<^verbatim>\<open>undefined\<close>, NaN and 0 are the
  values for which \<^verbatim>\<open>!x\<close> is true, so \<^verbatim>\<open>undefined\<close> is \<open>None\<close> here as well.
\<close>

definition element :: "real option list \<Rightarrow> nat \<Rightarrow> real option" where
  "element xs i = (if i < length xs then xs ! i else None)"

definition falsy :: "real option \<Rightarrow> bool" where
  "falsy x = (case x of None \<Rightarrow> True | Some v \<Rightarrow> v = 0)"

text \<open>
  The head of \<^verbatim>\<open>router.get('/heatmap')\<close>, up to the grid: \<open>Number\<close> is JavaScript's
  conversion of a string to a number, \<open>bbox\<close> the query parameter (\<open>None\<close> when absent).
  \<open>Inl\<close> is the status and error of the response sent, \<open>Inr\<close> the box that goes on to the
  grid.
\<close>

definition heatmap_bbox ::
  "(string \<Rightarrow> real option) \<Rightarrow> string option
     \<Rightarrow> nat \<times> string + real option \<times> real option \<times> real option \<times> real option" where
  "heatmap_bbox Number bbox =
     (case bbox of
        None \<Rightarrow> Inl (400, ''Bounding box (bbox) is required'')
      | Some b \<Rightarrow>
          (if b = [] then Inl (400, ''Bounding box (bbox) is required'')
           else (let nums = map Number (split_on CHR '','' b);
                     west = element nums 0; south = element nums 1;
                     east = element nums 2; north = element nums 3
                 in if falsy west \<or> falsy south \<or> falsy east \<or> falsy north
                    then Inl (400, ''Invalid bounding box format. Use: west,south,east,north'')
                    else Inr (west, south, east, north))))"

subsection \<open>Ingestion routes: the batch endpoint\<close>

text \<open>
  What the promise of one adapter settles to: its counts, or the reason of its rejection,
  of which the route reads \<^verbatim>\<open>reason?.message\<close> (\<open>None\<close> when the reason has none).
\<close>

datatype settled = Fulfilled nat nat | Rejected "string option"

text \<open>What each adapter settles to when it is run.\<close>

record adapters =
  usgs :: settled
  eonet :: settled
  firms :: settled
  openweather :: settled
  openaq :: settled

record source_result =
  r_source :: string
  r_success :: bool
  r_inserted :: "nat option"
  r_updated :: "nat option"
  r_error :: "string option"

definition source_entry :: "string \<Rightarrow> settled \<Rightarrow> source_result" where
  "source_entry name outcome =
     (case outcome of
        Fulfilled ins upd \<Rightarrow>
          \<lparr>r_source = name, r_success = True, r_inserted = Some ins, r_updated = Some upd,
           r_error = None\<rparr>
      | Rejected msg \<Rightarrow>
          \<lparr>r_source = name, r_success = False, r_inserted = None, r_updated = None,
           r_error = msg\<rparr>)"

record batch_response =
  b_success :: bool
  total_sources :: nat
  total_inserted :: nat
  total_updated :: nat
  results :: "source_result list"
  fanout_started :: bool

text \<open>
  \<^verbatim>\<open>router.post('/all')\<close>: \<^verbatim>\<open>r.inserted || 0\<close> is 0 for an entry without the field.
  \<open>fanout_started\<close> records the detached call of \<^verbatim>\<open>AlertService.processNewEvents()\<close>.
\<close>

definition or_zero :: "nat option \<Rightarrow> nat" where
  "or_zero x = (case x of None \<Rightarrow> 0 | Some n \<Rightarrow> n)"

definition ingest_all :: "adapters \<Rightarrow> batch_response" where
  "ingest_all run =
     (let results =
            [source_entry ''usgs'' (usgs run),
             source_entry ''nasa-eonet'' (eonet run),
             source_entry ''openweather'' (openweather run),
             source_entry ''openaq'' (openaq run)];
          totalInserted = foldl (\<lambda>sum r. sum + or_zero (r_inserted r)) 0 results
      in \<lparr> b_success = True,
           total_sources = length results,
           total_inserted = totalInserted,
           total_updated = foldl (\<lambda>sum r. sum + or_zero (r_updated r)) 0 results,
           results = results,
           fanout_started = (totalInserted > 0) \<rparr>)"


text \<open>
  The spec's words for the totals, "summed across fulfilled sources only": what one
  source contributes to the total of inserted and of updated events.
\<close>

definition fulfilled_inserted :: "settled \<Rightarrow> nat" where
  "fulfilled_inserted outcome = (case outcome of Fulfilled ins upd \<Rightarrow> ins | Rejected msg \<Rightarrow> 0)"

definition fulfilled_updated :: "settled \<Rightarrow> nat" where
  "fulfilled_updated outcome = (case outcome of Fulfilled ins upd \<Rightarrow> upd | Rejected msg \<Rightarrow> 0)"

definition is_fulfilled :: "settled \<Rightarrow> bool" where
  "is_fulfilled outcome = (case outcome of Fulfilled ins upd \<Rightarrow> True | Rejected msg \<Rightarrow> False)"

definition rejection_message :: "settled \<Rightarrow> string option" where
  "rejection_message outcome = (case outcome of Fulfilled ins upd \<Rightarrow> None | Rejected msg \<Rightarrow> msg)"


subsection \<open>JavaScript built-ins\<close>

text \<open>
  The functions of the language's library that the code calls and that are not modelled:
  \<^verbatim>\<open>Number.prototype.toFixed\<close>, \<^verbatim>\<open>Date.prototype.toISOString\<close>, the parsing of a
  date string by \<^verbatim>\<open>new Date(s)\<close>, and the conversion of a value to a string in a
  template literal. They are parameters of the functions that use them.
\<close>

record js =
  toFixed :: "real \<Rightarrow> nat \<Rightarrow> string"
  toISOString :: "date \<Rightarrow> string"
  parseDate :: "string \<Rightarrow> date"
  String_of :: "jsval \<Rightarrow> string"

text \<open>\<^verbatim>\<open>toISOString().split('T')[0]\<close>: the calendar date.\<close>

definition isoDate :: "js \<Rightarrow> date \<Rightarrow> string" where
  "isoDate js d = takeWhile (\<lambda>c. c \<noteq> CHR ''T'') (toISOString js d)"

text \<open>\<^verbatim>\<open>toLowerCase\<close> and \<^verbatim>\<open>includes\<close>, on ASCII.\<close>

definition toLowerChar :: "char \<Rightarrow> char" where
  "toLowerChar c =
     (case map_of (zip ''ABCDEFGHIJKLMNOPQRSTUVWXYZ'' ''abcdefghijklmnopqrstuvwxyz'') c of
        None \<Rightarrow> c
      | Some l \<Rightarrow> l)"

definition toLowerCase :: "string \<Rightarrow> string" where
  "toLowerCase s = map toLowerChar s"

fun includes_str :: "string \<Rightarrow> string \<Rightarrow> bool" where
  "includes_str [] sub = (sub = [])"
| "includes_str (c # cs) sub =
     (if take (length sub) (c # cs) = sub then True else includes_str cs sub)"

text \<open>
  The white space of the language, which \<^verbatim>\<open>\s\<close> matches in a regular expression and
  \<^verbatim>\<open>trim\<close> removes: the code points U+0009 to U+000D, U+0020, U+00A0, U+1680, U+2000
  to U+200A, U+2028, U+2029, U+202F, U+205F, U+3000 and U+FEFF, each in its UTF-8 encoding.
  No encoding starts inside the encoding of another character, so a string can be searched
  for them byte by byte.
\<close>

definition white_space :: "string list" where
  "white_space =
     [[CHR 0x09], [CHR 0x0A], [CHR 0x0B], [CHR 0x0C], [CHR 0x0D], [CHR 0x20],
      [CHR 0xC2, CHR 0xA0], [CHR 0xE1, CHR 0x9A, CHR 0x80],
      [CHR 0xE2, CHR 0x80, CHR 0x80], [CHR 0xE2, CHR 0x80, CHR 0x81],
      [CHR 0xE2, CHR 0x80, CHR 0x82], [CHR 0xE2, CHR 0x80, CHR 0x83],
      [CHR 0xE2, CHR 0x80, CHR 0x84], [CHR 0xE2, CHR 0x80, CHR 0x85],
      [CHR 0xE2, CHR 0x80, CHR 0x86], [CHR 0xE2, CHR 0x80, CHR 0x87],
      [CHR 0xE2, CHR 0x80, CHR 0x88], [CHR 0xE2, CHR 0x80, CHR 0x89],
      [CHR 0xE2, CHR 0x80, CHR 0x8A], [CHR 0xE2, CHR 0x80, CHR 0xA8],
      [CHR 0xE2, CHR 0x80, CHR 0xA9], [CHR 0xE2, CHR 0x80, CHR 0xAF],
      [CHR 0xE2, CHR 0x81, CHR 0x9F], [CHR 0xE3, CHR 0x80, CHR 0x80],
      [CHR 0xEF, CHR 0xBB, CHR 0xBF]]"

text \<open>
  The rest of a string after one of the words \<open>ws\<close> at its start, \<open>None\<close> when it
  starts with none of them; and the string without all of them at its start.
\<close>

definition skip_one :: "string list \<Rightarrow> string \<Rightarrow> string option" where
  "skip_one ws s =
     (case filter (\<lambda>w. w \<noteq> [] \<and> take (length w) s = w) ws of
        [] \<Rightarrow> None
      | w # others \<Rightarrow> Some (drop (length w) s))"

function skip_all :: "string list \<Rightarrow> string \<Rightarrow> string" where
  "skip_all ws s = (case skip_one ws s of None \<Rightarrow> s | Some rest \<Rightarrow> skip_all ws rest)"
  by pat_completeness auto
termination
proof (relation "measure (\<lambda>(ws, s). length s)")
  show "wf (measure (\<lambda>(ws, s). length s))" by simp
next
  fix ws :: "string list" and s rest :: string
  assume "skip_one ws s = Some rest"
  then obtain w others where
    w: "filter (\<lambda>w. w \<noteq> [] \<and> take (length w) s = w) ws = w # others"
    and rest: "rest = drop (length w) s"
    by (auto simp: skip_one_def split: list.splits)
  have "w \<in> set (filter (\<lambda>w. w \<noteq> [] \<and> take (length w) s = w) ws)"
    unfolding w by simp
  then have "w \<noteq> []" and "take (length w) s = w" by simp_all
  then have "s \<noteq> []" by auto
  then have "length rest < length s" using \<open>w \<noteq> []\<close> by (simp add: rest)
  then show "((ws, rest), (ws, s)) \<in> measure (\<lambda>(ws, s). length s)" by simp
qed

declare skip_all.simps [simp del]

text \<open>\<^verbatim>\<open>String.prototype.trim\<close>: without the white space at both ends.\<close>

definition trim :: "string \<Rightarrow> string" where
  "trim s = rev (skip_all (map rev white_space) (rev (skip_all white_space s)))"

text \<open>\<^verbatim>\<open>Math.round\<close>: the nearest integer, halves upwards.\<close>

definition Math_round :: "real \<Rightarrow> real" where
  "Math_round x = real_of_int \<lfloor>x + 1 / 2\<rfloor>"

subsection \<open>OpenAQService\<close>

text \<open>
  One entry of \<^verbatim>\<open>data.results\<close>. \<open>m_coordinates\<close> is (latitude, longitude), \<open>None\<close>
  when the entry has no coordinates.
\<close>

record measurement =
  m_parameter :: string
  m_value :: real
  m_unit :: string
  m_coordinates :: "(real \<times> real) option"
  m_date_utc :: string
  m_location :: jsval
  m_city :: jsval
  m_country :: jsval
  m_sourceName :: jsval
  m_mobile :: bool

text \<open>The unit string of micrograms per cubic metre, in UTF-8.\<close>

definition ug_m3 :: string where
  "ug_m3 = [CHR 0xC2, CHR 0xB5, CHR ''g'', CHR ''/'', CHR ''m'', CHR 0xC2, CHR 0xB3]"

definition linearInterpolation :: "real \<Rightarrow> real \<Rightarrow> real \<Rightarrow> real \<Rightarrow> real \<Rightarrow> real" where
  "linearInterpolation x x1 x2 y1 y2 = ((y2 - y1) / (x2 - x1)) * (x - x1) + y1"

definition pm25ToAQI :: "real \<Rightarrow> string \<Rightarrow> real" where
  "pm25ToAQI concentration unit =
     (let c = (if unit = ''ppm'' then concentration * 1000 else concentration)
      in if c \<le> 12.0 then linearInterpolation c 0 12.0 0 50
         else if c \<le> 35.4 then linearInterpolation c 12.1 35.4 51 100
         else if c \<le> 55.4 then linearInterpolation c 35.5 55.4 101 150
         else if c \<le> 150.4 then linearInterpolation c 55.5 150.4 151 200
         else if c \<le> 250.4 then linearInterpolation c 150.5 250.4 201 300
         else if c \<le> 350.4 then linearInterpolation c 250.5 350.4 301 400
         else min 500 (linearInterpolation c 350.5 500.4 401 500))"

definition pm10ToAQI :: "real \<Rightarrow> string \<Rightarrow> real" where
  "pm10ToAQI concentration unit =
     (let c = (if unit = ''ppm'' then concentration * 1000 else concentration)
      in if c \<le> 54 then linearInterpolation c 0 54 0 50
         else if c \<le> 154 then linearInterpolation c 55 154 51 100
         else if c \<le> 254 then linearInterpolation c 155 254 101 150
         else if c \<le> 354 then linearInterpolation c 255 354 151 200
         else if c \<le> 424 then linearInterpolation c 355 424 201 300
         else if c \<le> 504 then linearInterpolation c 425 504 301 400
         else min 500 (linearInterpolation c 505 604 401 500))"

definition o3ToAQI :: "real \<Rightarrow> string \<Rightarrow> real" where
  "o3ToAQI concentration unit =
     (let c = (if unit = ug_m3 then concentration / 1960 else concentration)
      in if c \<le> 0.054 then linearInterpolation c 0 0.054 0 50
         else if c \<le> 0.070 then linearInterpolation c 0.055 0.070 51 100
         else if c \<le> 0.085 then linearInterpolation c 0.071 0.085 101 150
         else if c \<le> 0.105 then linearInterpolation c 0.086 0.105 151 200
         else if c \<le> 0.200 then linearInterpolation c 0.106 0.200 201 300
         else min 500 301)"

definition no2ToAQI :: "real \<Rightarrow> string \<Rightarrow> real" where
  "no2ToAQI concentration unit =
     (let c = (if unit = ''ppm'' then concentration * 1880 else concentration)
      in if c \<le> 40 then linearInterpolation c 0 40 0 50
         else if c \<le> 80 then linearInterpolation c 41 80 51 100
         else if c \<le> 180 then linearInterpolation c 81 180 101 150
         else if c \<le> 280 then linearInterpolation c 181 280 151 200
         else if c \<le> 400 then linearInterpolation c 281 400 201 300
         else min 500 301)"

definition so2ToAQI :: "real \<Rightarrow> string \<Rightarrow> real" where
  "so2ToAQI concentration unit =
     (let c = (if unit = ''ppm'' then concentration * 2620 else concentration)
      in if c \<le> 35 then linearInterpolation c 0 35 0 50
         else if c \<le> 75 then linearInterpolation c 36 75 51 100
         else if c \<le> 185 then linearInterpolation c 76 185 101 150
         else if c \<le> 304 then linearInterpolation c 186 304 151 200
         else if c \<le> 604 then linearInterpolation c 305 604 201 300
         else min 500 301)"

definition coToAQI :: "real \<Rightarrow> string \<Rightarrow> real" where
  "coToAQI concentration unit =
     (let c = (if unit = ug_m3 then concentration / 1150 else concentration)
      in if c \<le> 4.4 then linearInterpolation c 0 4.4 0 50
         else if c \<le> 9.4 then linearInterpolation c 4.5 9.4 51 100
         else if c \<le> 12.4 then linearInterpolation c 9.5 12.4 101 150
         else if c \<le> 15.4 then linearInterpolation c 12.5 15.4 151 200
         else if c \<le> 30.4 then linearInterpolation c 15.5 30.4 201 300
         else min 500 301)"

definition aqiToCategory :: "real \<Rightarrow> string" where
  "aqiToCategory aqi =
     (if aqi \<le> 50 then ''Good''
      else if aqi \<le> 100 then ''Moderate''
      else if aqi \<le> 150 then ''Unhealthy for Sensitive Groups''
      else if aqi \<le> 200 then ''Unhealthy''
      else if aqi \<le> 300 then ''Very Unhealthy''
      else ''Hazardous'')"

definition aqiToSeverity :: "real \<Rightarrow> real" where
  "aqiToSeverity aqi =
     (if aqi \<le> 50 then 2.0
      else if aqi \<le> 100 then 4.0
      else if aqi \<le> 150 then 6.0
      else if aqi \<le> 200 then 7.5
      else if aqi \<le> 300 then 9.0
      else 10.0)"

definition pollutantAQI :: "string \<Rightarrow> real \<Rightarrow> string \<Rightarrow> real" where
  "pollutantAQI parameter val unit =
     (if parameter = ''pm25'' then pm25ToAQI val unit
      else if parameter = ''pm10'' then pm10ToAQI val unit
      else if parameter = ''o3'' then o3ToAQI val unit
      else if parameter = ''no2'' then no2ToAQI val unit
      else if parameter = ''so2'' then so2ToAQI val unit
      else if parameter = ''co'' then coToAQI val unit
      else 0)"

text \<open>The loop of \<^verbatim>\<open>calculateAQI\<close> over the measurements: (maxAQI, primaryPollutant).\<close>

fun maxAQI_loop :: "measurement list \<Rightarrow> real \<times> string \<Rightarrow> real \<times> string" where
  "maxAQI_loop [] acc = acc"
| "maxAQI_loop (m # ms) (maxAQI, primaryPollutant) =
     (let parameter = toLowerCase (m_parameter m);
          aqi = pollutantAQI parameter (m_value m) (m_unit m)
      in maxAQI_loop ms (if aqi > maxAQI then (aqi, parameter) else (maxAQI, primaryPollutant)))"

record aqi_data =
  aqi :: real
  category :: string
  primaryPollutant :: string

definition calculateAQI :: "measurement list \<Rightarrow> aqi_data" where
  "calculateAQI measurements =
     (let (maxAQI, primary) = maxAQI_loop measurements (0, ''pm25'')
      in \<lparr>aqi = Math_round maxAQI, category = aqiToCategory maxAQI, primaryPollutant = primary\<rparr>)"

definition calculateAQIBoundingBox :: "real \<Rightarrow> real \<Rightarrow> real \<Rightarrow> bbox" where
  "calculateAQIBoundingBox lng lat a =
     (let radiusKm = max 5 (min 50 (a / 4));
          radiusDegrees = radiusKm / 111
      in (lng - radiusDegrees, lat - radiusDegrees, lng + radiusDegrees, lat + radiusDegrees))"


text \<open>Assignment to a key of an object: in place when the key is there, at the end otherwise.\<close>

fun set_key :: "string \<Rightarrow> jsval \<Rightarrow> (string \<times> jsval) list \<Rightarrow> (string \<times> jsval) list" where
  "set_key k v [] = [(k, v)]"
| "set_key k v ((k', v') # kvs) = (if k' = k then (k, v) # kvs else (k', v') # set_key k v kvs)"

fun processMeasurements_loop :: "measurement list \<Rightarrow> (string \<times> jsval) list \<Rightarrow> (string \<times> jsval) list" where
  "processMeasurements_loop [] processed = processed"
| "processMeasurements_loop (m # ms) processed =
     processMeasurements_loop ms
       (set_key (m_parameter m)
          (JObj [(''value'', JNum (m_value m)), (''unit'', JStr (m_unit m)),
                 (''lastUpdated'', JStr (m_date_utc m))])
          processed)"

definition processMeasurements :: "measurement list \<Rightarrow> jsval" where
  "processMeasurements measurements = JObj (processMeasurements_loop measurements [])"

text \<open>
  \<^verbatim>\<open>locationGroups\<close>, a \<^verbatim>\<open>Map\<close> from location key to measurements, in the order in
  which the keys were first set.
\<close>

fun add_to_group ::
  "string \<Rightarrow> measurement \<Rightarrow> (string \<times> measurement list) list \<Rightarrow> (string \<times> measurement list) list" where
  "add_to_group k m [] = [(k, [m])]"
| "add_to_group k m ((k', ms) # groups) =
     (if k' = k then (k', ms @ [m]) # groups else (k', ms) # add_to_group k m groups)"

fun group_by_location ::
  "js \<Rightarrow> measurement list \<Rightarrow> (string \<times> measurement list) list \<Rightarrow> (string \<times> measurement list) list" where
  "group_by_location js [] groups = groups"
| "group_by_location js (m # ms) groups =
     (case m_coordinates m of
        None \<Rightarrow> group_by_location js ms groups
      | Some (latitude, longitude) \<Rightarrow>
          (if m_value m = 0 then group_by_location js ms groups
           else group_by_location js ms
                  (add_to_group (toFixed js latitude 4 @ ''-'' @ toFixed js longitude 4) m groups)))"

definition openaq_eventData ::
  "js \<Rightarrow> date \<Rightarrow> string \<Rightarrow> string \<Rightarrow> measurement \<Rightarrow> real \<Rightarrow> real \<Rightarrow> measurement list \<Rightarrow> aqi_data \<Rightarrow> event" where
  "openaq_eventData js now country locationKey primaryMeasurement lat lng measurements aqiData =
     \<lparr> event_id = ''openaq-'' @ country @ ''-'' @ locationKey @ ''-'' @ isoDate js now,
       source = ''openaq'',
       etype = Aqi,
       severity = aqiToSeverity (aqi aqiData),
       confidence = 0.85,
       geometry = \<lparr> gtype = Point, coordinates = [lng, lat] \<rparr>,
       area_bbox = calculateAQIBoundingBox lng lat (aqi aqiData),
       starts_at = parseDate js (m_date_utc primaryMeasurement),
       ends_at = None,
       properties =
         [(''aqi'', JNum (aqi aqiData)), (''aqi_category'', JStr (category aqiData)),
          (''primary_pollutant'', JStr (primaryPollutant aqiData)),
          (''location_name'', m_location primaryMeasurement),
          (''city'', m_city primaryMeasurement), (''country'', m_country primaryMeasurement),
          (''measurements'', processMeasurements measurements),
          (''source_name'', m_sourceName primaryMeasurement),
          (''mobile'', JBool (m_mobile primaryMeasurement))],
       ingested_at = now \<rparr>"

text \<open>
  The body of the loop over the location groups, in its two parts: the event made for a
  group, \<open>None\<close> where the loop goes on to the next group without one, and its write.
  Every group has a first measurement, with coordinates: \<open>group_by_location\<close> makes no
  other group.
\<close>

definition location_event :: "js \<Rightarrow> date \<Rightarrow> string \<Rightarrow> string \<times> measurement list \<Rightarrow> event option" where
  "location_event js now country grp =
     (case grp of (locationKey, measurements) \<Rightarrow>
        (case measurements of
           [] \<Rightarrow> None
         | primaryMeasurement # others \<Rightarrow>
             (case m_coordinates primaryMeasurement of
                None \<Rightarrow> None
              | Some (lat, lng) \<Rightarrow>
                  (let aqiData = calculateAQI measurements
                   in if aqi aqiData \<le> 100 then None
                      else Some (openaq_eventData js now country locationKey primaryMeasurement
                                   lat lng measurements aqiData)))))"

definition process_location ::
  "js \<Rightarrow> date \<Rightarrow> string \<Rightarrow> ingest_state \<Rightarrow> string \<times> measurement list \<Rightarrow> ingest_state" where
  "process_location js now country st grp =
     (case location_event js now country grp of
        None \<Rightarrow> st
      | Some eventData \<Rightarrow> write_event eventData st)"

text \<open>
  The loop over the countries. \<open>fetch country\<close> is the outcome of the request for a country:
  \<open>Inl\<close> an error, which is caught and logged, \<open>Inr None\<close> a reply without
  \<^verbatim>\<open>results\<close>, \<open>Inr (Some rs)\<close> the results. \<open>clock i\<close> is the time at which country
  number \<open>i\<close> is processed.
\<close>

fun ingest_countries ::
  "js \<Rightarrow> (nat \<Rightarrow> date) \<Rightarrow> (string \<Rightarrow> string + measurement list option) \<Rightarrow> nat \<Rightarrow> string list
     \<Rightarrow> ingest_state \<Rightarrow> ingest_state" where
  "ingest_countries js clock fetch i [] st = st"
| "ingest_countries js clock fetch i (country # rest) st =
     ingest_countries js clock fetch (Suc i) rest
       (case fetch country of
          Inl err \<Rightarrow> st
        | Inr None \<Rightarrow> st
        | Inr (Some rs) \<Rightarrow>
            foldl (process_location js (clock i) country) st (group_by_location js rs []))"

definition ingestAirQualityData ::
  "js \<Rightarrow> (nat \<Rightarrow> date) \<Rightarrow> (string \<Rightarrow> string + measurement list option) \<Rightarrow> string list
     \<Rightarrow> event list \<Rightarrow> (nat \<times> nat) \<times> event list" where
  "ingestAirQualityData js clock fetch countries db =
     (let st = ingest_countries js clock fetch 0 countries \<lparr>docs = db, inserted = 0, updated = 0\<rparr>
      in ((inserted st, updated st), docs st))"


subsection \<open>Subscriptions (models/Subscription.ts, routes/subscriptions.ts)\<close>

record push_subscription =
  endpoint :: string
  p256dh :: string
  auth :: string

text \<open>\<open>location\<close> is the pair of \<^verbatim>\<open>location.coordinates\<close>, longitude first.\<close>

record subscription =
  sub_id :: string
  email :: "string option"
  phone :: "string option"
  push :: "push_subscription option"
  location :: "real \<times> real"
  radius_km :: real
  channels :: "string list"
  language :: string
  created_at :: date

text \<open>A string that is there and not empty: \<^verbatim>\<open>!s\<close> is false for it.\<close>

definition truthy_string :: "string option \<Rightarrow> bool" where
  "truthy_string s = (case s of None \<Rightarrow> False | Some v \<Rightarrow> v \<noteq> [])"

definition truthy_number :: "real option \<Rightarrow> bool" where
  "truthy_number x = (case x of None \<Rightarrow> False | Some v \<Rightarrow> v \<noteq> 0)"

text \<open>
  The spec's invariant of a subscription, "every channel listed must have corresponding
  contact data present": email for \<^verbatim>\<open>email\<close>, phone for \<^verbatim>\<open>sms\<close>, a push
  subscription for \<^verbatim>\<open>webpush\<close>.
\<close>

definition contact_present :: "subscription \<Rightarrow> string \<Rightarrow> bool" where
  "contact_present s channel =
     (if channel = ''email'' then truthy_string (email s)
      else if channel = ''sms'' then truthy_string (phone s)
      else if channel = ''webpush'' then push s \<noteq> None
      else True)"

definition channel_contact_ok :: "subscription \<Rightarrow> bool" where
  "channel_contact_ok s = list_all (contact_present s) (channels s)"

text \<open>
  The body of a request: a field is \<open>None\<close> when the body does not have it.
  \<open>q_location\<close> is the object \<^verbatim>\<open>{lat, lng}\<close> with its two fields in that order, and
  \<open>q_channels\<close> is \<open>None\<close> also for a value that is not an array.
\<close>

record subscription_request =
  q_id :: "string option"
  q_created_at :: "date option"
  q_email :: "string option"
  q_phone :: "string option"
  q_push :: "push_subscription option"
  q_location :: "(real option \<times> real option) option"
  q_radius_km :: "real option"
  q_channels :: "string list option"
  q_language :: "string option"

text \<open>The schema's validators: the range of the radius and the enumeration of channels.\<close>

definition schema_valid :: "subscription \<Rightarrow> bool" where
  "schema_valid s =
     (1 \<le> radius_km s \<and> radius_km s \<le> 100
      \<and> list_all (\<lambda>c. c = ''webpush'' \<or> c = ''email'' \<or> c = ''sms'') (channels s))"

fun find_subscription :: "(subscription \<Rightarrow> bool) \<Rightarrow> subscription list \<Rightarrow> subscription option" where
  "find_subscription p [] = None"
| "find_subscription p (s # ss) = (if p s then Some s else find_subscription p ss)"

text \<open>
  What \<^verbatim>\<open>router.post('/')\<close> asks of the store once the request has passed its checks:
  to save a new document, or to update the document found for the same contact with the
  new data.
\<close>

datatype store_request = Save subscription | FindByIdAndUpdate string subscription

text \<open>
  \<^verbatim>\<open>router.post('/')\<close> up to the call of the store, in its three parts: the checks of
  the request (\<open>Some\<close> the status and error of the response that refuses it), the document
  built from it, and the search for a subscription with the same contact. \<open>uuid\<close> is the
  identifier that \<^verbatim>\<open>uuidv4()\<close> returns and \<open>now\<close> the time.
\<close>

definition post_validation :: "subscription_request \<Rightarrow> (nat \<times> string) option" where
  "post_validation body =
     (let chans = (case q_channels body of None \<Rightarrow> [] | Some cs \<Rightarrow> cs)
      in if (case q_location body of
               None \<Rightarrow> True
             | Some (lat, lng) \<Rightarrow> \<not> truthy_number lat \<or> \<not> truthy_number lng)
         then Some (400, ''Location (lat, lng) is required'')
         else if chans = []
         then Some (400, ''At least one notification channel is required'')
         else if (case q_radius_km body of None \<Rightarrow> True | Some r \<Rightarrow> r = 0 \<or> r < 1 \<or> r > 100)
         then Some (400, ''Radius must be between 1 and 100 km'')
         else if ''email'' \<in> set chans \<and> \<not> truthy_string (q_email body)
         then Some (400, ''Email is required for email notifications'')
         else if ''sms'' \<in> set chans \<and> \<not> truthy_string (q_phone body)
         then Some (400, ''Phone number is required for SMS notifications'')
         else if ''webpush'' \<in> set chans \<and> q_push body = None
         then Some (400, ''Push subscription is required for web push notifications'')
         else None)"

definition post_subscriptionData :: "string \<Rightarrow> date \<Rightarrow> subscription_request \<Rightarrow> subscription" where
  "post_subscriptionData uuid now body =
     \<lparr> sub_id = uuid,
       email = (if truthy_string (q_email body) then q_email body else None),
       phone = (if truthy_string (q_phone body) then q_phone body else None),
       push = q_push body,
       location = (case q_location body of
                     Some (Some lat, Some lng) \<Rightarrow> (lng, lat)
                   | _ \<Rightarrow> (0, 0)),
       radius_km = (case q_radius_km body of None \<Rightarrow> 0 | Some r \<Rightarrow> r),
       channels = (case q_channels body of None \<Rightarrow> [] | Some chans \<Rightarrow> chans),
       language = (case q_language body of None \<Rightarrow> ''en'' | Some l \<Rightarrow> l),
       created_at = now \<rparr>"

definition post_existingSubscription ::
  "subscription_request \<Rightarrow> subscription list \<Rightarrow> subscription option" where
  "post_existingSubscription body subs =
     (if truthy_string (q_email body)
      then find_subscription (\<lambda>s. email s = q_email body) subs
      else if truthy_string (q_phone body)
      then find_subscription (\<lambda>s. phone s = q_phone body) subs
      else (case q_push body of
              None \<Rightarrow> None
            | Some p \<Rightarrow>
                (if endpoint p = [] then None
                 else find_subscription
                        (\<lambda>s. map_option endpoint (push s) = Some (endpoint p)) subs)))"

definition post_subscription ::
  "string \<Rightarrow> date \<Rightarrow> subscription_request \<Rightarrow> subscription list \<Rightarrow> nat \<times> string + store_request" where
  "post_subscription uuid now body subs =
     (case post_validation body of
        Some refusal \<Rightarrow> Inl refusal
      | None \<Rightarrow>
          (let subscriptionData = post_subscriptionData uuid now body
           in (case post_existingSubscription body subs of
                 None \<Rightarrow> Inr (Save subscriptionData)
               | Some existing \<Rightarrow> Inr (FindByIdAndUpdate (sub_id existing) subscriptionData))))"

text \<open>
  Modelled from the spec: the subscription store is MongoDB behind Mongoose, outside the
  repository (section 4.5). \<^verbatim>\<open>findByIdAndUpdate(id, updates, {new: true, runValidators:
  true})\<close> sets the fields that \<open>updates\<close> carries on the document with that id, after the
  schema's validators have accepted them, and returns the document as it is after the
  write; it returns \<^verbatim>\<open>null\<close> when there is no such document.
\<close>

definition apply_updates :: "subscription_request \<Rightarrow> subscription \<Rightarrow> subscription" where
  "apply_updates updates s =
     s\<lparr> email := (case q_email updates of None \<Rightarrow> email s | Some e \<Rightarrow> Some e),
        phone := (case q_phone updates of None \<Rightarrow> phone s | Some p \<Rightarrow> Some p),
        push := (case q_push updates of None \<Rightarrow> push s | Some p \<Rightarrow> Some p),
        location := (case q_location updates of
                       Some (Some lat, Some lng) \<Rightarrow> (lng, lat)
                     | _ \<Rightarrow> location s),
        radius_km := (case q_radius_km updates of None \<Rightarrow> radius_km s | Some r \<Rightarrow> r),
        channels := (case q_channels updates of None \<Rightarrow> channels s | Some c \<Rightarrow> c),
        language := (case q_language updates of None \<Rightarrow> language s | Some l \<Rightarrow> l) \<rparr>"

fun replace_subscription :: "subscription \<Rightarrow> subscription list \<Rightarrow> subscription list" where
  "replace_subscription s' [] = []"
| "replace_subscription s' (s # ss) =
     (if sub_id s = sub_id s' then s' # ss else s # replace_subscription s' ss)"

datatype update_result = Not_found | Validation_failed | Updated subscription "subscription list"

text \<open>A location without one of its two numbers does not pass as a point.\<close>

definition location_valid :: "subscription_request \<Rightarrow> bool" where
  "location_valid updates =
     (case q_location updates of
        None \<Rightarrow> True
      | Some (lat, lng) \<Rightarrow> lat \<noteq> None \<and> lng \<noteq> None)"

definition findByIdAndUpdate :: "string \<Rightarrow> subscription_request \<Rightarrow> subscription list \<Rightarrow> update_result" where
  "findByIdAndUpdate sid updates subs =
     (case find_subscription (\<lambda>s. sub_id s = sid) subs of
        None \<Rightarrow> Not_found
      | Some s \<Rightarrow>
          (let s' = apply_updates updates s
           in if location_valid updates \<and> schema_valid s'
              then Updated s' (replace_subscription s' subs)
              else Validation_failed))"

text \<open>
  \<^verbatim>\<open>router.put('/:subscriptionId')\<close>: the body without \<^verbatim>\<open>_id\<close> and
  \<^verbatim>\<open>created_at\<close> goes to the store as it is. \<open>Inl\<close> is the status and error of the
  response, \<open>Inr\<close> the subscription of the response with the collection after the write.
\<close>

definition put_subscription ::
  "string \<Rightarrow> subscription_request \<Rightarrow> subscription list
     \<Rightarrow> nat \<times> string + subscription \<times> subscription list" where
  "put_subscription subscriptionId body subs =
     (let updates = body\<lparr>q_id := None, q_created_at := None\<rparr>
      in (case findByIdAndUpdate subscriptionId updates subs of
            Not_found \<Rightarrow> Inl (404, ''Subscription not found'')
          | Validation_failed \<Rightarrow> Inl (500, ''Failed to update subscription'')
          | Updated s subs' \<Rightarrow> Inr (s, subs')))"


subsection \<open>AlertService: risk assessment\<close>

text \<open>
  \<^verbatim>\<open>Math.atan2\<close>. A number that can be NaN is a \<open>real option\<close>, \<open>None\<close> for NaN:
  \<^verbatim>\<open>Math.sqrt\<close> of a negative number, and whatever is computed from it.
\<close>

definition Math_atan2 :: "real \<Rightarrow> real \<Rightarrow> real" where
  "Math_atan2 y x =
     (if 0 < x then arctan (y / x)
      else if x < 0 then (if 0 \<le> y then arctan (y / x) + pi else arctan (y / x) - pi)
      else if 0 < y then pi / 2
      else if y < 0 then - pi / 2
      else 0)"

definition Math_max :: "real option \<Rightarrow> real option \<Rightarrow> real option" where
  "Math_max x y = (case x of None \<Rightarrow> None | Some a \<Rightarrow> (case y of None \<Rightarrow> None | Some b \<Rightarrow> Some (max a b)))"

text \<open>
  \<^verbatim>\<open>calculateDistance\<close>, the haversine formula. In exact arithmetic its term \<open>a\<close> lies
  between 0 and 1 when both latitudes are within 90 degrees. The source computes it in
  doubles, and the roundings of the products and of the sum can leave it just above 1 for
  two points that are nearly antipodal: \<^verbatim>\<open>Math.sqrt(1 - a)\<close> is then NaN, and so is
  the distance. \<open>rounding\<close> is what the double arithmetic makes of the exact value of the
  term; it is the identity where the arithmetic is exact.
\<close>

definition calculateDistance ::
  "(real \<Rightarrow> real) \<Rightarrow> real \<Rightarrow> real \<Rightarrow> real \<Rightarrow> real \<Rightarrow> real option" where
  "calculateDistance rounding lat1 lng1 lat2 lng2 =
     (let R = 6371;
          dLat = (lat2 - lat1) * pi / 180;
          dLng = (lng2 - lng1) * pi / 180;
          a = rounding (sin (dLat / 2) * sin (dLat / 2) +
                cos (lat1 * pi / 180) * cos (lat2 * pi / 180) *
                sin (dLng / 2) * sin (dLng / 2))
      in if a < 0 \<or> 1 - a < 0 then None
         else Some (R * (2 * Math_atan2 (sqrt a) (sqrt (1 - a)))))"

definition scoreToLevel :: "real option \<Rightarrow> string" where
  "scoreToLevel score =
     (case score of
        None \<Rightarrow> ''very low''
      | Some s \<Rightarrow>
          (if s \<ge> 7.0 then ''very high''
           else if s \<ge> 5.5 then ''high''
           else if s \<ge> 4.0 then ''moderate''
           else if s \<ge> 2.0 then ''low''
           else ''very low''))"

record risk_event =
  re_id :: string
  re_severity :: real
  distance_km :: "real option"
  age_hours :: real

record risk =
  level :: string
  score :: "real option"
  events :: "risk_event list"

record risk_assessment =
  ra_location :: "real \<times> real"
  timestamp :: string
  overall_risk :: string
  risk_score :: "real option"
  active_events :: nat
  risks :: "event_type \<Rightarrow> risk"

text \<open>
  Modelled from the spec: the query of step 1 of section 4.3, answered by the store. The
  events within \<open>radiusKm\<close> of the point, by the store's own test \<open>near\<close> of a document
  against a centre and a distance in metres, that start no earlier than 24 hours before
  \<open>now\<close>; by descending severity; the first ten.
\<close>

definition find_recent_near ::
  "(real \<Rightarrow> real \<Rightarrow> real \<Rightarrow> event \<Rightarrow> bool) \<Rightarrow> date \<Rightarrow> real \<Rightarrow> real \<Rightarrow> real \<Rightarrow> event list \<Rightarrow> event list" where
  "find_recent_near near now lat lng radiusKm db =
     take 10 (sort_key (\<lambda>e. - severity e)
       (filter (\<lambda>e. near lng lat (radiusKm * 1000) e \<and> starts_at e \<ge> now - 24 * 60 * 60 * 1000) db))"

text \<open>The body of the loop over the events found: one event, on the risks so far.\<close>

definition assess_event ::
  "(real \<Rightarrow> real) \<Rightarrow> date \<Rightarrow> real \<Rightarrow> real \<Rightarrow> real \<Rightarrow> (event_type \<Rightarrow> risk) \<Rightarrow> event
     \<Rightarrow> (event_type \<Rightarrow> risk)" where
  "assess_event rounding now lat lng radiusKm rs e =
     (let distance = (case coordinates (geometry e) of
                        lng2 # lat2 # others \<Rightarrow> calculateDistance rounding lat lng lat2 lng2
                      | _ \<Rightarrow> None);
          timeDecay = calculateTimeDecay now (starts_at e);
          distanceDecay = map_option (\<lambda>d. calculateDistanceDecay d radiusKm) distance;
          adjustedSeverity = map_option (\<lambda>dd. severity e * timeDecay * dd) distanceDecay;
          r = rs (etype e)
      in rs (etype e :=
           r\<lparr> events := events r @
                  [\<lparr> re_id = event_id e, re_severity = severity e,
                     distance_km = map_option Math_round distance,
                     age_hours = Math_round (real_of_int (now - starts_at e) / (1000 * 60 * 60)) \<rparr>],
              score := Math_max (score r) adjustedSeverity \<rparr>))"

text \<open>
  \<open>db\<close> is the collection, or the error with which the query fails (\<open>Inl\<close>), which
  \<^verbatim>\<open>assessCurrentRisk\<close> logs and throws again.
\<close>

definition assessCurrentRisk ::
  "js \<Rightarrow> (real \<Rightarrow> real) \<Rightarrow> (real \<Rightarrow> real \<Rightarrow> real \<Rightarrow> event \<Rightarrow> bool) \<Rightarrow> date \<Rightarrow> string + event list
     \<Rightarrow> real \<Rightarrow> real \<Rightarrow> real \<Rightarrow> string + risk_assessment" where
  "assessCurrentRisk js rounding near now db lat lng radiusKm =
     (case db of
        Inl err \<Rightarrow> Inl err
      | Inr stored \<Rightarrow>
          (let recentEvents = find_recent_near near now lat lng radiusKm stored;
               rs = foldl (assess_event rounding now lat lng radiusKm)
                      (\<lambda>t. \<lparr>level = ''low'', score = Some 0, events = []\<rparr>) recentEvents;
               rs' = (\<lambda>t. (rs t)\<lparr>level := scoreToLevel (score (rs t))\<rparr>);
               maxScore = foldl (\<lambda>m t. Math_max m (score (rs t))) (Some 0)
                            [Earthquake, Flood, Storm, Fire, Aqi]
           in Inr \<lparr> ra_location = (lat, lng),
                    timestamp = toISOString js now,
                    overall_risk = scoreToLevel maxScore,
                    risk_score = map_option (\<lambda>m. Math_round (m * 10) / 10) maxScore,
                    active_events = length recentEvents,
                    risks = rs' \<rparr>))"


subsection \<open>AlertService: alert fanout\<close>

text \<open>An integer in a template literal: its decimal digits.\<close>

fun show_nat :: "nat \<Rightarrow> string" where
  "show_nat n =
     (if n < 10 then [''0123456789'' ! n] else show_nat (n div 10) @ [''0123456789'' ! (n mod 10)])"

declare show_nat.simps [simp del]

definition show_int :: "int \<Rightarrow> string" where
  "show_int i = (if i < 0 then CHR ''-'' # show_nat (nat (- i)) else show_nat (nat i))"

text \<open>A property of an event, \<open>None\<close> when the event does not have it, and its truth value.\<close>

definition get_property :: "event \<Rightarrow> string \<Rightarrow> jsval option" where
  "get_property e k = map_of (properties e) k"

definition truthy :: "jsval option \<Rightarrow> bool" where
  "truthy v =
     (case v of
        None \<Rightarrow> False
      | Some JUndefined \<Rightarrow> False
      | Some JNull \<Rightarrow> False
      | Some (JBool b) \<Rightarrow> b
      | Some (JNum x) \<Rightarrow> x \<noteq> 0
      | Some JNaN \<Rightarrow> False
      | Some (JStr s) \<Rightarrow> s \<noteq> []
      | Some (JArr xs) \<Rightarrow> True
      | Some (JObj kvs) \<Rightarrow> True)"

definition prop_string :: "js \<Rightarrow> event \<Rightarrow> string \<Rightarrow> string" where
  "prop_string js e k = (case get_property e k of None \<Rightarrow> ''undefined'' | Some v \<Rightarrow> String_of js v)"

text \<open>The degree sign, in UTF-8.\<close>

definition degree :: string where
  "degree = [CHR 0xC2, CHR 0xB0]"

text \<open>
  Without a place name the description is made of the coordinates; \<^verbatim>\<open>lat.toFixed\<close>
  throws a TypeError (\<open>Inl\<close>) when the coordinates have no second element.
\<close>

definition getLocationDescription :: "js \<Rightarrow> event \<Rightarrow> string + string" where
  "getLocationDescription js e =
     (if truthy (get_property e ''place'') then Inr (''near '' @ prop_string js e ''place'')
      else if truthy (get_property e ''location_name'') then Inr (''in '' @ prop_string js e ''location_name'')
      else if truthy (get_property e ''city'') then Inr (''in '' @ prop_string js e ''city'')
      else (case coordinates (geometry e) of
              lng # lat # others \<Rightarrow>
                Inr (''at '' @ toFixed js lat 2 @ degree @ ''N, '' @ toFixed js lng 2 @ degree @ ''E'')
            | _ \<Rightarrow> Inl ''TypeError: Cannot read properties of undefined (reading 'toFixed')''))"

definition getEarthquakeGuidance :: "real \<Rightarrow> string" where
  "getEarthquakeGuidance magnitude =
     (if magnitude \<ge> 7.0 then ''Major earthquake - expect significant damage.''
      else if magnitude \<ge> 6.0 then ''Strong earthquake - potential for damage.''
      else if magnitude \<ge> 5.0 then ''Moderate earthquake - may be widely felt.''
      else ''Light earthquake - minimal damage expected.'')"

definition getFloodGuidance :: "real \<Rightarrow> string" where
  "getFloodGuidance sev =
     (if sev \<ge> 8.0 then ''Severe flooding expected - evacuate if advised.''
      else if sev \<ge> 6.0 then ''Significant flooding possible - avoid travel.''
      else ''Minor flooding possible - exercise caution.'')"

text \<open>The adapters store wind speed and brightness as numbers; other values do not compare.\<close>

definition number_above :: "jsval option \<Rightarrow> real \<Rightarrow> bool" where
  "number_above v bound = (case v of Some (JNum x) \<Rightarrow> x \<noteq> 0 \<and> x > bound | _ \<Rightarrow> False)"

definition getStormGuidance :: "event \<Rightarrow> string" where
  "getStormGuidance e =
     (if number_above (get_property e ''wind_speed'') 25 then ''Hurricane-force winds possible.''
      else if number_above (get_property e ''wind_speed'') 15 then ''Strong winds and heavy rain expected.''
      else ''Severe weather conditions developing.'')"

definition getFireGuidance :: "event \<Rightarrow> string" where
  "getFireGuidance e =
     (if number_above (get_property e ''brightness'') 380 then ''High-intensity fire detected.''
      else ''Active fire in the area.'')"

record alert_content =
  ac_title :: string
  ac_body :: string
  ac_action :: string

definition generateAlertContent :: "js \<Rightarrow> event \<Rightarrow> string + alert_content" where
  "generateAlertContent js e =
     (case getLocationDescription js e of
        Inl err \<Rightarrow> Inl err
      | Inr whereabouts \<Rightarrow>
          Inr (case etype e of
                 Earthquake \<Rightarrow>
                   (let magnitude = toFixed js (severity e) 1
                    in \<lparr> ac_title = ''M'' @ magnitude @ '' Earthquake '' @ whereabouts,
                         ac_body = ''A magnitude '' @ magnitude @ '' earthquake occurred '' @ whereabouts
                                @ ''. '' @ getEarthquakeGuidance (severity e),
                         ac_action = (if severity e \<ge> 6.0 then ''Take immediate shelter''
                                   else ''Stay alert for aftershocks'') \<rparr>)
               | Flood \<Rightarrow>
                   \<lparr> ac_title = ''Flood Alert '' @ whereabouts,
                     ac_body = ''Flooding conditions detected '' @ whereabouts @ ''. ''
                            @ getFloodGuidance (severity e),
                     ac_action = ''Avoid low-lying areas and flooded roads'' \<rparr>
               | Storm \<Rightarrow>
                   \<lparr> ac_title = ''Severe Weather '' @ whereabouts,
                     ac_body = ''Severe weather conditions '' @ whereabouts @ ''. '' @ getStormGuidance e,
                     ac_action = ''Stay indoors and avoid travel'' \<rparr>
               | Fire \<Rightarrow>
                   \<lparr> ac_title = ''Wildfire Alert '' @ whereabouts,
                     ac_body = ''Active wildfire detected '' @ whereabouts @ ''. '' @ getFireGuidance e,
                     ac_action = ''Monitor evacuation routes and air quality'' \<rparr>
               | Aqi \<Rightarrow>
                   (let aqi_text = (if truthy (get_property e ''aqi'') then prop_string js e ''aqi''
                                    else String_of js (JNum (Math_round (severity e * 25))))
                    in \<lparr> ac_title = ''Air Quality Alert '' @ whereabouts,
                         ac_body = ''Air quality is ''
                                @ (if truthy (get_property e ''aqi_category'')
                                   then prop_string js e ''aqi_category'' else ''unhealthy'')
                                @ '' (AQI: '' @ aqi_text @ '') '' @ whereabouts,
                         ac_action = ''Limit outdoor activities, use masks if necessary'' \<rparr>)))"

text \<open>What is published on the broadcast channel: to everyone, or to the room of a subscription.\<close>

record new_event_notice =
  n_id :: string
  n_type :: event_type
  n_severity :: real
  n_location :: "real list"
  n_message :: string

record alert_message =
  al_id :: string
  al_type :: event_type
  al_severity :: real
  al_title :: string
  al_body :: string
  al_action :: string
  al_location :: "real list"
  al_timestamp :: string

datatype emission = Events_global new_event_notice | Alert_room string alert_message

text \<open>
  Modelled from the spec: the query of step 2 of section 4.4, answered by the store: the
  subscriptions whose location is inside the box of the event, bounds included, and whose
  list of channels is not empty. \<open>subs\<close> is the collection, or the error with which the
  query fails (\<open>Inl\<close>).
\<close>

definition findAffectedSubscriptions :: "string + subscription list \<Rightarrow> event \<Rightarrow> string + subscription list" where
  "findAffectedSubscriptions subs e =
     (case subs of
        Inl err \<Rightarrow> Inl err
      | Inr stored \<Rightarrow>
          (case area_bbox e of (minLng, minLat, maxLng, maxLat) \<Rightarrow>
             Inr (filter (\<lambda>s. minLng \<le> fst (location s) \<and> fst (location s) \<le> maxLng
                              \<and> minLat \<le> snd (location s) \<and> snd (location s) \<le> maxLat
                              \<and> channels s \<noteq> []) stored)))"

text \<open>
  \<^verbatim>\<open>sendAlert\<close>: what it publishes. \<open>push_ok\<close> tells whether the push service accepts
  the notification that \<^verbatim>\<open>sendWebPush\<close> sends; when it does not, the error is caught
  and nothing is published for the subscription.
\<close>

definition sendAlert ::
  "js \<Rightarrow> date \<Rightarrow> (push_subscription \<Rightarrow> bool) \<Rightarrow> event \<Rightarrow> alert_content \<Rightarrow> subscription \<Rightarrow> emission list" where
  "sendAlert js now push_ok e content s =
     (case push s of
        None \<Rightarrow> []
      | Some p \<Rightarrow>
          (if ''webpush'' \<in> set (channels s) \<and> push_ok p
           then [Alert_room (''alerts:'' @ sub_id s)
                   \<lparr> al_id = ''alert-'' @ event_id e @ ''-'' @ sub_id s @ ''-'' @ show_int now,
                     al_type = etype e, al_severity = severity e,
                     al_title = ac_title content, al_body = ac_body content, al_action = ac_action content,
                     al_location = coordinates (geometry e),
                     al_timestamp = toISOString js now \<rparr>]
           else []))"

text \<open>
  \<^verbatim>\<open>processEventAlerts\<close>, on the messages published so far. The alerts of the
  subscriptions are sent side by side; they are listed here in the order of the
  subscriptions, before the notice to everyone, which waits for all of them.
\<close>

definition processEventAlerts ::
  "js \<Rightarrow> date \<Rightarrow> (push_subscription \<Rightarrow> bool) \<Rightarrow> string + subscription list
     \<Rightarrow> emission list \<Rightarrow> event \<Rightarrow> emission list" where
  "processEventAlerts js now push_ok subs io e =
     (case findAffectedSubscriptions subs e of
        Inl err \<Rightarrow> io
      | Inr affectedSubscriptions \<Rightarrow>
          (if affectedSubscriptions = [] then io
           else (case generateAlertContent js e of
                   Inl err \<Rightarrow> io
                 | Inr alertContent \<Rightarrow>
                     io @ concat (map (sendAlert js now push_ok e alertContent) affectedSubscriptions)
                        @ [Events_global
                             \<lparr> n_id = event_id e, n_type = etype e, n_severity = severity e,
                               n_location = coordinates (geometry e),
                               n_message = ac_title alertContent \<rparr>])))"

text \<open>
  \<^verbatim>\<open>processNewEvents\<close>: \<open>db\<close> is the collection of events, or the error with which the
  query fails, and \<open>eventType\<close> the optional filter.
\<close>

definition processNewEvents ::
  "js \<Rightarrow> date \<Rightarrow> (push_subscription \<Rightarrow> bool) \<Rightarrow> string + event list \<Rightarrow> string + subscription list
     \<Rightarrow> event_type option \<Rightarrow> emission list \<Rightarrow> emission list" where
  "processNewEvents js now push_ok db subs eventType io =
     (case db of
        Inl err \<Rightarrow> io
      | Inr stored \<Rightarrow>
          (let since = now - 10 * 60 * 1000;
               recentEvents =
                 filter (\<lambda>e. ingested_at e \<ge> since \<and> severity e \<ge> 4.0
                              \<and> (case eventType of None \<Rightarrow> True | Some t \<Rightarrow> etype e = t)) stored
           in if recentEvents = [] then io
              else foldl (processEventAlerts js now push_ok subs) io recentEvents))"


subsection \<open>OpenWeatherService\<close>

text \<open>\<^verbatim>\<open>replace(/\s+/g, '-')\<close>: every run of white space becomes one hyphen.\<close>

function replace_spaces :: "string \<Rightarrow> string" where
  "replace_spaces [] = []"
| "replace_spaces (c # cs) =
     (case skip_one white_space (c # cs) of
        None \<Rightarrow> c # replace_spaces cs
      | Some rest \<Rightarrow> CHR ''-'' # replace_spaces (skip_all white_space rest))"
  by pat_completeness auto
termination
proof (relation "measure length")
  show "wf (measure length)" by simp
next
  fix c :: char and cs :: string
  show "(cs, c # cs) \<in> measure length" by simp
next
  fix c :: char and cs rest :: string
  assume one: "skip_one white_space (c # cs) = Some rest"
  have shorter: "length r \<le> length s" if "skip_one ws s = Some r" for ws s r
    using that by (auto simp: skip_one_def split: list.splits)
  have all: "length (skip_all ws s) \<le> length s" for ws s
  proof (induction ws s rule: skip_all.induct)
    case (1 ws s)
    show ?case
    proof (cases "skip_one ws s")
      case None
      then show ?thesis by (subst skip_all.simps) simp
    next
      case (Some r)
      then have "length (skip_all ws r) \<le> length r" by (rule 1)
      moreover have "length r \<le> length s" using Some by (rule shorter)
      ultimately show ?thesis using Some by (subst skip_all.simps) simp
    qed
  qed
  obtain w others where
    w: "filter (\<lambda>w. w \<noteq> [] \<and> take (length w) (c # cs) = w) white_space = w # others"
    and rest: "rest = drop (length w) (c # cs)"
    using one by (auto simp: skip_one_def split: list.splits)
  have "w \<in> set (filter (\<lambda>w. w \<noteq> [] \<and> take (length w) (c # cs) = w) white_space)"
    unfolding w by simp
  then have "w \<noteq> []" by simp
  then have "length rest < length (c # cs)" by (simp add: rest)
  then have "length (skip_all white_space rest) < length (c # cs)"
    using all [of white_space rest] by simp
  then show "(skip_all white_space rest, c # cs) \<in> measure length" by simp
qed

record ow_location =
  l_lat :: real
  l_lng :: real
  l_name :: string

text \<open>One entry of \<^verbatim>\<open>data.alerts\<close>; \<open>w_start\<close> and \<open>w_end\<close> are seconds since the epoch.\<close>

record ow_alert =
  w_event :: string
  w_description :: string
  w_start :: int
  w_end :: int
  w_sender_name :: jsval
  w_tags :: jsval

text \<open>
  \<^verbatim>\<open>data.current\<close>: a field that can be missing is an option, and \<open>c_weather\<close> is the
  list of the (main, description) pairs of \<^verbatim>\<open>current.weather\<close>.
\<close>

record ow_current =
  c_temp :: real
  c_feels_like :: real
  c_humidity :: "real option"
  c_pressure :: jsval
  c_wind_speed :: "real option"
  c_wind_deg :: jsval
  c_weather :: "(string \<times> string) list"

text \<open>The reply for one location: its alerts (none when the field is missing) and \<^verbatim>\<open>current\<close>.\<close>

record onecall =
  oc_alerts :: "ow_alert list"
  oc_current :: "ow_current option"

definition mapAlertType :: "string \<Rightarrow> event_type" where
  "mapAlertType eventName =
     (let event = toLowerCase eventName
      in if includes_str event ''flood'' \<or> includes_str event ''rain'' then Flood
         else if includes_str event ''fire'' \<or> includes_str event ''smoke'' then Fire
         else if includes_str event ''air'' \<or> includes_str event ''pollution'' then Aqi
         else Storm)"

definition calculateSeverity :: "string \<Rightarrow> string \<Rightarrow> real" where
  "calculateSeverity event description =
     (let text = toLowerCase (event @ '' '' @ description)
      in if includes_str text ''extreme'' \<or> includes_str text ''severe'' \<or> includes_str text ''major''
         then 8.0
         else if includes_str text ''moderate'' \<or> includes_str text ''warning'' then 6.0
         else if includes_str text ''minor'' \<or> includes_str text ''watch'' then 4.0
         else 5.0)"

definition or_0 :: "real option \<Rightarrow> real" where
  "or_0 x = (case x of None \<Rightarrow> 0 | Some v \<Rightarrow> v)"

definition isSevereWeather :: "ow_current \<Rightarrow> bool" where
  "isSevereWeather weather =
     (let windSpeed = or_0 (c_wind_speed weather);
          temp = c_temp weather - 273.15;
          humidity = or_0 (c_humidity weather)
      in windSpeed > 15 \<or> temp > 40 \<or> temp < - 10 \<or> humidity > 90)"

definition calculateWeatherSeverity :: "ow_current \<Rightarrow> real" where
  "calculateWeatherSeverity weather =
     (let windSpeed = or_0 (c_wind_speed weather);
          temp = c_temp weather - 273.15;
          s1 = 3.0 + (if windSpeed > 25 then 2.0 else if windSpeed > 15 then 1.0 else 0);
          s2 = s1 + (if temp > 45 \<or> temp < - 20 then 2.0
                     else if temp > 40 \<or> temp < - 10 then 1.0 else 0)
      in min s2 10.0)"

definition calculateAlertBoundingBox :: "real \<Rightarrow> real \<Rightarrow> real \<Rightarrow> bbox" where
  "calculateAlertBoundingBox lng lat sev =
     (let radiusKm = max 5 (sev * 10);
          radiusDegrees = radiusKm / 111
      in (lng - radiusDegrees, lat - radiusDegrees, lng + radiusDegrees, lat + radiusDegrees))"

definition alert_eventData :: "date \<Rightarrow> ow_location \<Rightarrow> ow_alert \<Rightarrow> event" where
  "alert_eventData now loc alert =
     (let sev = calculateSeverity (w_event alert) (w_description alert)
      in \<lparr> event_id = ''openweather-'' @ l_name loc @ ''-'' @ show_int (w_start alert) @ ''-''
                      @ replace_spaces (w_event alert),
           source = ''openweather'',
           etype = mapAlertType (w_event alert),
           severity = sev,
           confidence = 0.85,
           geometry = \<lparr> gtype = Point, coordinates = [l_lng loc, l_lat loc] \<rparr>,
           area_bbox = calculateAlertBoundingBox (l_lng loc) (l_lat loc) sev,
           starts_at = w_start alert * 1000,
           ends_at = Some (w_end alert * 1000),
           properties =
             [(''event_name'', JStr (w_event alert)), (''description'', JStr (w_description alert)),
              (''sender_name'', w_sender_name alert),
              (''tags'', if truthy (Some (w_tags alert)) then w_tags alert else JArr []),
              (''location_name'', JStr (l_name loc))],
           ingested_at = now \<rparr>)"

definition severe_eventData :: "date \<Rightarrow> ow_location \<Rightarrow> ow_current \<Rightarrow> string \<times> string \<Rightarrow> event" where
  "severe_eventData now loc currentWeather weather0 =
     (let sev = calculateWeatherSeverity currentWeather
      in \<lparr> event_id = ''openweather-severe-'' @ l_name loc @ ''-'' @ show_int now,
           source = ''openweather'',
           etype = Storm,
           severity = sev,
           confidence = 0.80,
           geometry = \<lparr> gtype = Point, coordinates = [l_lng loc, l_lat loc] \<rparr>,
           area_bbox = calculateAlertBoundingBox (l_lng loc) (l_lat loc) sev,
           starts_at = now,
           ends_at = None,
           properties =
             [(''temperature'', JNum (c_temp currentWeather - 273.15)),
              (''feels_like'', JNum (c_feels_like currentWeather - 273.15)),
              (''humidity'', case c_humidity currentWeather of None \<Rightarrow> JUndefined | Some h \<Rightarrow> JNum h),
              (''pressure'', c_pressure currentWeather),
              (''wind_speed'', case c_wind_speed currentWeather of None \<Rightarrow> JUndefined | Some w \<Rightarrow> JNum w),
              (''wind_deg'', c_wind_deg currentWeather),
              (''weather_main'', JStr (fst weather0)),
              (''weather_description'', JStr (snd weather0)),
              (''location_name'', JStr (l_name loc))],
           ingested_at = now \<rparr>)"

text \<open>
  The second half of the body of the loop over the locations: the storm event made from
  the current conditions. It is counted as inserted whatever the store returns. Without
  \<^verbatim>\<open>current\<close>, or without a first entry of \<^verbatim>\<open>current.weather\<close>, a TypeError is thrown
  before the write, caught and logged by the loop.
\<close>

definition ingest_current :: "date \<Rightarrow> ow_location \<Rightarrow> ow_current option \<Rightarrow> ingest_state \<Rightarrow> ingest_state" where
  "ingest_current now loc current st =
     (case current of
        None \<Rightarrow> st
      | Some currentWeather \<Rightarrow>
          (if isSevereWeather currentWeather
           then (case c_weather currentWeather of
                   [] \<Rightarrow> st
                 | weather0 # others \<Rightarrow>
                     (let (result, docs') =
                            findOneAndUpdate (severe_eventData now loc currentWeather weather0) (docs st)
                      in st\<lparr>docs := docs', inserted := inserted st + 1\<rparr>))
           else st))"

text \<open>
  The loop over the locations. \<open>fetch loc\<close> is the outcome of the request for a location,
  \<open>Inl\<close> an error of the request or of the parsing, which is caught and logged; \<open>clock i\<close>
  is the time at which location number \<open>i\<close> is processed.
\<close>

fun ingest_locations ::
  "(nat \<Rightarrow> date) \<Rightarrow> (ow_location \<Rightarrow> string + onecall) \<Rightarrow> nat \<Rightarrow> ow_location list
     \<Rightarrow> ingest_state \<Rightarrow> ingest_state" where
  "ingest_locations clock fetch i [] st = st"
| "ingest_locations clock fetch i (loc # rest) st =
     ingest_locations clock fetch (Suc i) rest
       (case fetch loc of
          Inl err \<Rightarrow> st
        | Inr data \<Rightarrow>
            ingest_current (clock i) loc (oc_current data)
              (foldl (\<lambda>st alert. write_event (alert_eventData (clock i) loc alert) st)
                 st (oc_alerts data)))"

text \<open>\<open>api_key\<close> is the key of the configuration, \<open>None\<close> when it is not set.\<close>

definition ingestWeatherAlerts ::
  "string option \<Rightarrow> (nat \<Rightarrow> date) \<Rightarrow> (ow_location \<Rightarrow> string + onecall) \<Rightarrow> ow_location list
     \<Rightarrow> event list \<Rightarrow> (string + nat \<times> nat) \<times> event list" where
  "ingestWeatherAlerts api_key clock fetch locations db =
     (if \<not> truthy_string api_key then (Inl ''OpenWeather API key not configured'', db)
      else (let st = ingest_locations clock fetch 0 locations \<lparr>docs = db, inserted = 0, updated = 0\<rparr>
            in (Inr (inserted st, updated st), docs st)))"


subsection \<open>NASAService: the orbital-event feed\<close>

text \<open>
  One entry of \<^verbatim>\<open>event.geometry\<close>: its type with its coordinates, in the GeoJSON form
  of the type, and its date. A point is (longitude, latitude); a polygon is the list of
  its rings, a ring its first position and the others. The source asserts that the type is
  one of the two (\<^verbatim>\<open>as 'Point' | 'Polygon'\<close>), so the last line of
  \<^verbatim>\<open>calculateBoundingBoxFromGeometry\<close>, for another type, has no counterpart here.
\<close>

type_synonym ring = "(real \<times> real) \<times> (real \<times> real) list"

datatype eonet_shape = PointAt real real | PolygonOf "ring list"

record eonet_geometry =
  eg_shape :: eonet_shape
  eg_date :: string

record eonet_category =
  ec_id :: jsval
  ec_title :: jsval

text \<open>
  One entry of \<^verbatim>\<open>data.events\<close>; \<open>en_geometry\<close> is \<open>None\<close> when the event has no
  \<^verbatim>\<open>geometry\<close>.
\<close>

record eonet_event =
  en_id :: string
  en_title :: string
  en_description :: jsval
  en_link :: jsval
  en_closed :: jsval
  en_magnitudeValue :: jsval
  en_magnitudeUnit :: jsval
  en_categories :: "eonet_category list"
  en_geometry :: "eonet_geometry list option"

definition mapEONETCategory :: "jsval \<Rightarrow> event_type" where
  "mapEONETCategory categoryId =
     (if categoryId = JNum 6 then Earthquake
      else if categoryId = JNum 8 then Fire
      else if categoryId = JNum 9 then Flood
      else if categoryId = JNum 10 then Storm
      else if categoryId = JNum 12 then Storm
      else if categoryId = JNum 13 then Aqi
      else if categoryId = JNum 14 then Aqi
      else if categoryId = JNum 15 then Storm
      else if categoryId = JNum 16 then Storm
      else if categoryId = JNum 17 then Storm
      else if categoryId = JNum 18 then Storm
      else if categoryId = JNum 19 then Storm
      else Storm)"

definition calculateEONETSeverity :: "jsval \<Rightarrow> string \<Rightarrow> real" where
  "calculateEONETSeverity categoryId title =
     (let base = (if categoryId = JNum 6 then 7.0
                  else if categoryId = JNum 8 then 6.5
                  else if categoryId = JNum 9 then 7.5
                  else if categoryId = JNum 10 then 6.0
                  else if categoryId = JNum 12 then 8.0
                  else 5.0);
          titleLower = toLowerCase title;
          s1 = (if includes_str titleLower ''major'' \<or> includes_str titleLower ''severe''
                then base + 1.0 else base);
          s2 = (if includes_str titleLower ''extreme'' \<or> includes_str titleLower ''catastrophic''
                then s1 + 2.0 else s1);
          s3 = (if includes_str titleLower ''minor'' \<or> includes_str titleLower ''small''
                then s2 - 1.0 else s2)
      in max 1.0 (min 10.0 s3))"

text \<open>
  The box of a geometry. For a polygon it is the extent of the first ring; without a first
  ring \<^verbatim>\<open>coords.map\<close> throws a TypeError (\<open>Inl\<close>).
\<close>

definition calculateBoundingBoxFromGeometry :: "eonet_shape \<Rightarrow> string + bbox" where
  "calculateBoundingBoxFromGeometry shape =
     (case shape of
        PointAt lng lat \<Rightarrow>
          (let radius = 0.1 in Inr (lng - radius, lat - radius, lng + radius, lat + radius))
      | PolygonOf rings \<Rightarrow>
          (case rings of
             [] \<Rightarrow> Inl ''TypeError: Cannot read properties of undefined (reading 'map')''
           | (c, cs) # others \<Rightarrow>
               (let lngs = map fst cs; lats = map snd cs
                in Inr (fold min lngs (fst c), fold min lats (snd c),
                        fold max lngs (fst c), fold max lats (snd c)))))"

text \<open>
  The event made of an entry of the feed and its latest geometry, or the error thrown on
  the way (\<open>Inl\<close>): a TypeError when the entry has no first category, the one of the box,
  or the error of the write. The schema of \<^verbatim>\<open>models/Event.ts\<close> declares
  \<^verbatim>\<open>geometry.coordinates\<close> as \<^verbatim>\<open>[Number]\<close>, which the position of a point is and
  the rings of a polygon are not. What Mongoose, outside the repository, makes of the rings
  in the write is the parameter \<open>cast_rings\<close>: the coordinates that it stores, or the error
  with which \<^verbatim>\<open>findOneAndUpdate\<close> throws.
\<close>

definition eonet_eventData ::
  "js \<Rightarrow> (ring list \<Rightarrow> string + real list) \<Rightarrow> date \<Rightarrow> eonet_event \<Rightarrow> eonet_geometry \<Rightarrow> string + event" where
  "eonet_eventData js cast_rings now ev latestGeometry =
     (case en_categories ev of
        [] \<Rightarrow> Inl ''TypeError: Cannot read properties of undefined (reading 'id')''
      | category0 # others \<Rightarrow>
          (case calculateBoundingBoxFromGeometry (eg_shape latestGeometry) of
             Inl err \<Rightarrow> Inl err
           | Inr box \<Rightarrow>
               (case (case eg_shape latestGeometry of
                        PointAt lng lat \<Rightarrow> Inr \<lparr> gtype = Point, coordinates = [lng, lat] \<rparr>
                      | PolygonOf rings \<Rightarrow>
                          (case cast_rings rings of
                             Inl err \<Rightarrow> Inl err
                           | Inr stored \<Rightarrow> Inr \<lparr> gtype = Polygon, coordinates = stored \<rparr>)) of
                  Inl err \<Rightarrow> Inl err
                | Inr geo \<Rightarrow>
                    Inr \<lparr> event_id = ''nasa-eonet-'' @ en_id ev,
                          source = ''nasa-eonet'',
                          etype = mapEONETCategory (ec_id category0),
                          severity = calculateEONETSeverity (ec_id category0) (en_title ev),
                          confidence = 0.90,
                          geometry = geo,
                          area_bbox = box,
                          starts_at = parseDate js (eg_date latestGeometry),
                          ends_at = None,
                          properties =
                            [(''title'', JStr (en_title ev)),
                             (''description'', if truthy (Some (en_description ev))
                                               then en_description ev else JStr ''''),
                             (''category'', ec_title category0),
                             (''category_id'', ec_id category0),
                             (''link'', en_link ev),
                             (''closed'', if truthy (Some (en_closed ev))
                                          then en_closed ev else JNull),
                             (''magnitudeValue'', if truthy (Some (en_magnitudeValue ev))
                                                  then en_magnitudeValue ev else JNull),
                             (''magnitudeUnit'', if truthy (Some (en_magnitudeUnit ev))
                                                 then en_magnitudeUnit ev else JNull)],
                          ingested_at = now \<rparr>)))"

text \<open>
  The loop over \<^verbatim>\<open>data.events\<close>, with the error that ends it, if any: the function
  logs it and throws it again. An entry without geometry is passed over. \<open>clock i\<close> is the
  time at which entry number \<open>i\<close> is processed.
\<close>

fun ingest_eonet ::
  "js \<Rightarrow> (ring list \<Rightarrow> string + real list) \<Rightarrow> (nat \<Rightarrow> date) \<Rightarrow> nat \<Rightarrow> eonet_event list
     \<Rightarrow> ingest_state \<Rightarrow> string option \<times> ingest_state" where
  "ingest_eonet js cast_rings clock i [] st = (None, st)"
| "ingest_eonet js cast_rings clock i (ev # rest) st =
     (case en_geometry ev of
        None \<Rightarrow> ingest_eonet js cast_rings clock (Suc i) rest st
      | Some geometries \<Rightarrow>
          (if geometries = [] then ingest_eonet js cast_rings clock (Suc i) rest st
           else (case eonet_eventData js cast_rings (clock i) ev (last geometries) of
                   Inl err \<Rightarrow> (Some err, st)
                 | Inr eventData \<Rightarrow>
                     ingest_eonet js cast_rings clock (Suc i) rest (write_event eventData st))))"

text \<open>
  \<open>fetched\<close> is the outcome of the fetch and JSON parse: \<open>Inl\<close> an error, \<open>Inr\<close> the
  entries. The result is what the promise settles to, with the collection after the call.
\<close>

definition ingestEONETEvents ::
  "js \<Rightarrow> (ring list \<Rightarrow> string + real list) \<Rightarrow> (nat \<Rightarrow> date) \<Rightarrow> string + eonet_event list
     \<Rightarrow> event list \<Rightarrow> (string + nat \<times> nat) \<times> event list" where
  "ingestEONETEvents js cast_rings clock fetched db =
     (case fetched of
        Inl err \<Rightarrow> (Inl err, db)
      | Inr entries \<Rightarrow>
          (case ingest_eonet js cast_rings clock 0 entries \<lparr>docs = db, inserted = 0, updated = 0\<rparr> of
             (Some err, st) \<Rightarrow> (Inl err, docs st)
           | (None, st) \<Rightarrow> (Inr (inserted st, updated st), docs st)))"

subsection \<open>NASAService: the fire-detection feed\<close>

text \<open>
  \<^verbatim>\<open>fireData\<close>, the object made of the header line and of one line of the table: the
  assignments in the order in which \<^verbatim>\<open>forEach\<close> makes them, a value being \<open>None\<close>
  (\<^verbatim>\<open>undefined\<close>) when the line has no such column; and the value of a key, which is
  the one assigned last.
\<close>

definition fireData_of :: "string list \<Rightarrow> string list \<Rightarrow> (string \<times> string option) list" where
  "fireData_of headers values =
     map (\<lambda>(index, header).
            (trim header, if index < length values then Some (trim (values ! index)) else None))
       (enumerate 0 headers)"

definition get_field :: "(string \<times> string option) list \<Rightarrow> string \<Rightarrow> string option" where
  "get_field fireData key =
     (case filter (\<lambda>(k, v). k = key) (rev fireData) of
        [] \<Rightarrow> None
      | (k, v) # others \<Rightarrow> v)"

text \<open>\<^verbatim>\<open>value || fallback\<close> on strings.\<close>

definition or_string :: "string option \<Rightarrow> string \<Rightarrow> string" where
  "or_string v fallback = (if truthy_string v then (case v of None \<Rightarrow> fallback | Some s \<Rightarrow> s) else fallback)"

definition calculateFireSeverity :: "real \<Rightarrow> real \<Rightarrow> real" where
  "calculateFireSeverity brightness conf =
     (let s1 = 3.0 + (if brightness > 380 then 3.0
                      else if brightness > 350 then 2.0
                      else if brightness > 320 then 1.0
                      else 0);
          s2 = (if conf > 80 then s1 + 1.0
                else if conf < 50 then s1 - 1.0
                else s1)
      in max 1.0 (min 10.0 s2))"

definition calculateFireBoundingBox :: "real \<Rightarrow> real \<Rightarrow> real \<Rightarrow> bbox" where
  "calculateFireBoundingBox lng lat brightness =
     (let radiusKm = max 2 ((brightness - 300) / 20);
          radiusDegrees = radiusKm / 111
      in (lng - radiusDegrees, lat - radiusDegrees, lng + radiusDegrees, lat + radiusDegrees))"

text \<open>The id of a detection: \<^verbatim>\<open>undefined\<close> in a template literal reads "undefined".\<close>

definition firms_eventId :: "js \<Rightarrow> string \<Rightarrow> string option \<Rightarrow> real \<Rightarrow> real \<Rightarrow> string" where
  "firms_eventId js countryCode acq_date lat lng =
     ''nasa-firms-'' @ countryCode @ ''-''
       @ (case acq_date of None \<Rightarrow> ''undefined'' | Some d \<Rightarrow> d) @ ''-''
       @ toFixed js lat 4 @ ''-'' @ toFixed js lng 4"

text \<open>A number of the free-form properties, which can be NaN.\<close>

definition number_value :: "real option \<Rightarrow> jsval" where
  "number_value x = (case x of None \<Rightarrow> JNaN | Some v \<Rightarrow> JNum v)"

text \<open>
  What the loop does with one line of the table: \<open>None\<close> where it goes on to the next line
  without a write (no latitude or longitude, a confidence under 30), \<open>Some (Inr eventData)\<close>
  the event that it writes, \<open>Some (Inl err)\<close> the error with which the write throws.
  \<open>parseFloat\<close> is the function of the language, \<open>None\<close> for NaN. A confidence that is
  NaN is not under 30. The model's event holds numbers: an eventData in which the latitude,
  the longitude, the confidence or the brightness, and with it the box, is NaN is one that
  the cast of Mongoose to the \<^verbatim>\<open>Number\<close> paths of the schema refuses, and
  \<^verbatim>\<open>findOneAndUpdate\<close> throws.
\<close>

definition fire_eventData ::
  "js \<Rightarrow> (string \<Rightarrow> real option) \<Rightarrow> date \<Rightarrow> string \<Rightarrow> (string \<times> string option) list
     \<Rightarrow> (string + event) option" where
  "fire_eventData js parseFloat now countryCode fireData =
     (case (get_field fireData ''latitude'', get_field fireData ''longitude'') of
        (Some latitude, Some longitude) \<Rightarrow>
          (if latitude = [] \<or> longitude = [] then None
           else (let lat = parseFloat latitude;
                     lng = parseFloat longitude;
                     conf = parseFloat (or_string (get_field fireData ''confidence'') ''50'');
                     brightness = parseFloat (or_string (get_field fireData ''brightness'') ''300'')
                 in if (case conf of None \<Rightarrow> False | Some c \<Rightarrow> c < 30) then None
                    else (case (lat, lng, conf, brightness) of
                            (Some lat', Some lng', Some conf', Some brightness') \<Rightarrow>
                              Some (Inr
                                \<lparr> event_id = firms_eventId js countryCode
                                               (get_field fireData ''acq_date'') lat' lng',
                                  source = ''nasa-firms'',
                                  etype = Fire,
                                  severity = calculateFireSeverity brightness' conf',
                                  confidence = conf' / 100,
                                  geometry = \<lparr> gtype = Point, coordinates = [lng', lat'] \<rparr>,
                                  area_bbox = calculateFireBoundingBox lng' lat' brightness',
                                  starts_at =
                                    parseDate js
                                      ((case get_field fireData ''acq_date'' of
                                          None \<Rightarrow> ''undefined''
                                        | Some d \<Rightarrow> d)
                                       @ ''T'' @ or_string (get_field fireData ''acq_time'') ''12:00:00''
                                       @ ''Z''),
                                  ends_at = None,
                                  properties =
                                    [(''brightness'', JNum brightness'),
                                     (''scan'', number_value
                                        (parseFloat (or_string (get_field fireData ''scan'') ''1''))),
                                     (''track'', number_value
                                        (parseFloat (or_string (get_field fireData ''track'') ''1''))),
                                     (''satellite'', JStr (or_string (get_field fireData ''satellite'') ''VIIRS'')),
                                     (''instrument'', JStr (or_string (get_field fireData ''instrument'') ''VIIRS'')),
                                     (''version'', JStr (or_string (get_field fireData ''version'') ''2.0NRT'')),
                                     (''bright_t31'', number_value
                                        (parseFloat (or_string (get_field fireData ''bright_t31'') ''0''))),
                                     (''frp'', number_value
                                        (parseFloat (or_string (get_field fireData ''frp'') ''0''))),
                                     (''daynight'', JStr (or_string (get_field fireData ''daynight'') ''D'')),
                                     (''country_code'', JStr countryCode)],
                                  ingested_at = now \<rparr>)
                          | _ \<Rightarrow> Some (Inl ''CastError: Cast to Number failed for value NaN''))))
      | _ \<Rightarrow> None)"

text \<open>
  The loop over the lines after the header line. A line that is empty once trimmed is
  passed over. An error of a write ends the loop: it is caught, with the errors of the
  request, by the \<^verbatim>\<open>try\<close> around the work on one country.
\<close>

fun ingest_fires ::
  "js \<Rightarrow> (string \<Rightarrow> real option) \<Rightarrow> date \<Rightarrow> string \<Rightarrow> string list \<Rightarrow> string list
     \<Rightarrow> ingest_state \<Rightarrow> ingest_state" where
  "ingest_fires js parseFloat now countryCode headers [] st = st"
| "ingest_fires js parseFloat now countryCode headers (line # rest) st =
     (if trim line = [] then ingest_fires js parseFloat now countryCode headers rest st
      else (case fire_eventData js parseFloat now countryCode
                   (fireData_of headers (split_on CHR '','' line)) of
              None \<Rightarrow> ingest_fires js parseFloat now countryCode headers rest st
            | Some (Inl err) \<Rightarrow> st
            | Some (Inr eventData) \<Rightarrow>
                ingest_fires js parseFloat now countryCode headers rest (write_event eventData st)))"

text \<open>
  The loop over the country codes. \<open>clock i\<close> is the time at which country number \<open>i\<close> is
  processed and \<open>yesterday\<close> what \<^verbatim>\<open>setDate(getDate() - 1)\<close> makes of it, a day
  earlier in local time. \<open>fetch countryCode dateStr\<close> is the outcome of the request for
  the detections of a country on a date: \<open>Inl\<close> an error, \<open>Inr\<close> the text of the table.
\<close>

fun ingest_fire_countries ::
  "js \<Rightarrow> (string \<Rightarrow> real option) \<Rightarrow> (date \<Rightarrow> date) \<Rightarrow> (nat \<Rightarrow> date)
     \<Rightarrow> (string \<Rightarrow> string \<Rightarrow> string + string) \<Rightarrow> nat \<Rightarrow> string list \<Rightarrow> ingest_state \<Rightarrow> ingest_state" where
  "ingest_fire_countries js parseFloat yesterday clock fetch i [] st = st"
| "ingest_fire_countries js parseFloat yesterday clock fetch i (countryCode # rest) st =
     ingest_fire_countries js parseFloat yesterday clock fetch (Suc i) rest
       (let dateStr = isoDate js (yesterday (clock i))
        in case fetch countryCode dateStr of
             Inl err \<Rightarrow> st
           | Inr csvText \<Rightarrow>
               (if includes_str csvText ''No data'' then st
                else (case split_on CHR 0x0A csvText of
                        [] \<Rightarrow> st
                      | line0 # lines \<Rightarrow>
                          ingest_fires js parseFloat (clock i) countryCode
                            (split_on CHR '','' line0) lines st)))"

definition ingestFIRMSData ::
  "js \<Rightarrow> (string \<Rightarrow> real option) \<Rightarrow> (date \<Rightarrow> date) \<Rightarrow> (nat \<Rightarrow> date)
     \<Rightarrow> (string \<Rightarrow> string \<Rightarrow> string + string) \<Rightarrow> string list \<Rightarrow> event list
     \<Rightarrow> (nat \<times> nat) \<times> event list" where
  "ingestFIRMSData js parseFloat yesterday clock fetch countryCodes db =
     (let st = ingest_fire_countries js parseFloat yesterday clock fetch 0 countryCodes
                 \<lparr>docs = db, inserted = 0, updated = 0\<rparr>
      in ((inserted st, updated st), docs st))"


section \<open>Theorems\<close>

text \<open>
  C8. For every distance \<open>d\<close> and query radius \<open>r > 0\<close> the distance decay is
  \<open>max 0.1 (1 - d / r)\<close>, so an event exactly on the boundary of the query radius
  (\<open>d = r\<close>) contributes 0.1 and not 0; for every elapsed time of \<open>h \<ge> 0\<close> hours the
  time decay is \<open>max 0.1 (exp (- h / 12))\<close>, which is never below 0.1.
\<close>

theorem decay_floors:
  assumes "0 < r" and "0 \<le> h" and "real_of_int (now - eventTime) = h * 3600000"
  shows "calculateDistanceDecay d r = max 0.1 (1 - d / r)
       \<and> calculateDistanceDecay r r = 0.1
       \<and> calculateTimeDecay now eventTime = max 0.1 (exp (- h / 12))
       \<and> 0.1 \<le> calculateTimeDecay now eventTime"
  using assms by (simp add: calculateDistanceDecay_def calculateTimeDecay_def)

theorem decay_floors_witness:
  "calculateDistanceDecay 20 50 = max 0.1 (1 - 20 / 50)
     \<and> calculateDistanceDecay 50 50 = 0.1
     \<and> calculateTimeDecay 7200000 0 = max 0.1 (exp (- 2 / 12))
     \<and> 0.1 \<le> calculateTimeDecay 7200000 0"
  using decay_floors [of 50 2 7200000 0 20] by simp

subsection \<open>The event store\<close>

lemma findOneAndUpdate_ingested_at:
  "ingested_at (fst (findOneAndUpdate d ds)) = ingested_at d"
  by (induction ds) (auto simp: set_fields_def Let_def split: prod.splits)

lemma findById_findOneAndUpdate:
  "findById (event_id d) (snd (findOneAndUpdate d ds)) = Some (fst (findOneAndUpdate d ds))"
  by (induction ds) (auto simp: set_fields_def Let_def split: prod.splits)

lemma findOneAndUpdate_result:
  "fst (findOneAndUpdate d ds) =
     set_fields (case findById (event_id d) ds of None \<Rightarrow> d | Some old \<Rightarrow> old) d"
  by (induction ds) (auto simp: set_fields_def Let_def split: prod.splits option.splits)

subsection \<open>Seismic ingestion\<close>

text \<open>
  C3 (amended). Ingesting a seismic feed record with magnitude 5.2 at lat 3.0, lng 101.0
  stores, under the id of the record, an Event of type earthquake with severity 5.2 whose
  box is the one of radius \<open>max 10 (5.2 * 50) = 260\<close> km, that is \<open>260 / 111\<close> degrees:
  about [98.658, 0.658, 103.342, 5.342].
\<close>

theorem seismic_scenario:
  assumes "f_mag feature = Some 5.2" and "f_lng feature = 101" and "f_lat feature = 3"
  shows "\<exists>e. findById (''usgs-'' @ f_id feature)
                (snd (ingestEarthquakes clock (Inr [feature]) db)) = Some e
           \<and> etype e = Earthquake \<and> severity e = 5.2
           \<and> area_bbox e = calculateBoundingBox 101 3 5.2
           \<and> (case area_bbox e of (minLng, minLat, maxLng, maxLat) \<Rightarrow>
                 \<bar>minLng - 98.658\<bar> < 0.001 \<and> \<bar>minLat - 0.658\<bar> < 0.001
               \<and> \<bar>maxLng - 103.342\<bar> < 0.001 \<and> \<bar>maxLat - 5.342\<bar> < 0.001)"
proof -
  let ?d = "usgs_eventData (clock 0) feature 5.2"
  let ?e = "fst (findOneAndUpdate ?d db)"
  have id: "event_id ?d = ''usgs-'' @ f_id feature"
    by (simp add: usgs_eventData_def)
  have stored: "snd (ingestEarthquakes clock (Inr [feature]) db) = snd (findOneAndUpdate ?d db)"
    using assms(1) by (simp add: ingestEarthquakes_def write_event_def Let_def split: prod.splits)
  have found: "findById (''usgs-'' @ f_id feature) (snd (findOneAndUpdate ?d db)) = Some ?e"
    using findById_findOneAndUpdate [of ?d db] id by simp
  have fields: "etype ?e = Earthquake \<and> severity ?e = 5.2
                  \<and> area_bbox ?e = calculateBoundingBox 101 3 5.2"
    using assms(2,3) by (simp add: findOneAndUpdate_result set_fields_def usgs_eventData_def)
  have approx: "case calculateBoundingBox 101 3 5.2 of (minLng, minLat, maxLng, maxLat) \<Rightarrow>
                 \<bar>minLng - 98.658\<bar> < 0.001 \<and> \<bar>minLat - 0.658\<bar> < 0.001
               \<and> \<bar>maxLng - 103.342\<bar> < 0.001 \<and> \<bar>maxLat - 5.342\<bar> < 0.001"
    by (simp add: calculateBoundingBox_def Let_def)
  show ?thesis using stored found fields approx by simp
qed

theorem seismic_scenario_witness:
  "\<exists>e. findById ''usgs-us7000abcd''
          (snd (ingestEarthquakes (\<lambda>i. 1000)
             (Inr [\<lparr>f_id = ''us7000abcd'', f_mag = Some 5.2, f_lng = 101, f_lat = 3, f_depth = 10,
                    f_time = 1700000000000, f_place = JStr ''Malaysia'', f_magType = JStr ''mb'',
                    f_alert = JNull, f_tsunami = JNum 0, f_url = JNull, f_felt = JNull,
                    f_sig = JNum 416\<rparr>]) [])) = Some e
        \<and> etype e = Earthquake \<and> severity e = 5.2
        \<and> area_bbox e = calculateBoundingBox 101 3 5.2
        \<and> (case area_bbox e of (minLng, minLat, maxLng, maxLat) \<Rightarrow>
              \<bar>minLng - 98.658\<bar> < 0.001 \<and> \<bar>minLat - 0.658\<bar> < 0.001
            \<and> \<bar>maxLng - 103.342\<bar> < 0.001 \<and> \<bar>maxLat - 5.342\<bar> < 0.001)"
  using seismic_scenario [of "\<lparr>f_id = ''us7000abcd'', f_mag = Some 5.2, f_lng = 101, f_lat = 3,
      f_depth = 10, f_time = 1700000000000, f_place = JStr ''Malaysia'', f_magType = JStr ''mb'',
      f_alert = JNull, f_tsunami = JNum 0, f_url = JNull, f_felt = JNull, f_sig = JNum 416\<rparr>"
      "\<lambda>i. 1000" "[]"]
  by simp

text \<open>
  The box of the scenario as the spec states it, [100.766, 2.766, 101.234, 3.234], is the
  one of a radius of 26 km: every coordinate of the stored box is more than 2 degrees away
  from it.
\<close>

theorem seismic_scenario_counterexample:
  "\<not> (\<exists>e. findById ''usgs-us7000abcd''
            (snd (ingestEarthquakes (\<lambda>i. 1000)
               (Inr [\<lparr>f_id = ''us7000abcd'', f_mag = Some 5.2, f_lng = 101, f_lat = 3, f_depth = 10,
                      f_time = 1700000000000, f_place = JStr ''Malaysia'', f_magType = JStr ''mb'',
                      f_alert = JNull, f_tsunami = JNum 0, f_url = JNull, f_felt = JNull,
                      f_sig = JNum 416\<rparr>]) [])) = Some e
          \<and> (case area_bbox e of (minLng, minLat, maxLng, maxLat) \<Rightarrow>
                 \<bar>minLng - 100.766\<bar> < 2 \<or> \<bar>minLat - 2.766\<bar> < 2
               \<or> \<bar>maxLng - 101.234\<bar> < 2 \<or> \<bar>maxLat - 3.234\<bar> < 2))"
  by (simp add: ingestEarthquakes_def write_event_def usgs_eventData_def
        calculateBoundingBox_def Let_def)

lemma write_event_counts:
  "updated (write_event d st) = updated st \<and> inserted (write_event d st) = Suc (inserted st)"
  using findOneAndUpdate_ingested_at [of d "docs st"]
  by (auto simp: write_event_def split: prod.splits)

lemma ingest_features_never_updates:
  "updated (ingest_features clock i fs st) = updated st"
  by (induction fs arbitrary: i st) (auto simp: write_event_counts split: option.splits)

lemma ingestEarthquakes_never_updates:
  "ingestEarthquakes clock (Inr features) db = (Inr (ins, upd), db') \<Longrightarrow> upd = 0"
  by (auto simp: ingestEarthquakes_def Let_def ingest_features_never_updates)

text \<open>
  C1. Ingesting the same upstream record a second time leaves one stored Event for its id,
  with the fields of the latest ingestion, and the second call should count it as an
  update. The code compares the \<^verbatim>\<open>ingested_at\<close> of the document returned after the
  write with the value it has just written, which are the same: the second call of the
  seismic adapter on an unchanged one-record feed reports \<open>(inserted, updated) = (1, 0)\<close>
  again, while the store keeps the single event, stamped by the second call.
\<close>

theorem reingest_counted_as_insert:
  "(let quake = \<lparr>f_id = ''us7000abcd'', f_mag = Some 5.2, f_lng = 101, f_lat = 3, f_depth = 10,
                  f_time = 1700000000000, f_place = JStr ''Malaysia'', f_magType = JStr ''mb'',
                  f_alert = JNull, f_tsunami = JNum 0, f_url = JNull, f_felt = JNull,
                  f_sig = JNum 416\<rparr>;
        first = ingestEarthquakes (\<lambda>i. 1000) (Inr [quake]) [];
        second = ingestEarthquakes (\<lambda>i. 2000) (Inr [quake]) (snd first)
    in fst first = Inr (1, 0) \<and> fst second = Inr (1, 0)
       \<and> map event_id (snd second) = [''usgs-us7000abcd'']
       \<and> map ingested_at (snd second) = [2000])"
  by (simp add: ingestEarthquakes_def write_event_def usgs_eventData_def set_fields_def Let_def)

subsection \<open>Heatmap requests\<close>

text \<open>
  C10. For every heatmap request whose bbox string parses to four numbers, the request is
  rejected as an invalid bounding box whenever west, south, east or north is 0: a box with
  an edge on the equator or on the prime meridian, such as "0,-5,10,5", is refused.
\<close>

theorem heatmap_rejects_zero_edge:
  assumes "map Number (split_on CHR '','' b) = Some w # Some s # Some e # Some n # extra"
    and "w = 0 \<or> s = 0 \<or> e = 0 \<or> n = 0"
  shows "heatmap_bbox Number (Some b)
           = Inl (400, ''Invalid bounding box format. Use: west,south,east,north'')"
proof -
  have "b \<noteq> []" using assms(1) by auto
  then show ?thesis
    using assms by (auto simp: heatmap_bbox_def element_def falsy_def Let_def)
qed

theorem heatmap_rejects_zero_edge_witness:
  "heatmap_bbox (\<lambda>s. if s = ''0'' then Some 0 else if s = ''-5'' then Some (- 5)
                     else if s = ''10'' then Some 10 else if s = ''5'' then Some 5 else None)
      (Some ''0,-5,10,5'')
     = Inl (400, ''Invalid bounding box format. Use: west,south,east,north'')"
  using heatmap_rejects_zero_edge [of
      "\<lambda>s. if s = ''0'' then Some 0 else if s = ''-5'' then Some (- 5)
           else if s = ''10'' then Some 10 else if s = ''5'' then Some 5 else None"
      "''0,-5,10,5''" 0 "- 5" 10 5 "[]"]
  by simp

lemma heatmap_accepts_nonzero:
  assumes "map Number (split_on CHR '','' b) = Some w # Some s # Some e # Some n # extra"
    and "w \<noteq> 0" and "s \<noteq> 0" and "e \<noteq> 0" and "n \<noteq> 0"
  shows "heatmap_bbox Number (Some b) = Inr (Some w, Some s, Some e, Some n)"
proof -
  have "b \<noteq> []" using assms(1) by auto
  then show ?thesis
    using assms by (auto simp: heatmap_bbox_def element_def falsy_def Let_def)
qed

subsection \<open>Batch ingestion\<close>

text \<open>
  C7 (amended). The aggregate call runs four source adapters (seismic, orbital-event,
  weather-alert, air-quality; the fire-detection adapter is not part of it), reports each
  source's outcome on its own, a failed source as a failure entry with its error message,
  and returns totals of inserted and updated events that are the sums over the fulfilled
  sources only. If the seismic source fails and the other three succeed, the result
  reports 3 successes and 1 failure.
\<close>

theorem batch_reports_four_sources:
  "b_success (ingest_all run)
   \<and> total_sources (ingest_all run) = 4
   \<and> map r_source (results (ingest_all run)) = [''usgs'', ''nasa-eonet'', ''openweather'', ''openaq'']
   \<and> map r_success (results (ingest_all run))
        = map is_fulfilled [usgs run, eonet run, openweather run, openaq run]
   \<and> map r_error (results (ingest_all run))
        = map rejection_message [usgs run, eonet run, openweather run, openaq run]
   \<and> total_inserted (ingest_all run)
        = sum_list (map fulfilled_inserted [usgs run, eonet run, openweather run, openaq run])
   \<and> total_updated (ingest_all run)
        = sum_list (map fulfilled_updated [usgs run, eonet run, openweather run, openaq run])
   \<and> (usgs run = Rejected (Some msg) \<and> is_fulfilled (eonet run) \<and> is_fulfilled (openweather run)
        \<and> is_fulfilled (openaq run)
      \<longrightarrow> length (filter r_success (results (ingest_all run))) = 3
        \<and> filter (\<lambda>r. \<not> r_success r) (results (ingest_all run))
            = [\<lparr>r_source = ''usgs'', r_success = False, r_inserted = None, r_updated = None,
                r_error = Some msg\<rparr>]
        \<and> total_inserted (ingest_all run)
            = fulfilled_inserted (eonet run) + fulfilled_inserted (openweather run)
              + fulfilled_inserted (openaq run)
        \<and> total_updated (ingest_all run)
            = fulfilled_updated (eonet run) + fulfilled_updated (openweather run)
              + fulfilled_updated (openaq run))"
  by (auto simp: ingest_all_def Let_def source_entry_def is_fulfilled_def rejection_message_def
        or_zero_def fulfilled_inserted_def fulfilled_updated_def split: settled.splits)

theorem batch_reports_four_sources_witness:
  "(let run = \<lparr>usgs = Rejected (Some ''request to earthquake.usgs.gov failed''),
               eonet = Fulfilled 1 2, firms = Fulfilled 10 20,
               openweather = Fulfilled 3 4, openaq = Fulfilled 5 6\<rparr>
    in map r_source (results (ingest_all run)) = [''usgs'', ''nasa-eonet'', ''openweather'', ''openaq'']
     \<and> length (filter r_success (results (ingest_all run))) = 3
     \<and> map r_error (filter (\<lambda>r. \<not> r_success r) (results (ingest_all run)))
          = [Some ''request to earthquake.usgs.gov failed'']
     \<and> total_inserted (ingest_all run) = 9 \<and> total_updated (ingest_all run) = 12)"
  using batch_reports_four_sources [of
      "\<lparr>usgs = Rejected (Some ''request to earthquake.usgs.gov failed''),
        eonet = Fulfilled 1 2, firms = Fulfilled 10 20,
        openweather = Fulfilled 3 4, openaq = Fulfilled 5 6\<rparr>"
      "''request to earthquake.usgs.gov failed''"]
  by (simp add: is_fulfilled_def fulfilled_inserted_def fulfilled_updated_def)

text \<open>
  With the seismic source failing and the other four adapters, the fire-detection one
  among them, succeeding, the result has four entries, three of them successes, none for
  the fire-detection source, and totals without the fire-detection counts.
\<close>

theorem batch_five_sources_counterexample:
  "(let run = \<lparr>usgs = Rejected (Some ''request to earthquake.usgs.gov failed''),
               eonet = Fulfilled 1 2, firms = Fulfilled 10 20,
               openweather = Fulfilled 3 4, openaq = Fulfilled 5 6\<rparr>
    in length (filter r_success (results (ingest_all run))) \<noteq> 4
     \<and> length (results (ingest_all run)) \<noteq> 5
     \<and> ''nasa-firms'' \<notin> set (map r_source (results (ingest_all run)))
     \<and> total_inserted (ingest_all run) \<noteq> 1 + 10 + 3 + 5
     \<and> total_updated (ingest_all run) \<noteq> 2 + 20 + 4 + 6)"
  by (simp add: ingest_all_def source_entry_def or_zero_def Let_def)

subsection \<open>Air-quality ingestion\<close>

lemma findOneAndUpdate_docs:
  "e \<in> set (snd (findOneAndUpdate d ds)) \<Longrightarrow>
     e \<in> set ds \<or> (source e = source d \<and> etype e = etype d \<and> severity e = severity d)"
  by (induction ds) (auto simp: set_fields_def Let_def split: prod.splits if_splits)

lemma write_event_docs:
  "e \<in> set (docs (write_event d st)) \<Longrightarrow>
     e \<in> set (docs st) \<or> (source e = source d \<and> etype e = etype d \<and> severity e = severity d)"
  using findOneAndUpdate_docs [of e d "docs st"]
  by (auto simp: write_event_def Let_def split: prod.splits if_splits)

lemma location_event_severity:
  assumes "location_event js now country grp = Some d"
  shows "source d = ''openaq'' \<and> etype d = Aqi \<and> 6 \<le> severity d"
proof -
  obtain k ms p lat lng where
    d: "d = openaq_eventData js now country k p lat lng ms (calculateAQI ms)"
    and big: "100 < aqi (calculateAQI ms)"
    using assms
    by (auto simp: location_event_def Let_def
          split: prod.splits list.splits option.splits if_splits)
  have "6 \<le> severity d" using big by (simp add: d openaq_eventData_def aqiToSeverity_def)
  moreover have "source d = ''openaq'' \<and> etype d = Aqi" by (simp add: d openaq_eventData_def)
  ultimately show ?thesis by simp
qed

lemma process_location_docs:
  assumes "e \<in> set (docs (process_location js now country st grp))"
  shows "e \<in> set (docs st) \<or> (source e = ''openaq'' \<and> etype e = Aqi \<and> 6 \<le> severity e)"
proof (cases "location_event js now country grp")
  case None
  then show ?thesis using assms by (simp add: process_location_def)
next
  case (Some d)
  then show ?thesis
    using write_event_docs [of e d st] assms location_event_severity [OF Some]
    by (auto simp: process_location_def)
qed

lemma foldl_process_location_docs:
  "e \<in> set (docs (foldl (process_location js now country) st grps)) \<Longrightarrow>
     e \<in> set (docs st) \<or> (source e = ''openaq'' \<and> etype e = Aqi \<and> 6 \<le> severity e)"
proof (induction grps arbitrary: st)
  case Nil
  then show ?case by simp
next
  case (Cons g grps)
  then show ?case using process_location_docs [of e js now country st g] by fastforce
qed

lemma ingest_countries_docs:
  "e \<in> set (docs (ingest_countries js clock fetch i countries st)) \<Longrightarrow>
     e \<in> set (docs st) \<or> (source e = ''openaq'' \<and> etype e = Aqi \<and> 6 \<le> severity e)"
proof (induction countries arbitrary: i st)
  case Nil
  then show ?case by simp
next
  case (Cons c cs)
  show ?case
  proof (cases "fetch c")
    case (Inl err)
    then show ?thesis using Cons by simp
  next
    case (Inr reply)
    show ?thesis
    proof (cases reply)
      case None
      then show ?thesis using Cons Inr by simp
    next
      case (Some rs)
      let ?st = "foldl (process_location js (clock i) c) st (group_by_location js rs [])"
      have "e \<in> set (docs ?st) \<or> (source e = ''openaq'' \<and> etype e = Aqi \<and> 6 \<le> severity e)"
        using Cons.IH [of "Suc i" ?st] Cons.prems Inr Some by simp
      then show ?thesis
        using foldl_process_location_docs [of e js "clock i" c st] by blast
    qed
  qed
qed

text \<open>
  C9. Every air-quality Event that the OpenAQ adapter persists has severity at least 6.0:
  every document of the collection after an ingestion is a document that was there before
  or an air-quality event of severity 6 or more; a location whose overall AQI is 100 or
  less is skipped without a write; and the stepwise mapping gives every AQI above 100 at
  least 6.0 (6.0 up to 150, 7.5 up to 200, 9.0 up to 300, 10.0 beyond).
\<close>

theorem openaq_severity_at_least_6:
  "(\<forall>e \<in> set (snd (ingestAirQualityData js clock fetch countries db)).
       e \<in> set db \<or> (source e = ''openaq'' \<and> etype e = Aqi \<and> 6 \<le> severity e))
   \<and> (aqi (calculateAQI ms) \<le> 100 \<longrightarrow> process_location js now country st (k, ms) = st)
   \<and> (100 < a \<longrightarrow> 6 \<le> aqiToSeverity a
        \<and> aqiToSeverity a
            = (if a \<le> 150 then 6 else if a \<le> 200 then 7.5 else if a \<le> 300 then 9 else 10))"
proof -
  have "\<forall>e \<in> set (snd (ingestAirQualityData js clock fetch countries db)).
       e \<in> set db \<or> (source e = ''openaq'' \<and> etype e = Aqi \<and> 6 \<le> severity e)"
    using ingest_countries_docs [of _ js clock fetch 0 countries "\<lparr>docs = db, inserted = 0, updated = 0\<rparr>"]
    by (auto simp: ingestAirQualityData_def Let_def)
  moreover have "aqi (calculateAQI ms) \<le> 100 \<longrightarrow> process_location js now country st (k, ms) = st"
    by (simp add: process_location_def location_event_def Let_def
          split: list.splits option.splits)
  moreover have "100 < a \<longrightarrow> 6 \<le> aqiToSeverity a
        \<and> aqiToSeverity a
            = (if a \<le> 150 then 6 else if a \<le> 200 then 7.5 else if a \<le> 300 then 9 else 10)"
    by (simp add: aqiToSeverity_def)
  ultimately show ?thesis by blast
qed

theorem openaq_severity_at_least_6_witness:
  "(let js = \<lparr>toFixed = (\<lambda>x n. if x = 3.139 then ''3.1390'' else ''101.6869''),
          toISOString = (\<lambda>d. ''2025-01-27T08:00:00.000Z''),
          parseDate = (\<lambda>s. 1737936000000), String_of = (\<lambda>v. ''[object Object]'')\<rparr>;
        haze = \<lparr>m_parameter = ''PM25'', m_value = 60, m_unit = ug_m3,
          m_coordinates = Some (3.139, 101.6869), m_date_utc = ''2025-01-27T00:00:00Z'',
          m_location = JStr ''Kuala Lumpur'', m_city = JNull, m_country = JStr ''MY'',
          m_sourceName = JNull, m_mobile = False\<rparr>;
        clean = \<lparr>m_parameter = ''PM25'', m_value = 20, m_unit = ug_m3,
          m_coordinates = Some (3.139, 101.6869), m_date_utc = ''2025-01-27T00:00:00Z'',
          m_location = JStr ''Kuala Lumpur'', m_city = JNull, m_country = JStr ''MY'',
          m_sourceName = JNull, m_mobile = False\<rparr>;
        db' = snd (ingestAirQualityData js (\<lambda>i. 5)
                (\<lambda>c. if c = ''MY'' then Inr (Some [haze]) else Inl ''timeout'') [''MY'', ''SG''] [])
    in map severity db' = [7.5] \<and> (\<forall>e \<in> set db'. 6 \<le> severity e)
     \<and> aqi (calculateAQI [haze]) = 153 \<and> aqiToSeverity 153 = 7.5
     \<and> aqi (calculateAQI [clean]) = 68
     \<and> process_location js 5 ''MY'' \<lparr>docs = [], inserted = 0, updated = 0\<rparr>
           (''3.1390-101.6869'', [clean]) = \<lparr>docs = [], inserted = 0, updated = 0\<rparr>)"
  using openaq_severity_at_least_6 [of
      "\<lparr>toFixed = (\<lambda>x n. if x = 3.139 then ''3.1390'' else ''101.6869''),
          toISOString = (\<lambda>d. ''2025-01-27T08:00:00.000Z''),
          parseDate = (\<lambda>s. 1737936000000), String_of = (\<lambda>v. ''[object Object]'')\<rparr>"
      "\<lambda>i. 5"
      "\<lambda>c. if c = ''MY'' then Inr (Some [\<lparr>m_parameter = ''PM25'', m_value = 60, m_unit = ug_m3,
          m_coordinates = Some (3.139, 101.6869), m_date_utc = ''2025-01-27T00:00:00Z'',
          m_location = JStr ''Kuala Lumpur'', m_city = JNull, m_country = JStr ''MY'',
          m_sourceName = JNull, m_mobile = False\<rparr>]) else Inl ''timeout''"
      "[''MY'', ''SG'']" "[]"
      "[\<lparr>m_parameter = ''PM25'', m_value = 20, m_unit = ug_m3,
          m_coordinates = Some (3.139, 101.6869), m_date_utc = ''2025-01-27T00:00:00Z'',
          m_location = JStr ''Kuala Lumpur'', m_city = JNull, m_country = JStr ''MY'',
          m_sourceName = JNull, m_mobile = False\<rparr>]" 5 "''MY''" "\<lparr>docs = [], inserted = 0, updated = 0\<rparr>" "''3.1390-101.6869''" 153]
  by (simp add: ingestAirQualityData_def process_location_def location_event_def calculateAQI_def
        toLowerCase_def
        toLowerChar_def pollutantAQI_def pm25ToAQI_def linearInterpolation_def Math_round_def
        Let_def ug_m3_def write_event_def openaq_eventData_def aqiToSeverity_def)

subsection \<open>Subscription writes\<close>

text \<open>
  Creation checks the contacts: a request that passes the checks of
  \<^verbatim>\<open>router.post('/')\<close> gives the store a document in which every listed channel has
  its contact.
\<close>

lemma post_validation_contacts:
  assumes "post_validation body = None"
  shows "channel_contact_ok (post_subscriptionData uuid now body)"
proof -
  let ?chans = "case q_channels body of None \<Rightarrow> [] | Some cs \<Rightarrow> cs"
  have e: "''email'' \<in> set ?chans \<Longrightarrow> truthy_string (q_email body)"
    and p: "''sms'' \<in> set ?chans \<Longrightarrow> truthy_string (q_phone body)"
    and w: "''webpush'' \<in> set ?chans \<Longrightarrow> q_push body \<noteq> None"
    using assms by (auto simp: post_validation_def Let_def split: if_splits)
  show ?thesis
    using e p w
    by (auto simp: channel_contact_ok_def contact_present_def post_subscriptionData_def list_all_iff)
qed

lemma post_subscription_enforces_contacts:
  assumes "post_subscription uuid now body subs = Inr req"
  shows "channel_contact_ok (case req of Save s \<Rightarrow> s | FindByIdAndUpdate sid s \<Rightarrow> s)"
proof -
  have "post_validation body = None"
    using assms by (cases "post_validation body") (auto simp: post_subscription_def)
  then show ?thesis
    using assms post_validation_contacts [of body uuid now]
    by (auto simp: post_subscription_def Let_def split: option.splits)
qed

text \<open>
  C6. Every subscription write path, creation and update alike, should refuse a state in
  which a listed channel has no contact datum. \<^verbatim>\<open>router.put('/:subscriptionId')\<close>
  makes no such check: on a stored subscription with a push subscription and the channel
  \<^verbatim>\<open>webpush\<close> only, the body \<^verbatim>\<open>{channels: ['email']}\<close> is accepted, and the
  subscription persisted lists the channel \<^verbatim>\<open>email\<close> without an email address.
\<close>

theorem put_breaks_channel_contact:
  "(let stored = \<lparr>sub_id = ''5f3c'', email = None, phone = None,
                   push = Some \<lparr>endpoint = ''https://push.example/abc'', p256dh = ''key'', auth = ''secret''\<rparr>,
                   location = (101.6869, 3.139), radius_km = 25, channels = [''webpush''],
                   language = ''en'', created_at = 1000\<rparr>;
        body = \<lparr>q_id = None, q_created_at = None, q_email = None, q_phone = None, q_push = None,
                 q_location = None, q_radius_km = None, q_channels = Some [''email''],
                 q_language = None\<rparr>
    in channel_contact_ok stored
     \<and> put_subscription ''5f3c'' body [stored] = Inr (stored\<lparr>channels := [''email'']\<rparr>, [stored\<lparr>channels := [''email'']\<rparr>])
     \<and> \<not> channel_contact_ok (stored\<lparr>channels := [''email'']\<rparr>))"
  by (simp add: put_subscription_def findByIdAndUpdate_def apply_updates_def schema_valid_def
        location_valid_def channel_contact_ok_def contact_present_def truthy_string_def Let_def)

subsection \<open>Risk assessment\<close>

text \<open>
  In exact arithmetic the haversine term lies between 0 and 1 when both latitudes are
  within 90 degrees; when the rounding keeps it there the distance is a number, and not
  negative.
\<close>

lemma haversine_le_1:
  fixes p1 p2 y :: real
  assumes "0 \<le> cos p1 * cos p2"
  shows "sin ((p2 - p1) / 2) * sin ((p2 - p1) / 2) + cos p1 * cos p2 * sin y * sin y \<le> 1"
proof -
  let ?x = "(p2 - p1) / 2"
  have s: "sin y * sin y \<le> 1"
  proof -
    have "(sin y)\<^sup>2 + (cos y)\<^sup>2 = 1" by (rule sin_cos_squared_add)
    moreover have "0 \<le> (cos y)\<^sup>2" by simp
    ultimately have "(sin y)\<^sup>2 \<le> 1" by linarith
    then show ?thesis by (simp only: power2_eq_square)
  qed
  have "cos p1 * cos p2 * sin y * sin y = cos p1 * cos p2 * (sin y * sin y)" by simp
  also have "\<dots> \<le> cos p1 * cos p2 * 1"
    using assms s by (intro mult_left_mono) auto
  finally have 1: "cos p1 * cos p2 * sin y * sin y \<le> cos p1 * cos p2" by simp
  have 2: "cos p1 * cos p2 = (cos (p2 - p1) + cos (p2 + p1)) / 2"
    by (simp add: cos_add cos_diff)
  have 3: "cos (p2 + p1) \<le> 1" by simp
  have "cos (2 * ?x) = 1 - 2 * (sin ?x)\<^sup>2" by (rule cos_double_sin)
  moreover have "2 * ?x = p2 - p1" by simp
  ultimately have 4: "cos (p2 - p1) = 1 - 2 * (sin ?x * sin ?x)"
    by (simp only: power2_eq_square)
  have lin: "\<And>A B C D E :: real.
      B \<le> C \<Longrightarrow> C = (D + E) / 2 \<Longrightarrow> E \<le> 1 \<Longrightarrow> D = 1 - 2 * A \<Longrightarrow> A + B \<le> 1"
    by argo
  show ?thesis by (rule lin [OF 1 2 3 4])
qed

lemma Math_atan2_nonneg: "0 \<le> y \<Longrightarrow> 0 \<le> x \<Longrightarrow> 0 \<le> Math_atan2 y x"
  by (auto simp: Math_atan2_def)

lemma cos_deg_nonneg: "\<bar>lat\<bar> \<le> 90 \<Longrightarrow> 0 \<le> cos (lat * pi / 180)"
proof -
  assume a: "\<bar>lat\<bar> \<le> 90"
  have "- (pi / 2) \<le> lat * pi / 180 \<and> lat * pi / 180 \<le> pi / 2"
  proof -
    have "\<bar>lat * pi / 180\<bar> = \<bar>lat\<bar> * pi / 180" by (simp add: abs_mult)
    also have "\<dots> \<le> 90 * pi / 180" using a by (simp add: mult_right_mono)
    finally show ?thesis by (simp add: abs_le_iff)
  qed
  then show ?thesis by (simp add: cos_ge_zero)
qed

lemma calculateDistance_nonneg:
  assumes "\<bar>lat1\<bar> \<le> 90" and "\<bar>lat2\<bar> \<le> 90"
    and exact: "\<forall>x. 0 \<le> x \<and> x \<le> 1 \<longrightarrow> 0 \<le> rounding x \<and> rounding x \<le> 1"
  shows "\<exists>d. calculateDistance rounding lat1 lng1 lat2 lng2 = Some d \<and> 0 \<le> d"
proof -
  let ?p1 = "lat1 * pi / 180" and ?p2 = "lat2 * pi / 180"
  let ?y = "(lng2 - lng1) * pi / 180 / 2"
  let ?x = "(lat2 - lat1) * pi / 180 / 2"
  let ?a = "sin ?x * sin ?x + cos ?p1 * cos ?p2 * sin ?y * sin ?y"
  have c: "0 \<le> cos ?p1 * cos ?p2"
    using cos_deg_nonneg [OF assms(1)] cos_deg_nonneg [OF assms(2)] by simp
  have x: "?x = (?p2 - ?p1) / 2" by (simp add: field_simps)
  have le: "?a \<le> 1" using haversine_le_1 [OF c, of ?y] unfolding x .
  have "0 \<le> sin ?y * sin ?y" by simp
  then have "0 \<le> cos ?p1 * cos ?p2 * (sin ?y * sin ?y)" using c by (rule mult_nonneg_nonneg [rotated])
  moreover have "0 \<le> sin ?x * sin ?x" by simp
  ultimately have ge: "0 \<le> ?a" by (simp only: mult.assoc add_nonneg_nonneg)
  define a where "a = rounding ?a"
  have a: "0 \<le> a" "a \<le> 1" using exact ge le by (simp_all add: a_def)
  have "0 \<le> Math_atan2 (sqrt a) (sqrt (1 - a))"
    using a by (intro Math_atan2_nonneg) auto
  moreover have "calculateDistance rounding lat1 lng1 lat2 lng2
                   = (if a < 0 \<or> 1 - a < 0 then None
                      else Some (6371 * (2 * Math_atan2 (sqrt a) (sqrt (1 - a)))))"
    unfolding a_def by (simp add: calculateDistance_def Let_def)
  ultimately show ?thesis using a by simp
qed

lemma timeDecay_range:
  "eventTime \<le> now \<Longrightarrow> 0 < calculateTimeDecay now eventTime \<and> calculateTimeDecay now eventTime \<le> 1"
  by (simp add: calculateTimeDecay_def Let_def max_def)

lemma distanceDecay_range:
  assumes "0 \<le> d" and "0 < r"
  shows "0 < calculateDistanceDecay d r \<and> calculateDistanceDecay d r \<le> 1"
proof -
  have "0 \<le> d / r" using assms by simp
  then show ?thesis by (simp add: calculateDistanceDecay_def)
qed

lemma adjusted_le_10:
  fixes sev td dd :: real
  assumes "sev \<le> 10" and "0 < td" and "td \<le> 1" and "0 < dd" and "dd \<le> 1"
  shows "sev * td * dd \<le> 10"
proof (cases "0 \<le> sev")
  case True
  have "sev * td \<le> sev * 1" using True assms(3) by (rule mult_left_mono [rotated])
  moreover have "sev * td * dd \<le> sev * td * 1"
    using True assms(2,5) by (intro mult_left_mono) auto
  ultimately show ?thesis using assms(1) by simp
next
  case False
  then have "sev * td < 0" using assms(2) by (simp add: mult_neg_pos)
  then have "sev * td * dd < 0" using assms(4) by (simp add: mult_neg_pos)
  then show ?thesis by simp
qed

lemma assess_event_bounded:
  assumes inv: "\<forall>t. \<exists>s. score (rs t) = Some s \<and> 0 \<le> s \<and> s \<le> 10"
    and r: "0 < radiusKm" and lat: "\<bar>lat\<bar> \<le> 90"
    and exact: "\<forall>x. 0 \<le> x \<and> x \<le> 1 \<longrightarrow> 0 \<le> rounding x \<and> rounding x \<le> 1"
    and sev: "severity e \<le> 10" and past: "starts_at e \<le> now"
    and pos: "coordinates (geometry e) = lng2 # lat2 # others" and lat2: "\<bar>lat2\<bar> \<le> 90"
  shows "\<forall>t. \<exists>s. score (assess_event rounding now lat lng radiusKm rs e t) = Some s \<and> 0 \<le> s \<and> s \<le> 10"
proof
  fix t
  obtain d where d: "calculateDistance rounding lat lng lat2 lng2 = Some d" "0 \<le> d"
    using calculateDistance_nonneg [OF lat lat2 exact] by blast
  obtain s where s: "score (rs (etype e)) = Some s" "0 \<le> s" "s \<le> 10"
    using inv by blast
  let ?adj = "severity e * calculateTimeDecay now (starts_at e) * calculateDistanceDecay d radiusKm"
  have adj: "?adj \<le> 10"
    using adjusted_le_10 [OF sev] timeDecay_range [OF past] distanceDecay_range [OF d(2) r]
    by blast
  show "\<exists>s. score (assess_event rounding now lat lng radiusKm rs e t) = Some s \<and> 0 \<le> s \<and> s \<le> 10"
  proof (cases "t = etype e")
    case True
    have "score (assess_event rounding now lat lng radiusKm rs e t) = Some (max s ?adj)"
      using True pos d(1) s(1) by (simp add: assess_event_def Let_def Math_max_def)
    moreover have "0 \<le> max s ?adj \<and> max s ?adj \<le> 10" using s adj by simp
    ultimately show ?thesis by blast
  next
    case False
    then have "assess_event rounding now lat lng radiusKm rs e t = rs t"
      by (simp add: assess_event_def Let_def)
    then show ?thesis using inv by simp
  qed
qed

lemma foldl_assess_event_bounded:
  assumes "0 < radiusKm" and "\<bar>lat\<bar> \<le> 90"
    and "\<forall>x. 0 \<le> x \<and> x \<le> 1 \<longrightarrow> 0 \<le> rounding x \<and> rounding x \<le> 1"
  shows "(\<forall>t. \<exists>s. score (rs t) = Some s \<and> 0 \<le> s \<and> s \<le> 10) \<Longrightarrow>
         (\<forall>e \<in> set es. severity e \<le> 10 \<and> starts_at e \<le> now
            \<and> (\<exists>lng2 lat2 others. coordinates (geometry e) = lng2 # lat2 # others \<and> \<bar>lat2\<bar> \<le> 90)) \<Longrightarrow>
         (\<forall>t. \<exists>s. score (foldl (assess_event rounding now lat lng radiusKm) rs es t) = Some s
                  \<and> 0 \<le> s \<and> s \<le> 10)"
proof (induction es arbitrary: rs)
  case Nil
  then show ?case by simp
next
  case (Cons e es)
  obtain lng2 lat2 others where pos: "coordinates (geometry e) = lng2 # lat2 # others" "\<bar>lat2\<bar> \<le> 90"
    using Cons.prems(2) by auto
  have step: "\<forall>t. \<exists>s. score (assess_event rounding now lat lng radiusKm rs e t) = Some s \<and> 0 \<le> s \<and> s \<le> 10"
    using assess_event_bounded [OF Cons.prems(1) assms, of e now lng2 lat2 others lng] Cons.prems(2) pos
    by simp
  show ?case
    using Cons.IH [OF step] Cons.prems(2) by simp
qed

text \<open>
  What does hold of the scores. When the rounding keeps the haversine term between 0 and 1,
  for a query point with a latitude within 90 degrees, a radius above 0 and a store in
  which the events found for the query have a severity of at most 10, a position with a
  latitude within 90 degrees and a start that is not in the future, every per-hazard-type
  score of the assessment lies between 0 and 10.
\<close>

lemma risk_scores_bounded_past_events:
  assumes "0 < radiusKm" and "\<bar>lat\<bar> \<le> 90"
    and "\<forall>x. 0 \<le> x \<and> x \<le> 1 \<longrightarrow> 0 \<le> rounding x \<and> rounding x \<le> 1"
    and "\<forall>e \<in> set (find_recent_near near now lat lng radiusKm stored).
           severity e \<le> 10 \<and> starts_at e \<le> now
           \<and> (case coordinates (geometry e) of
                 lng2 # lat2 # others \<Rightarrow> \<bar>lat2\<bar> \<le> 90
               | _ \<Rightarrow> False)"
  shows "\<exists>ra. assessCurrentRisk js rounding near now (Inr stored) lat lng radiusKm = Inr ra
           \<and> (\<forall>t. \<exists>s. score (risks ra t) = Some s \<and> 0 \<le> s \<and> s \<le> 10)"
proof -
  let ?rs0 = "\<lambda>t::event_type. \<lparr>level = ''low'', score = Some (0::real), events = []\<rparr>"
  have start: "\<forall>t. \<exists>s. score (?rs0 t) = Some s \<and> 0 \<le> s \<and> s \<le> 10" by simp
  have found: "\<forall>e \<in> set (find_recent_near near now lat lng radiusKm stored).
           severity e \<le> 10 \<and> starts_at e \<le> now
           \<and> (\<exists>lng2 lat2 others. coordinates (geometry e) = lng2 # lat2 # others \<and> \<bar>lat2\<bar> \<le> 90)"
  proof
    fix e
    assume "e \<in> set (find_recent_near near now lat lng radiusKm stored)"
    then have h: "severity e \<le> 10 \<and> starts_at e \<le> now"
      and c: "case coordinates (geometry e) of
                lng2 # lat2 # others \<Rightarrow> \<bar>lat2\<bar> \<le> 90
              | _ \<Rightarrow> False"
      using assms(4) by auto
    from c obtain lng2 lat2 others
      where "coordinates (geometry e) = lng2 # lat2 # others" and "\<bar>lat2\<bar> \<le> 90"
      by (auto split: list.splits)
    with h show "severity e \<le> 10 \<and> starts_at e \<le> now
           \<and> (\<exists>lng2 lat2 others. coordinates (geometry e) = lng2 # lat2 # others \<and> \<bar>lat2\<bar> \<le> 90)"
      by blast
  qed
  from foldl_assess_event_bounded [OF assms(1,2,3) start found]
  show ?thesis by (simp add: assessCurrentRisk_def Let_def)
qed

lemma calculateDistance_same_point:
  "rounding 0 = 0 \<Longrightarrow> calculateDistance rounding lat lng lat lng = Some 0"
  by (simp add: calculateDistance_def Math_atan2_def Let_def)

text \<open>
  C4. For every query point, every radius and every store contents, the events that start
  in the future included, every per-hazard-type score of the assessment should lie between
  0 and 10. \<^verbatim>\<open>calculateTimeDecay\<close> has the floor 0.1 and no ceiling: for an event that
  starts after the assessment \<^verbatim>\<open>hoursAgo\<close> is negative and the decay is the exponential
  of a positive number. The query takes every event that starts later than 24 hours ago,
  so it takes the weather alert of severity 8 that starts 12 hours after the assessment; at
  the query point, where every step of the distance is exact, the alert gives the storm
  score \<open>8 * exp 1\<close>, about 21.7, and the level "very high".
\<close>

theorem future_event_score_above_10:
  "(let js = \<lparr>toFixed = (\<lambda>x n. ''3.14''), toISOString = (\<lambda>d. ''2025-01-27T08:00:00.000Z''),
               parseDate = (\<lambda>s. 1737964800000), String_of = (\<lambda>v. ''[object Object]'')\<rparr>;
        near = (\<lambda>lng lat maxDistance e.
          case coordinates (geometry e) of
            lng2 # lat2 # others \<Rightarrow>
              (case calculateDistance (\<lambda>x. x) lat lng lat2 lng2 of
                 None \<Rightarrow> False
               | Some d \<Rightarrow> d * 1000 \<le> maxDistance)
          | _ \<Rightarrow> False);
        now = 1737964800000;
        alert = \<lparr>event_id = ''openweather-kuala-lumpur-1738008000-Thunderstorm-Warning'',
          source = ''openweather'', etype = Storm, severity = 8, confidence = 0.85,
          geometry = \<lparr>gtype = Point, coordinates = [101.6869, 3.139]\<rparr>,
          area_bbox = calculateAlertBoundingBox 101.6869 3.139 8,
          starts_at = now + 12 * 60 * 60 * 1000, ends_at = Some (now + 18 * 60 * 60 * 1000),
          properties = [], ingested_at = now\<rparr>
    in find_recent_near near now 3.139 101.6869 50 [alert] = [alert]
     \<and> calculateTimeDecay now (starts_at alert) = exp 1
     \<and> (\<exists>ra. assessCurrentRisk js (\<lambda>x. x) near now (Inr [alert]) 3.139 101.6869 50 = Inr ra
            \<and> score (risks ra Storm) = Some (8 * exp 1) \<and> 10 < 8 * exp (1::real)
            \<and> level (risks ra Storm) = ''very high''))"
proof -
  note d = calculateDistance_same_point
  have e: "2 \<le> exp (1::real)"
    using exp_ge_add_one_self [of "1::real"] by simp
  have t: "calculateTimeDecay 1737964800000 1738008000000 = exp 1"
    using e by (simp add: calculateTimeDecay_def Let_def max_def)
  have big: "10 < 8 * exp (1::real)" using e by simp
  show ?thesis
    using big t
    by (simp add: assessCurrentRisk_def find_recent_near_def assess_event_def d
          calculateDistanceDecay_def Math_max_def scoreToLevel_def Let_def max_def)
qed

text \<open>
  The rounding of the doubles is a second way out of the range. The exact haversine term
  of two antipodal points is 1. At the points (81.71, -169.03) and (-81.71, 10.97) the
  double arithmetic gives the next double above 1 for it, \<open>1 + 2\<^sup>-\<^sup>5\<^sup>2\<close>: the distance is
  NaN, and so are the score of the type of an event there and the overall score, for a
  request with a radius that reaches the event (the route sets no bound on the radius).
\<close>

lemma antipodal_term:
  fixes lat lng :: real
  shows "sin ((- lat - lat) * pi / 180 / 2) * sin ((- lat - lat) * pi / 180 / 2) +
           cos (lat * pi / 180) * cos (- lat * pi / 180) *
           sin ((lng + 180 - lng) * pi / 180 / 2) * sin ((lng + 180 - lng) * pi / 180 / 2) = 1"
proof -
  have 1: "(- lat - lat) * pi / 180 / 2 = - (lat * pi / 180)" by simp
  have 2: "(lng + 180 - lng) * pi / 180 / 2 = pi / 2" by simp
  have 3: "- lat * pi / 180 = - (lat * pi / 180)" by simp
  show ?thesis
    unfolding 1 2 3 using sin_cos_squared_add [of "lat * pi / 180"]
    by (simp add: power2_eq_square)
qed

lemma calculateDistance_antipodal:
  "1 < rounding 1 \<Longrightarrow> calculateDistance rounding lat lng (- lat) (lng + 180) = None"
  unfolding calculateDistance_def Let_def antipodal_term by simp

lemma antipodal_score_nan:
  "(let js = \<lparr>toFixed = (\<lambda>x n. ''81.71''), toISOString = (\<lambda>d. ''2025-01-27T08:00:00.000Z''),
               parseDate = (\<lambda>s. 1737964800000), String_of = (\<lambda>v. ''[object Object]'')\<rparr>;
        rounding = (\<lambda>x. if x = 1 then 1 + 1 / 2 ^ 52 else x);
        quake = \<lparr>event_id = ''usgs-us7000abcd'', source = ''usgs'', etype = Earthquake, severity = 5.2,
          confidence = 0.95, geometry = \<lparr>gtype = Point, coordinates = [10.97, - 81.71]\<rparr>,
          area_bbox = calculateBoundingBox 10.97 (- 81.71) 5.2, starts_at = 1737957600000,
          ends_at = None, properties = [], ingested_at = 1737964800000\<rparr>
    in calculateDistance rounding 81.71 (- 169.03) (- 81.71) 10.97 = None
     \<and> (\<exists>ra. assessCurrentRisk js rounding (\<lambda>lng lat maxDistance e. True) 1737964800000
                 (Inr [quake]) 81.71 (- 169.03) 25000 = Inr ra
            \<and> score (risks ra Earthquake) = None \<and> risk_score ra = None))"
proof -
  let ?rounding = "\<lambda>x::real. if x = 1 then 1 + 1 / 2 ^ 52 else x"
  have "calculateDistance ?rounding 81.71 (- 169.03) (- 81.71) (- 169.03 + 180) = None"
    by (rule calculateDistance_antipodal) simp
  then have d: "calculateDistance ?rounding (8171 / 100) (- (16903 / 100)) (- (8171 / 100)) (1097 / 100) = None"
    by simp
  have mm: "\<And>y. Math_max None y = None" "\<And>x. Math_max x None = None"
    "\<And>a b. Math_max (Some a) (Some b) = Some (max a b)"
    by (simp_all add: Math_max_def split: option.splits)
  show ?thesis
    by (simp add: assessCurrentRisk_def find_recent_near_def assess_event_def d mm Let_def)
qed

subsection \<open>Alert fanout\<close>

text \<open>What has been published stays published, and an event without affected subscriptions adds nothing.\<close>

lemma processEventAlerts_no_subscribers:
  "findAffectedSubscriptions subs e = Inr [] \<Longrightarrow> processEventAlerts js now push_ok subs io e = io"
  by (simp add: processEventAlerts_def)

lemma processEventAlerts_extends:
  "\<exists>more. processEventAlerts js now push_ok subs io e = io @ more"
  by (simp add: processEventAlerts_def split: sum.splits)

lemma foldl_processEventAlerts_keeps:
  "x \<in> set io \<Longrightarrow> x \<in> set (foldl (processEventAlerts js now push_ok subs) io es)"
proof (induction es arbitrary: io)
  case Nil
  then show ?case by simp
next
  case (Cons e es)
  obtain more where "processEventAlerts js now push_ok subs io e = io @ more"
    using processEventAlerts_extends by blast
  then have "x \<in> set (processEventAlerts js now push_ok subs io e)"
    using Cons.prems by simp
  then show ?case using Cons.IH by simp
qed

lemma processEventAlerts_notice:
  assumes "findAffectedSubscriptions subs e = Inr affected" and "affected \<noteq> []"
    and "generateAlertContent js e = Inr content"
  shows "Events_global \<lparr>n_id = event_id e, n_type = etype e, n_severity = severity e,
            n_location = coordinates (geometry e), n_message = ac_title content\<rparr>
           \<in> set (processEventAlerts js now push_ok subs io e)"
  using assms by (simp add: processEventAlerts_def)

lemma foldl_processEventAlerts_notice:
  assumes "e \<in> set es"
    and "findAffectedSubscriptions subs e = Inr affected" and "affected \<noteq> []"
    and "generateAlertContent js e = Inr content"
  shows "Events_global \<lparr>n_id = event_id e, n_type = etype e, n_severity = severity e,
            n_location = coordinates (geometry e), n_message = ac_title content\<rparr>
           \<in> set (foldl (processEventAlerts js now push_ok subs) io es)"
  using assms(1)
proof (induction es arbitrary: io)
  case Nil
  then show ?case by simp
next
  case (Cons x xs)
  show ?case
  proof (cases "e = x")
    case True
    then show ?thesis
      using processEventAlerts_notice [OF assms(2,3,4), of now push_ok io]
        foldl_processEventAlerts_keeps by simp
  next
    case False
    then show ?thesis using Cons by simp
  qed
qed

lemma sendAlert_rooms: "x \<in> set (sendAlert js now push_ok e content s) \<Longrightarrow> \<exists>r m. x = Alert_room r m"
  by (auto simp: sendAlert_def split: option.splits if_splits)

lemma processEventAlerts_global:
  assumes "Events_global n \<in> set (processEventAlerts js now push_ok subs io e)"
  shows "Events_global n \<in> set io
       \<or> (\<exists>affected content. findAffectedSubscriptions subs e = Inr affected \<and> affected \<noteq> []
             \<and> generateAlertContent js e = Inr content
             \<and> n = \<lparr>n_id = event_id e, n_type = etype e, n_severity = severity e,
                     n_location = coordinates (geometry e), n_message = ac_title content\<rparr>)"
  using assms sendAlert_rooms
  by (fastforce simp: processEventAlerts_def split: sum.splits if_splits)

lemma foldl_processEventAlerts_global:
  "Events_global n \<in> set (foldl (processEventAlerts js now push_ok subs) io es) \<Longrightarrow>
     Events_global n \<in> set io
       \<or> (\<exists>e \<in> set es. \<exists>affected content. findAffectedSubscriptions subs e = Inr affected \<and> affected \<noteq> []
             \<and> generateAlertContent js e = Inr content
             \<and> n = \<lparr>n_id = event_id e, n_type = etype e, n_severity = severity e,
                     n_location = coordinates (geometry e), n_message = ac_title content\<rparr>)"
proof (induction es arbitrary: io)
  case Nil
  then show ?case by simp
next
  case (Cons e es)
  from Cons.IH [of "processEventAlerts js now push_ok subs io e"] Cons.prems
  consider "Events_global n \<in> set (processEventAlerts js now push_ok subs io e)"
    | "\<exists>e \<in> set es. \<exists>affected content. findAffectedSubscriptions subs e = Inr affected \<and> affected \<noteq> []
             \<and> generateAlertContent js e = Inr content
             \<and> n = \<lparr>n_id = event_id e, n_type = etype e, n_severity = severity e,
                     n_location = coordinates (geometry e), n_message = ac_title content\<rparr>"
    by auto
  then show ?case
  proof cases
    case 1
    from processEventAlerts_global [OF this] show ?thesis by auto
  next
    case 2
    then show ?thesis by auto
  qed
qed

lemma foldl_processEventAlerts_nothing:
  "(\<forall>e \<in> set es. findAffectedSubscriptions subs e = Inr []) \<Longrightarrow>
     foldl (processEventAlerts js now push_ok subs) io es = io"
  by (induction es arbitrary: io) (simp_all add: processEventAlerts_def)

text \<open>
  C2 (amended). For every event processed by the alert fanout engine (ingested within the
  last 10 minutes with severity at least 4.0, of the type asked for) for which the store
  holds at least one subscription with a channel whose location is inside the area_bbox of
  the event, bounds included, and whose alert content can be generated, a "new event"
  notice with its id, type, severity, position and alert title is published to the global
  broadcast channel. No other notice is published: every notice that a run adds is the
  notice of such an event; and when no stored subscription with a channel lies inside the
  box of any stored event, in particular when no subscription lies inside it, the run
  publishes nothing at all.
\<close>

theorem fanout_publishes_notice:
  fixes e :: event and s :: subscription
  defines "inside \<equiv> \<lambda>(s :: subscription) (e :: event).
             (case area_bbox e of (minLng, minLat, maxLng, maxLat) \<Rightarrow>
                minLng \<le> fst (location s) \<and> fst (location s) \<le> maxLng
                \<and> minLat \<le> snd (location s) \<and> snd (location s) \<le> maxLat)"
    and "processed \<equiv> \<lambda>now eventType (e :: event).
             ingested_at e \<ge> now - 600000 \<and> severity e \<ge> 4
             \<and> (eventType = None \<or> eventType = Some (etype e))"
  shows "(e \<in> set stored \<and> processed now eventType e
            \<and> s \<in> set subscribers \<and> channels s \<noteq> [] \<and> inside s e
            \<and> generateAlertContent js e = Inr content
          \<longrightarrow> Events_global \<lparr>n_id = event_id e, n_type = etype e, n_severity = severity e,
                  n_location = coordinates (geometry e), n_message = ac_title content\<rparr>
                \<in> set (processNewEvents js now push_ok (Inr stored) (Inr subscribers) eventType io))
       \<and> (Events_global n \<in> set (processNewEvents js now_b push_ok_b (Inr events_b) (Inr subs_b) type_b io_b)
          \<longrightarrow> Events_global n \<in> set io_b
              \<or> (\<exists>e' \<in> set events_b. \<exists>s' \<in> set subs_b. \<exists>content'.
                    processed now_b type_b e' \<and> channels s' \<noteq> [] \<and> inside s' e'
                    \<and> generateAlertContent js e' = Inr content'
                    \<and> n = \<lparr>n_id = event_id e', n_type = etype e', n_severity = severity e',
                            n_location = coordinates (geometry e'), n_message = ac_title content'\<rparr>))
       \<and> ((\<forall>e' \<in> set events_c. \<forall>s' \<in> set subs_c. channels s' = [] \<or> \<not> inside s' e')
          \<longrightarrow> processNewEvents js now_c push_ok_c (Inr events_c) (Inr subs_c) type_c io_c = io_c)"
proof (intro conjI impI)
  assume a: "e \<in> set stored \<and> processed now eventType e
            \<and> s \<in> set subscribers \<and> channels s \<noteq> [] \<and> inside s e
            \<and> generateAlertContent js e = Inr content"
  define recent where
    "recent = filter (\<lambda>e. ingested_at e \<ge> now - 10 * 60 * 1000 \<and> severity e \<ge> 4.0
                          \<and> (case eventType of None \<Rightarrow> True | Some t \<Rightarrow> etype e = t)) stored"
  have mem: "e \<in> set recent"
    unfolding recent_def using a by (auto simp: processed_def split: option.splits)
  then have ne: "recent \<noteq> []" by auto
  obtain affected where aff: "findAffectedSubscriptions (Inr subscribers) e = Inr affected"
    and s: "s \<in> set affected"
    using a by (auto simp: findAffectedSubscriptions_def inside_def split: prod.splits)
  then have "affected \<noteq> []" by auto
  have run: "processNewEvents js now push_ok (Inr stored) (Inr subscribers) eventType io
          = (if recent = [] then io
             else foldl (processEventAlerts js now push_ok (Inr subscribers)) io recent)"
    unfolding recent_def by (simp add: processNewEvents_def Let_def)
  from a have c: "generateAlertContent js e = Inr content" by simp
  show "Events_global \<lparr>n_id = event_id e, n_type = etype e, n_severity = severity e,
                  n_location = coordinates (geometry e), n_message = ac_title content\<rparr>
                \<in> set (processNewEvents js now push_ok (Inr stored) (Inr subscribers) eventType io)"
    using foldl_processEventAlerts_notice [OF mem aff \<open>affected \<noteq> []\<close> c, of now push_ok io] ne run
    by simp
next
  assume pub: "Events_global n \<in> set (processNewEvents js now_b push_ok_b (Inr events_b) (Inr subs_b) type_b io_b)"
  define recent where
    "recent = filter (\<lambda>e. ingested_at e \<ge> now_b - 10 * 60 * 1000 \<and> severity e \<ge> 4.0
                          \<and> (case type_b of None \<Rightarrow> True | Some t \<Rightarrow> etype e = t)) events_b"
  have run: "processNewEvents js now_b push_ok_b (Inr events_b) (Inr subs_b) type_b io_b
          = (if recent = [] then io_b
             else foldl (processEventAlerts js now_b push_ok_b (Inr subs_b)) io_b recent)"
    unfolding recent_def by (simp add: processNewEvents_def Let_def)
  have "Events_global n \<in> set (foldl (processEventAlerts js now_b push_ok_b (Inr subs_b)) io_b recent)"
    using pub run by (cases "recent = []") simp_all
  from foldl_processEventAlerts_global [OF this]
  consider "Events_global n \<in> set io_b"
    | e' affected content' where "e' \<in> set recent"
        "findAffectedSubscriptions (Inr subs_b) e' = Inr affected" "affected \<noteq> []"
        "generateAlertContent js e' = Inr content'"
        "n = \<lparr>n_id = event_id e', n_type = etype e', n_severity = severity e',
                            n_location = coordinates (geometry e'), n_message = ac_title content'\<rparr>"
    by blast
  then show "Events_global n \<in> set io_b
              \<or> (\<exists>e' \<in> set events_b. \<exists>s' \<in> set subs_b. \<exists>content'.
                    processed now_b type_b e' \<and> channels s' \<noteq> [] \<and> inside s' e'
                    \<and> generateAlertContent js e' = Inr content'
                    \<and> n = \<lparr>n_id = event_id e', n_type = etype e', n_severity = severity e',
                            n_location = coordinates (geometry e'), n_message = ac_title content'\<rparr>)"
  proof cases
    case 1
    then show ?thesis by simp
  next
    case 2
    from 2(3) obtain s' where "s' \<in> set affected" by (cases affected) auto
    then have s': "s' \<in> set subs_b" "channels s' \<noteq> []" "inside s' e'"
      using 2(2) by (auto simp: findAffectedSubscriptions_def inside_def split: prod.splits)
    have e': "e' \<in> set events_b" "processed now_b type_b e'"
      using 2(1) by (auto simp: recent_def processed_def split: option.splits)
    show ?thesis using s' e' 2(4,5) by blast
  qed
next
  assume none: "\<forall>e' \<in> set events_c. \<forall>s' \<in> set subs_c. channels s' = [] \<or> \<not> inside s' e'"
  define recent where
    "recent = filter (\<lambda>e. ingested_at e \<ge> now_c - 10 * 60 * 1000 \<and> severity e \<ge> 4.0
                          \<and> (case type_c of None \<Rightarrow> True | Some t \<Rightarrow> etype e = t)) events_c"
  have run: "processNewEvents js now_c push_ok_c (Inr events_c) (Inr subs_c) type_c io_c
          = (if recent = [] then io_c
             else foldl (processEventAlerts js now_c push_ok_c (Inr subs_c)) io_c recent)"
    unfolding recent_def by (simp add: processNewEvents_def Let_def)
  have "\<forall>e \<in> set recent. findAffectedSubscriptions (Inr subs_c) e = Inr []"
  proof
    fix e
    assume "e \<in> set recent"
    then have "e \<in> set events_c" by (simp add: recent_def)
    then have no: "\<forall>s' \<in> set subs_c. \<not> (inside s' e \<and> channels s' \<noteq> [])"
      using none by blast
    obtain minLng minLat maxLng maxLat where box: "area_bbox e = (minLng, minLat, maxLng, maxLat)"
      by (cases "area_bbox e") auto
    have "filter (\<lambda>s. minLng \<le> fst (location s) \<and> fst (location s) \<le> maxLng
                              \<and> minLat \<le> snd (location s) \<and> snd (location s) \<le> maxLat
                              \<and> channels s \<noteq> []) subs_c = []"
      unfolding filter_empty_conv using no box by (simp add: inside_def)
    then show "findAffectedSubscriptions (Inr subs_c) e = Inr []"
      using box by (simp add: findAffectedSubscriptions_def)
  qed
  from foldl_processEventAlerts_nothing [OF this] show
    "processNewEvents js now_c push_ok_c (Inr events_c) (Inr subs_c) type_c io_c = io_c"
    using run by simp
qed

theorem fanout_publishes_notice_witness:
  "(let js = \<lparr>toFixed = (\<lambda>x n. if n = 1 then ''5.2'' else ''3.14''),
        toISOString = (\<lambda>d. ''2025-01-27T08:00:00.000Z''),
        parseDate = (\<lambda>s. 1737964800000), String_of = (\<lambda>v. case v of JStr s \<Rightarrow> s | _ \<Rightarrow> ''[object Object]'')\<rparr>;
        quake = \<lparr>event_id = ''usgs-us7000abcd'', source = ''usgs'', etype = Earthquake, severity = 5.2,
        confidence = 0.95, geometry = \<lparr>gtype = Point, coordinates = [101, 3]\<rparr>,
        area_bbox = calculateBoundingBox 101 3 5.2, starts_at = 1737964500000, ends_at = None,
        properties = [(''place'', JStr ''10 km S of Kuala Lumpur, Malaysia'')],
        ingested_at = 1737964700000\<rparr>;
        sub = \<lparr>sub_id = ''5f3c'', email = None, phone = None,
        push = Some \<lparr>endpoint = ''https://push.example/abc'', p256dh = ''key'', auth = ''secret''\<rparr>,
        location = (101.6869, 3.139), radius_km = 25, channels = [''webpush''],
        language = ''en'', created_at = 1000\<rparr>;
        notice = Events_global \<lparr>n_id = ''usgs-us7000abcd'', n_type = Earthquake, n_severity = 5.2,
          n_location = [101, 3],
          n_message = ''M5.2 Earthquake near 10 km S of Kuala Lumpur, Malaysia''\<rparr>
    in notice \<in> set (processNewEvents js 1737964800000 (\<lambda>p. True) (Inr [quake]) (Inr [sub])
                         (Some Earthquake) [])
     \<and> processNewEvents js 1737964800000 (\<lambda>p. True) (Inr [quake])
           (Inr [sub\<lparr>location := (110, 3.139)\<rparr>, sub\<lparr>channels := []\<rparr>]) (Some Earthquake) [] = [])"
proof -
  let ?js = "\<lparr>toFixed = (\<lambda>x n. if n = 1 then ''5.2'' else ''3.14''),
        toISOString = (\<lambda>d. ''2025-01-27T08:00:00.000Z''),
        parseDate = (\<lambda>s. 1737964800000), String_of = (\<lambda>v. case v of JStr s \<Rightarrow> s | _ \<Rightarrow> ''[object Object]'')\<rparr>"
  let ?quake = "\<lparr>event_id = ''usgs-us7000abcd'', source = ''usgs'', etype = Earthquake, severity = 5.2,
        confidence = 0.95, geometry = \<lparr>gtype = Point, coordinates = [101, 3]\<rparr>,
        area_bbox = calculateBoundingBox 101 3 5.2, starts_at = 1737964500000, ends_at = None,
        properties = [(''place'', JStr ''10 km S of Kuala Lumpur, Malaysia'')],
        ingested_at = 1737964700000\<rparr>"
  let ?sub = "\<lparr>sub_id = ''5f3c'', email = None, phone = None,
        push = Some \<lparr>endpoint = ''https://push.example/abc'', p256dh = ''key'', auth = ''secret''\<rparr>,
        location = (101.6869, 3.139), radius_km = 25, channels = [''webpush''],
        language = ''en'', created_at = 1000\<rparr>"
  let ?content = "\<lparr>ac_title = ''M5.2 Earthquake near 10 km S of Kuala Lumpur, Malaysia'',
                    ac_body = ''A magnitude 5.2 earthquake occurred near 10 km S of Kuala Lumpur, Malaysia. Moderate earthquake - may be widely felt.'',
                    ac_action = ''Stay alert for aftershocks''\<rparr>"
  have c: "generateAlertContent ?js ?quake = Inr ?content"
    by (simp add: generateAlertContent_def getLocationDescription_def get_property_def truthy_def
          prop_string_def getEarthquakeGuidance_def Let_def)
  note fanout = fanout_publishes_notice [where e = ?quake and stored = "[?quake]" and s = ?sub
      and subscribers = "[?sub]" and now = 1737964800000 and eventType = "Some Earthquake"
      and js = ?js and content = ?content and push_ok = "\<lambda>p. True" and io = "[]"
      and events_c = "[?quake]" and subs_c = "[?sub\<lparr>location := (110, 3.139)\<rparr>, ?sub\<lparr>channels := []\<rparr>]"
      and now_c = 1737964800000 and push_ok_c = "\<lambda>p. True" and type_c = "Some Earthquake" and io_c = "[]"]
  have published: "Events_global \<lparr>n_id = ''usgs-us7000abcd'', n_type = Earthquake, n_severity = 5.2,
          n_location = [101, 3],
          n_message = ''M5.2 Earthquake near 10 km S of Kuala Lumpur, Malaysia''\<rparr>
        \<in> set (processNewEvents ?js 1737964800000 (\<lambda>p. True) (Inr [?quake]) (Inr [?sub])
                  (Some Earthquake) [])"
    using fanout c by (simp add: calculateBoundingBox_def Let_def)
  have silent: "processNewEvents ?js 1737964800000 (\<lambda>p. True) (Inr [?quake])
           (Inr [?sub\<lparr>location := (110, 3.139)\<rparr>, ?sub\<lparr>channels := []\<rparr>]) (Some Earthquake) [] = []"
    using fanout by (simp add: calculateBoundingBox_def Let_def)
  show ?thesis using published silent by (simp add: Let_def)
qed

text \<open>
  An event that qualifies: with no subscription in the store, nothing is published; with
  one subscription inside its box, which lists no channel, nothing is published either.
\<close>

theorem fanout_without_subscribers_counterexample:
  "(let js = \<lparr>toFixed = (\<lambda>x n. if n = 1 then ''5.2'' else ''3.14''),
        toISOString = (\<lambda>d. ''2025-01-27T08:00:00.000Z''),
        parseDate = (\<lambda>s. 1737964800000), String_of = (\<lambda>v. case v of JStr s \<Rightarrow> s | _ \<Rightarrow> ''[object Object]'')\<rparr>;
        quake = \<lparr>event_id = ''usgs-us7000abcd'', source = ''usgs'', etype = Earthquake, severity = 5.2,
        confidence = 0.95, geometry = \<lparr>gtype = Point, coordinates = [101, 3]\<rparr>,
        area_bbox = calculateBoundingBox 101 3 5.2, starts_at = 1737964500000, ends_at = None,
        properties = [(''place'', JStr ''10 km S of Kuala Lumpur, Malaysia'')],
        ingested_at = 1737964700000\<rparr>;
        silent = \<lparr>sub_id = ''5f3c'', email = None, phone = None,
        push = Some \<lparr>endpoint = ''https://push.example/abc'', p256dh = ''key'', auth = ''secret''\<rparr>,
        location = (101.6869, 3.139), radius_km = 25, channels = [],
        language = ''en'', created_at = 1000\<rparr>
    in ingested_at quake \<ge> 1737964800000 - 10 * 60 * 1000 \<and> severity quake \<ge> 4.0
     \<and> processNewEvents js 1737964800000 (\<lambda>p. True) (Inr [quake]) (Inr []) None [] = []
     \<and> processNewEvents js 1737964800000 (\<lambda>p. True) (Inr [quake]) (Inr [silent]) None [] = [])"
  by (simp add: processNewEvents_def processEventAlerts_def findAffectedSubscriptions_def
        calculateBoundingBox_def Let_def)

subsection \<open>Event ids and re-ingestion\<close>

text \<open>
  A write under an id that the collection has leaves the list of ids as it is; a write
  under a new id adds it.
\<close>

lemma findOneAndUpdate_ids_known:
  "event_id d \<in> event_id ` set ds \<Longrightarrow>
     map event_id (snd (findOneAndUpdate d ds)) = map event_id ds"
  by (induction ds) (auto simp: set_fields_def Let_def split: prod.splits)

lemma findOneAndUpdate_ids_set:
  "event_id ` set (snd (findOneAndUpdate d ds)) = insert (event_id d) (event_id ` set ds)"
  by (induction ds) (auto simp: set_fields_def Let_def split: prod.splits)

lemma write_event_docs_snd: "docs (write_event d st) = snd (findOneAndUpdate d (docs st))"
  by (simp add: write_event_def Let_def split: prod.splits)

lemma write_event_ids_known:
  "event_id d \<in> event_id ` set (docs st) \<Longrightarrow>
     map event_id (docs (write_event d st)) = map event_id (docs st)"
  by (simp only: write_event_docs_snd findOneAndUpdate_ids_known)

lemma write_event_ids_set:
  "event_id ` set (docs (write_event d st)) = insert (event_id d) (event_id ` set (docs st))"
  by (simp only: write_event_docs_snd findOneAndUpdate_ids_set)

lemma usgs_event_id: "event_id (usgs_eventData now feature magnitude) = ''usgs-'' @ f_id feature"
  by (simp add: usgs_eventData_def)

lemma ingest_features_step:
  "ingest_features clock i (f # fs) st =
     ingest_features clock (Suc i) fs
       (case f_mag f of
          None \<Rightarrow> st
        | Some m \<Rightarrow> if m < 2.5 then st else write_event (usgs_eventData (clock i) f m) st)"
  by (simp split: option.splits)

lemma ingest_features_ids_known:
  "(\<forall>f \<in> set fs. \<forall>m. f_mag f = Some m \<longrightarrow>
        m < 2.5 \<or> ''usgs-'' @ f_id f \<in> event_id ` set (docs st)) \<Longrightarrow>
     map event_id (docs (ingest_features clock i fs st)) = map event_id (docs st)"
proof (induction fs arbitrary: i st)
  case Nil
  then show ?case by simp
next
  case (Cons f fs)
  define st' where
    "st' = (case f_mag f of None \<Rightarrow> st
            | Some m \<Rightarrow> if m < 2.5 then st else write_event (usgs_eventData (clock i) f m) st)"
  have same: "map event_id (docs st') = map event_id (docs st)"
    unfolding st'_def using Cons.prems
    by (auto simp: write_event_ids_known usgs_event_id split: option.splits)
  then have "event_id ` set (docs st') = event_id ` set (docs st)"
    by (metis set_map)
  then have "\<forall>g \<in> set fs. \<forall>m. f_mag g = Some m \<longrightarrow>
        m < 2.5 \<or> ''usgs-'' @ f_id g \<in> event_id ` set (docs st')"
    using Cons.prems by simp
  from Cons.IH [OF this, of "Suc i"] show ?case
    using same unfolding ingest_features_step st'_def by simp
qed

lemma ingest_features_ids_grow:
  "event_id ` set (docs st) \<subseteq> event_id ` set (docs (ingest_features clock i fs st))"
proof (induction fs arbitrary: i st)
  case Nil
  then show ?case by simp
next
  case (Cons f fs)
  let ?st = "case f_mag f of None \<Rightarrow> st
             | Some m \<Rightarrow> if m < 2.5 then st else write_event (usgs_eventData (clock i) f m) st"
  have "event_id ` set (docs st) \<subseteq> event_id ` set (docs ?st)"
    by (auto simp: write_event_ids_set split: option.splits)
  then show ?case
    using Cons.IH [of ?st "Suc i"] unfolding ingest_features_step by blast
qed

lemma ingest_features_ids_written:
  "f \<in> set fs \<Longrightarrow> f_mag f = Some m \<Longrightarrow> \<not> m < 2.5 \<Longrightarrow>
     ''usgs-'' @ f_id f \<in> event_id ` set (docs (ingest_features clock i fs st))"
proof (induction fs arbitrary: i st)
  case Nil
  then show ?case by simp
next
  case (Cons g fs)
  let ?st = "case f_mag g of None \<Rightarrow> st
             | Some m \<Rightarrow> if m < 2.5 then st else write_event (usgs_eventData (clock i) g m) st"
  show ?case
  proof (cases "f = g")
    case True
    then have "''usgs-'' @ f_id f \<in> event_id ` set (docs ?st)"
      using Cons.prems by (simp add: write_event_ids_set usgs_event_id)
    then show ?thesis
      using ingest_features_ids_grow [of ?st clock "Suc i" fs]
      unfolding ingest_features_step by blast
  next
    case False
    then have "f \<in> set fs" using Cons.prems by simp
    from Cons.IH [OF this Cons.prems(2,3), of "Suc i" ?st] show ?thesis
      by (simp only: ingest_features_step)
  qed
qed

lemma ingest_features_again:
  "map event_id (docs (ingest_features clock2 j fs (ingest_features clock1 i fs st)))
     = map event_id (docs (ingest_features clock1 i fs st))"
proof (rule ingest_features_ids_known, intro ballI allI impI)
  fix f m
  assume "f \<in> set fs" and "f_mag f = Some m"
  then show "m < 2.5 \<or> ''usgs-'' @ f_id f \<in> event_id ` set (docs (ingest_features clock1 i fs st))"
    using ingest_features_ids_written [of f fs m clock1 i st] by blast
qed

lemma alert_event_id:
  "event_id (alert_eventData now loc alert)
     = ''openweather-'' @ l_name loc @ ''-'' @ show_int (w_start alert) @ ''-''
       @ replace_spaces (w_event alert)"
  by (simp add: alert_eventData_def Let_def)

lemma alert_event_id_clock:
  "event_id (alert_eventData now loc alert) = event_id (alert_eventData now' loc alert)"
  by (simp add: alert_event_id)

lemma ingest_alerts_ids_known:
  "(\<forall>a \<in> set alerts. event_id (alert_eventData now' loc a) \<in> event_id ` set (docs st)) \<Longrightarrow>
     map event_id (docs (foldl (\<lambda>st alert. write_event (alert_eventData now loc alert) st) st alerts))
       = map event_id (docs st)"
proof (induction alerts arbitrary: st)
  case Nil
  then show ?case by simp
next
  case (Cons a alerts)
  define st' where "st' = write_event (alert_eventData now loc a) st"
  have "event_id (alert_eventData now loc a) \<in> event_id ` set (docs st)"
    using Cons.prems alert_event_id_clock [of now loc a now'] by simp
  then have same: "map event_id (docs st') = map event_id (docs st)"
    unfolding st'_def by (rule write_event_ids_known)
  then have "event_id ` set (docs st') = event_id ` set (docs st)"
    by (metis set_map)
  then have "\<forall>b \<in> set alerts. event_id (alert_eventData now' loc b) \<in> event_id ` set (docs st')"
    using Cons.prems by simp
  from Cons.IH [OF this] show ?case
    using same unfolding st'_def by simp
qed

lemma ingest_alerts_ids_grow:
  "event_id ` set (docs st)
     \<subseteq> event_id ` set (docs (foldl (\<lambda>st alert. write_event (alert_eventData now loc alert) st) st alerts))"
proof (induction alerts arbitrary: st)
  case Nil
  then show ?case by simp
next
  case (Cons a alerts)
  have "event_id ` set (docs st) \<subseteq> event_id ` set (docs (write_event (alert_eventData now loc a) st))"
    by (auto simp: write_event_ids_set)
  then show ?case
    using Cons.IH [of "write_event (alert_eventData now loc a) st"] by auto
qed

lemma ingest_alerts_ids_written:
  "a \<in> set alerts \<Longrightarrow>
     event_id (alert_eventData now loc a)
       \<in> event_id ` set (docs (foldl (\<lambda>st alert. write_event (alert_eventData now loc alert) st) st alerts))"
proof (induction alerts arbitrary: st)
  case Nil
  then show ?case by simp
next
  case (Cons b alerts)
  show ?case
  proof (cases "a = b")
    case True
    have "event_id (alert_eventData now loc a)
            \<in> event_id ` set (docs (write_event (alert_eventData now loc b) st))"
      using True by (simp add: write_event_ids_set)
    then show ?thesis
      using ingest_alerts_ids_grow [of "write_event (alert_eventData now loc b) st" now loc alerts]
      by auto
  next
    case False
    then have "a \<in> set alerts" using Cons.prems by simp
    from Cons.IH [OF this] show ?thesis by simp
  qed
qed

lemma ingest_current_ids_grow:
  "event_id ` set (docs st) \<subseteq> event_id ` set (docs (ingest_current now loc current st))"
  by (auto simp: ingest_current_def Let_def findOneAndUpdate_ids_set
        split: option.splits list.splits prod.splits)
     (metis findOneAndUpdate_ids_set image_eqI insertI2 snd_conv)

lemma ingest_current_calm:
  "(\<forall>cw. current = Some cw \<longrightarrow> \<not> isSevereWeather cw) \<Longrightarrow> ingest_current now loc current st = st"
  by (auto simp: ingest_current_def split: option.splits)

lemma ingest_locations_ids_grow:
  "event_id ` set (docs st) \<subseteq> event_id ` set (docs (ingest_locations clock fetch i locs st))"
proof (induction locs arbitrary: i st)
  case Nil
  then show ?case by simp
next
  case (Cons loc locs)
  define st' where
    "st' = (case fetch loc of
              Inl err \<Rightarrow> st
            | Inr data \<Rightarrow>
                ingest_current (clock i) loc (oc_current data)
                  (foldl (\<lambda>st alert. write_event (alert_eventData (clock i) loc alert) st)
                     st (oc_alerts data)))"
  have "event_id ` set (docs st) \<subseteq> event_id ` set (docs st')"
  proof (cases "fetch loc")
    case (Inl err)
    then show ?thesis by (simp add: st'_def)
  next
    case (Inr data)
    then show ?thesis
      using ingest_alerts_ids_grow [of st "clock i" loc "oc_alerts data"]
        ingest_current_ids_grow
      unfolding st'_def by (simp, blast)
  qed
  moreover have "ingest_locations clock fetch i (loc # locs) st = ingest_locations clock fetch (Suc i) locs st'"
    by (simp add: st'_def)
  ultimately show ?case using Cons.IH [of st' "Suc i"] by auto
qed

lemma ingest_locations_ids_written:
  "loc \<in> set locs \<Longrightarrow> fetch loc = Inr data \<Longrightarrow> a \<in> set (oc_alerts data) \<Longrightarrow>
     event_id (alert_eventData now loc a)
       \<in> event_id ` set (docs (ingest_locations clock fetch i locs st))"
proof (induction locs arbitrary: i st)
  case Nil
  then show ?case by simp
next
  case (Cons l locs)
  define st' where
    "st' = (case fetch l of
              Inl err \<Rightarrow> st
            | Inr data \<Rightarrow>
                ingest_current (clock i) l (oc_current data)
                  (foldl (\<lambda>st alert. write_event (alert_eventData (clock i) l alert) st)
                     st (oc_alerts data)))"
  have step: "ingest_locations clock fetch i (l # locs) st = ingest_locations clock fetch (Suc i) locs st'"
    by (simp add: st'_def)
  show ?case
  proof (cases "loc = l")
    case True
    have "event_id (alert_eventData (clock i) loc a)
            \<in> event_id ` set (docs (foldl (\<lambda>st alert. write_event (alert_eventData (clock i) loc alert) st)
                                       st (oc_alerts data)))"
      using Cons.prems(3) by (rule ingest_alerts_ids_written)
    then have "event_id (alert_eventData (clock i) loc a) \<in> event_id ` set (docs st')"
      using True Cons.prems(2) ingest_current_ids_grow unfolding st'_def by (simp, blast)
    then have "event_id (alert_eventData now loc a) \<in> event_id ` set (docs st')"
      using alert_event_id_clock [of now loc a "clock i"] by simp
    then show ?thesis
      using ingest_locations_ids_grow [of st' clock fetch "Suc i" locs] unfolding step by blast
  next
    case False
    then have "loc \<in> set locs" using Cons.prems(1) by simp
    from Cons.IH [OF this Cons.prems(2,3)] show ?thesis unfolding step .
  qed
qed

lemma ingest_locations_ids_known:
  assumes calm: "\<forall>loc \<in> set locs. \<forall>data cw. fetch loc = Inr data \<longrightarrow> oc_current data = Some cw
                   \<longrightarrow> \<not> isSevereWeather cw"
    and known: "\<forall>loc \<in> set locs. \<forall>data. fetch loc = Inr data \<longrightarrow>
                  (\<forall>a \<in> set (oc_alerts data).
                     event_id (alert_eventData 0 loc a) \<in> event_id ` set (docs st))"
  shows "map event_id (docs (ingest_locations clock fetch i locs st)) = map event_id (docs st)"
  using calm known
proof (induction locs arbitrary: i st)
  case Nil
  then show ?case by simp
next
  case (Cons l locs)
  define st' where
    "st' = (case fetch l of
              Inl err \<Rightarrow> st
            | Inr data \<Rightarrow>
                ingest_current (clock i) l (oc_current data)
                  (foldl (\<lambda>st alert. write_event (alert_eventData (clock i) l alert) st)
                     st (oc_alerts data)))"
  have step: "ingest_locations clock fetch i (l # locs) st = ingest_locations clock fetch (Suc i) locs st'"
    by (simp add: st'_def)
  have same: "map event_id (docs st') = map event_id (docs st)"
  proof (cases "fetch l")
    case (Inl err)
    then show ?thesis by (simp add: st'_def)
  next
    case (Inr data)
    have c: "\<forall>cw. oc_current data = Some cw \<longrightarrow> \<not> isSevereWeather cw"
      using Cons.prems(1) Inr by simp
    have k: "\<forall>a \<in> set (oc_alerts data). event_id (alert_eventData 0 l a) \<in> event_id ` set (docs st)"
      using Cons.prems(2) Inr by simp
    show ?thesis
      unfolding st'_def using Inr ingest_current_calm [OF c] ingest_alerts_ids_known [OF k]
      by simp
  qed
  then have ids: "event_id ` set (docs st') = event_id ` set (docs st)"
    by (metis set_map)
  have "map event_id (docs (ingest_locations clock fetch (Suc i) locs st')) = map event_id (docs st')"
    using Cons.prems by (intro Cons.IH) (simp_all add: ids)
  then show ?case using same unfolding step by simp
qed

lemma ingest_locations_again:
  assumes "\<forall>loc \<in> set locs. \<forall>data cw. fetch loc = Inr data \<longrightarrow> oc_current data = Some cw
             \<longrightarrow> \<not> isSevereWeather cw"
  shows "map event_id (docs (ingest_locations clock2 fetch j locs (ingest_locations clock1 fetch i locs st)))
           = map event_id (docs (ingest_locations clock1 fetch i locs st))"
  using assms
  by (intro ingest_locations_ids_known) (auto intro: ingest_locations_ids_written)

lemma location_event_id:
  "location_event js now c g = Some d \<Longrightarrow>
     event_id d = ''openaq-'' @ c @ ''-'' @ fst g @ ''-'' @ isoDate js now"
  by (auto simp: location_event_def openaq_eventData_def Let_def
        split: prod.splits list.splits option.splits if_splits)

lemma location_event_same_day:
  assumes "isoDate js now' = isoDate js now" and "location_event js now' c g = Some d'"
  shows "\<exists>d. location_event js now c g = Some d \<and> event_id d = event_id d'"
proof -
  obtain d where "location_event js now c g = Some d"
    using assms(2)
    by (auto simp: location_event_def Let_def
          split: prod.splits list.splits option.splits if_splits)
  then show ?thesis
    using location_event_id [of js now c g d] location_event_id [OF assms(2)] assms(1) by simp
qed

lemma process_location_ids_grow:
  "event_id ` set (docs st) \<subseteq> event_id ` set (docs (process_location js now c st g))"
  by (auto simp: process_location_def write_event_ids_set split: option.splits)

lemma process_location_ids_known:
  "(\<forall>d. location_event js now c g = Some d \<longrightarrow> event_id d \<in> event_id ` set (docs st)) \<Longrightarrow>
     map event_id (docs (process_location js now c st g)) = map event_id (docs st)"
  by (auto simp: process_location_def write_event_ids_known split: option.splits)

lemma ingest_groups_ids_grow:
  "event_id ` set (docs st) \<subseteq> event_id ` set (docs (foldl (process_location js now c) st gs))"
proof (induction gs arbitrary: st)
  case Nil
  then show ?case by simp
next
  case (Cons g gs)
  show ?case
    using process_location_ids_grow [of st js now c g]
      Cons.IH [of "process_location js now c st g"] by auto
qed

lemma ingest_groups_ids_written:
  "g \<in> set gs \<Longrightarrow> location_event js now c g = Some d \<Longrightarrow>
     event_id d \<in> event_id ` set (docs (foldl (process_location js now c) st gs))"
proof (induction gs arbitrary: st)
  case Nil
  then show ?case by simp
next
  case (Cons h gs)
  show ?case
  proof (cases "g = h")
    case True
    have "event_id d \<in> event_id ` set (docs (process_location js now c st h))"
      using True Cons.prems(2) by (simp add: process_location_def write_event_ids_set)
    then show ?thesis
      using ingest_groups_ids_grow [of "process_location js now c st h" js now c gs] by auto
  next
    case False
    then have "g \<in> set gs" using Cons.prems(1) by simp
    from Cons.IH [OF this Cons.prems(2)] show ?thesis by simp
  qed
qed

lemma ingest_groups_ids_known:
  "(\<forall>g \<in> set gs. \<forall>d. location_event js now c g = Some d \<longrightarrow> event_id d \<in> event_id ` set (docs st)) \<Longrightarrow>
     map event_id (docs (foldl (process_location js now c) st gs)) = map event_id (docs st)"
proof (induction gs arbitrary: st)
  case Nil
  then show ?case by simp
next
  case (Cons g gs)
  define st' where "st' = process_location js now c st g"
  have same: "map event_id (docs st') = map event_id (docs st)"
    unfolding st'_def using Cons.prems by (intro process_location_ids_known) simp
  then have "event_id ` set (docs st') = event_id ` set (docs st)"
    by (metis set_map)
  then have "\<forall>h \<in> set gs. \<forall>d. location_event js now c h = Some d \<longrightarrow> event_id d \<in> event_id ` set (docs st')"
    using Cons.prems by simp
  from Cons.IH [OF this] show ?case using same unfolding st'_def by simp
qed

lemma ingest_countries_step:
  "ingest_countries js clock fetch i (c # cs) st =
     ingest_countries js clock fetch (Suc i) cs
       (case fetch c of
          Inl err \<Rightarrow> st
        | Inr None \<Rightarrow> st
        | Inr (Some rs) \<Rightarrow> foldl (process_location js (clock i) c) st (group_by_location js rs []))"
  by simp

lemma ingest_countries_ids_grow:
  "event_id ` set (docs st) \<subseteq> event_id ` set (docs (ingest_countries js clock fetch i cs st))"
proof (induction cs arbitrary: i st)
  case Nil
  then show ?case by simp
next
  case (Cons c cs)
  define st' where
    "st' = (case fetch c of
              Inl err \<Rightarrow> st
            | Inr None \<Rightarrow> st
            | Inr (Some rs) \<Rightarrow> foldl (process_location js (clock i) c) st (group_by_location js rs []))"
  have "event_id ` set (docs st) \<subseteq> event_id ` set (docs st')"
    unfolding st'_def using ingest_groups_ids_grow [of st js "clock i" c]
    by (auto split: sum.splits option.splits)
  then show ?case
    using Cons.IH [of st' "Suc i"] unfolding ingest_countries_step st'_def by blast
qed

lemma ingest_countries_ids_written:
  assumes day: "\<forall>i. isoDate js (clock i) = isoDate js now"
  shows "c \<in> set cs \<Longrightarrow> fetch c = Inr (Some rs) \<Longrightarrow> g \<in> set (group_by_location js rs []) \<Longrightarrow>
         location_event js now c g = Some d \<Longrightarrow>
         event_id d \<in> event_id ` set (docs (ingest_countries js clock fetch i cs st))"
proof (induction cs arbitrary: i st)
  case Nil
  then show ?case by simp
next
  case (Cons b cs)
  define st' where
    "st' = (case fetch b of
              Inl err \<Rightarrow> st
            | Inr None \<Rightarrow> st
            | Inr (Some rs) \<Rightarrow> foldl (process_location js (clock i) b) st (group_by_location js rs []))"
  show ?case
  proof (cases "c = b")
    case True
    obtain d' where d': "location_event js (clock i) c g = Some d'" "event_id d' = event_id d"
      using location_event_same_day [of js now "clock i" c g d] day Cons.prems(4) by auto
    have "event_id d' \<in> event_id ` set (docs (foldl (process_location js (clock i) c) st
                                                  (group_by_location js rs [])))"
      using Cons.prems(3) d'(1) by (rule ingest_groups_ids_written)
    then have "event_id d \<in> event_id ` set (docs st')"
      unfolding st'_def using True Cons.prems(2) d'(2) by simp
    then show ?thesis
      using ingest_countries_ids_grow [of st' js clock fetch "Suc i" cs]
      unfolding ingest_countries_step st'_def by blast
  next
    case False
    then have "c \<in> set cs" using Cons.prems(1) by simp
    from Cons.IH [OF this Cons.prems(2,3,4), of "Suc i" st'] show ?thesis
      unfolding ingest_countries_step st'_def .
  qed
qed

lemma ingest_countries_ids_known:
  assumes day: "\<forall>i. isoDate js (clock i) = isoDate js now"
  shows "(\<forall>c \<in> set cs. \<forall>rs. fetch c = Inr (Some rs) \<longrightarrow>
            (\<forall>g \<in> set (group_by_location js rs []). \<forall>d. location_event js now c g = Some d
               \<longrightarrow> event_id d \<in> event_id ` set (docs st))) \<Longrightarrow>
         map event_id (docs (ingest_countries js clock fetch i cs st)) = map event_id (docs st)"
proof (induction cs arbitrary: i st)
  case Nil
  then show ?case by simp
next
  case (Cons b cs)
  define st' where
    "st' = (case fetch b of
              Inl err \<Rightarrow> st
            | Inr None \<Rightarrow> st
            | Inr (Some rs) \<Rightarrow> foldl (process_location js (clock i) b) st (group_by_location js rs []))"
  have same: "map event_id (docs st') = map event_id (docs st)"
  proof (cases "fetch b")
    case (Inl err)
    then show ?thesis by (simp add: st'_def)
  next
    case (Inr reply)
    show ?thesis
    proof (cases reply)
      case None
      then show ?thesis using Inr by (simp add: st'_def)
    next
      case (Some rs)
      have "\<forall>g \<in> set (group_by_location js rs []). \<forall>d. location_event js (clock i) b g = Some d
              \<longrightarrow> event_id d \<in> event_id ` set (docs st)"
      proof (intro ballI allI impI)
        fix g d'
        assume g: "g \<in> set (group_by_location js rs [])"
          and d': "location_event js (clock i) b g = Some d'"
        obtain d where "location_event js now b g = Some d" "event_id d = event_id d'"
          using location_event_same_day [of js "clock i" now b g d'] day d' by auto
        then show "event_id d' \<in> event_id ` set (docs st)"
          using Cons.prems Inr Some g by force
      qed
      from ingest_groups_ids_known [OF this] show ?thesis
        using Inr Some by (simp add: st'_def)
    qed
  qed
  then have "event_id ` set (docs st') = event_id ` set (docs st)"
    by (metis set_map)
  then have "\<forall>c \<in> set cs. \<forall>rs. fetch c = Inr (Some rs) \<longrightarrow>
            (\<forall>g \<in> set (group_by_location js rs []). \<forall>d. location_event js now c g = Some d
               \<longrightarrow> event_id d \<in> event_id ` set (docs st'))"
    using Cons.prems by simp
  from Cons.IH [OF this, of "Suc i"] show ?case
    using same unfolding ingest_countries_step st'_def by simp
qed

text \<open>
  A write under an id that the collection does not have adds the id at the end; so every
  write leaves the ids that are there in their places.
\<close>

lemma findOneAndUpdate_ids_new:
  "event_id d \<notin> event_id ` set ds \<Longrightarrow>
     map event_id (snd (findOneAndUpdate d ds)) = map event_id ds @ [event_id d]"
  by (induction ds) (auto simp: set_fields_def Let_def split: prod.splits)

lemma write_event_ids_new:
  "event_id d \<notin> event_id ` set (docs st) \<Longrightarrow>
     map event_id (docs (write_event d st)) = map event_id (docs st) @ [event_id d]"
  unfolding write_event_docs_snd by (rule findOneAndUpdate_ids_new)

text \<open>
  The orbital-event feed. Neither the id nor the outcome of an entry depends on the time:
  a second run over the same entries stops where the first one stopped, and writes under
  ids that the first one has written.
\<close>

lemma eonet_eventData_id:
  "eonet_eventData js cast_rings now entry latest = Inr d \<Longrightarrow> event_id d = ''nasa-eonet-'' @ en_id entry"
  by (auto simp: eonet_eventData_def split: list.splits sum.splits eonet_shape.splits)

lemma eonet_eventData_clock:
  "(eonet_eventData js cast_rings now entry latest = Inl err
      \<longrightarrow> eonet_eventData js cast_rings now' entry latest = Inl err)
   \<and> (eonet_eventData js cast_rings now entry latest = Inr d
      \<longrightarrow> (\<exists>d'. eonet_eventData js cast_rings now' entry latest = Inr d'))"
  by (auto simp: eonet_eventData_def split: list.splits sum.splits eonet_shape.splits)

lemma ingest_eonet_step:
  "ingest_eonet js cast_rings clock i (ev # rest) st =
     (case (case en_geometry ev of
              None \<Rightarrow> None
            | Some geometries \<Rightarrow>
                if geometries = [] then None
                else Some (eonet_eventData js cast_rings (clock i) ev (last geometries))) of
        None \<Rightarrow> ingest_eonet js cast_rings clock (Suc i) rest st
      | Some (Inl err) \<Rightarrow> (Some err, st)
      | Some (Inr eventData) \<Rightarrow> ingest_eonet js cast_rings clock (Suc i) rest (write_event eventData st))"
  by (simp split: option.splits sum.splits)

lemma ingest_eonet_ids_grow:
  "event_id ` set (docs st) \<subseteq> event_id ` set (docs (snd (ingest_eonet js cast_rings clock i evs st)))"
proof (induction evs arbitrary: i st)
  case Nil
  then show ?case by simp
next
  case (Cons ev evs)
  show ?case
    unfolding ingest_eonet_step
    using Cons.IH [of st "Suc i"] Cons.IH [of "write_event d st" "Suc i" for d]
    by (auto simp: write_event_ids_set split: option.splits sum.splits)
qed

lemma ingest_eonet_again:
  "event_id ` set (docs (snd (ingest_eonet js cast_rings clock1 i evs st))) \<subseteq> event_id ` set (docs st2) \<Longrightarrow>
     map event_id (docs (snd (ingest_eonet js cast_rings clock2 j evs st2))) = map event_id (docs st2)"
proof (induction evs arbitrary: i j st st2)
  case Nil
  then show ?case by simp
next
  case (Cons ev evs)
  define outcome where
    "outcome = (\<lambda>now. case en_geometry ev of
              None \<Rightarrow> None
            | Some geometries \<Rightarrow>
                if geometries = [] then None
                else Some (eonet_eventData js cast_rings now ev (last geometries)))"
  have step1: "ingest_eonet js cast_rings clock1 i (ev # evs) st =
     (case outcome (clock1 i) of
        None \<Rightarrow> ingest_eonet js cast_rings clock1 (Suc i) evs st
      | Some (Inl err) \<Rightarrow> (Some err, st)
      | Some (Inr eventData) \<Rightarrow> ingest_eonet js cast_rings clock1 (Suc i) evs (write_event eventData st))"
    unfolding outcome_def by (rule ingest_eonet_step)
  have step2: "ingest_eonet js cast_rings clock2 j (ev # evs) st2 =
     (case outcome (clock2 j) of
        None \<Rightarrow> ingest_eonet js cast_rings clock2 (Suc j) evs st2
      | Some (Inl err) \<Rightarrow> (Some err, st2)
      | Some (Inr eventData) \<Rightarrow> ingest_eonet js cast_rings clock2 (Suc j) evs (write_event eventData st2))"
    unfolding outcome_def by (rule ingest_eonet_step)
  show ?case
  proof (cases "outcome (clock1 i)")
    case None
    then have "outcome (clock2 j) = None"
      by (auto simp: outcome_def split: option.splits if_splits)
    then show ?thesis
      using Cons.IH [of "Suc i" st st2 "Suc j"] Cons.prems None unfolding step1 step2 by simp
  next
    case (Some r)
    then obtain gs where gs: "en_geometry ev = Some gs" "gs \<noteq> []"
      and r: "r = eonet_eventData js cast_rings (clock1 i) ev (last gs)"
      by (auto simp: outcome_def split: option.splits if_splits)
    have o2: "outcome (clock2 j) = Some (eonet_eventData js cast_rings (clock2 j) ev (last gs))"
      using gs by (simp add: outcome_def)
    show ?thesis
    proof (cases r)
      case (Inl err)
      then have "eonet_eventData js cast_rings (clock2 j) ev (last gs) = Inl err"
        using r eonet_eventData_clock [of js cast_rings "clock1 i" ev "last gs" err "clock2 j"] by simp
      then show ?thesis unfolding step2 o2 by simp
    next
      case (Inr d)
      then obtain d' where d': "eonet_eventData js cast_rings (clock2 j) ev (last gs) = Inr d'"
        using r eonet_eventData_clock [of js cast_rings "clock1 i" ev "last gs" _ "clock2 j" d] by auto
      have same: "event_id d' = event_id d"
        using eonet_eventData_id [OF d'] eonet_eventData_id [of js cast_rings "clock1 i" ev "last gs" d] r Inr
        by simp
      have run1: "ingest_eonet js cast_rings clock1 i (ev # evs) st
                    = ingest_eonet js cast_rings clock1 (Suc i) evs (write_event d st)"
        unfolding step1 Some Inr by simp
      have "event_id d \<in> event_id ` set (docs (write_event d st))"
        by (simp add: write_event_ids_set)
      then have "event_id d \<in> event_id ` set (docs (snd (ingest_eonet js cast_rings clock1 (Suc i) evs (write_event d st))))"
        using ingest_eonet_ids_grow [of "write_event d st" js cast_rings clock1 "Suc i" evs] by blast
      then have known: "event_id d' \<in> event_id ` set (docs st2)"
        using Cons.prems same unfolding run1 by auto
      then have ids: "map event_id (docs (write_event d' st2)) = map event_id (docs st2)"
        by (rule write_event_ids_known)
      then have "event_id ` set (docs (write_event d' st2)) = event_id ` set (docs st2)"
        by (metis set_map)
      then have "event_id ` set (docs (snd (ingest_eonet js cast_rings clock1 (Suc i) evs (write_event d st))))
                   \<subseteq> event_id ` set (docs (write_event d' st2))"
        using Cons.prems unfolding run1 by simp
      from Cons.IH [OF this, of "Suc j"] show ?thesis
        unfolding step2 o2 d' using ids by simp
    qed
  qed
qed

lemma ingestEONETEvents_docs:
  "snd (ingestEONETEvents js cast_rings clock (Inr entries) db)
     = docs (snd (ingest_eonet js cast_rings clock 0 entries \<lparr>docs = db, inserted = 0, updated = 0\<rparr>))"
  by (simp add: ingestEONETEvents_def split: prod.splits option.splits)

lemma ingestEONETEvents_again:
  "map event_id (snd (ingestEONETEvents js cast_rings clock2 (Inr entries)
                        (snd (ingestEONETEvents js cast_rings clock1 (Inr entries) db))))
     = map event_id (snd (ingestEONETEvents js cast_rings clock1 (Inr entries) db))"
  unfolding ingestEONETEvents_docs
  using ingest_eonet_again [of js cast_rings clock1 0 entries "\<lparr>docs = db, inserted = 0, updated = 0\<rparr>"
      "\<lparr>docs = docs (snd (ingest_eonet js cast_rings clock1 0 entries \<lparr>docs = db, inserted = 0, updated = 0\<rparr>)),
        inserted = 0, updated = 0\<rparr>" clock2 0]
  by simp

text \<open>
  The fire-detection feed: the same for the lines of a table, and for the countries when
  the replies of the two polls are the same.
\<close>

lemma fire_eventData_id:
  "fire_eventData js parseFloat now countryCode fireData = Some (Inr d) \<Longrightarrow>
     \<exists>lat lng. event_id d = firms_eventId js countryCode (get_field fireData ''acq_date'') lat lng
                \<and> coordinates (geometry d) = [lng, lat]"
  by (auto simp: fire_eventData_def Let_def split: option.splits if_splits prod.splits)

lemma fire_eventData_clock:
  "(fire_eventData js parseFloat now countryCode fireData = None
      \<longrightarrow> fire_eventData js parseFloat now' countryCode fireData = None)
   \<and> (fire_eventData js parseFloat now countryCode fireData = Some (Inl err)
      \<longrightarrow> fire_eventData js parseFloat now' countryCode fireData = Some (Inl err))
   \<and> (fire_eventData js parseFloat now countryCode fireData = Some (Inr d)
      \<longrightarrow> (\<exists>d'. fire_eventData js parseFloat now' countryCode fireData = Some (Inr d')
                \<and> event_id d' = event_id d))"
  by (auto simp: fire_eventData_def Let_def split: option.splits if_splits prod.splits)

lemma ingest_fires_ids_grow:
  "event_id ` set (docs st)
     \<subseteq> event_id ` set (docs (ingest_fires js parseFloat now countryCode headers lines st))"
proof (induction lines arbitrary: st)
  case Nil
  then show ?case by simp
next
  case (Cons l lines)
  show ?case
    using Cons.IH [of st] Cons.IH [of "write_event d st" for d]
    by (auto simp: write_event_ids_set split: option.splits sum.splits)
qed

lemma ingest_fires_again:
  "event_id ` set (docs (ingest_fires js parseFloat now_a countryCode headers lines st))
     \<subseteq> event_id ` set (docs st_b) \<Longrightarrow>
   map event_id (docs (ingest_fires js parseFloat now_b countryCode headers lines st_b))
     = map event_id (docs st_b)"
proof (induction lines arbitrary: st st_b)
  case Nil
  then show ?case by simp
next
  case (Cons l lines)
  let ?fd = "fireData_of headers (split_on CHR '','' l)"
  show ?case
  proof (cases "trim l = []")
    case True
    then show ?thesis using Cons.IH [of st st_b] Cons.prems by simp
  next
    case False
    show ?thesis
    proof (cases "fire_eventData js parseFloat now_a countryCode ?fd")
      case None
      then have "fire_eventData js parseFloat now_b countryCode ?fd = None"
        using fire_eventData_clock [of js parseFloat now_a countryCode ?fd now_b] by simp
      then show ?thesis using Cons.IH [of st st_b] Cons.prems None False by simp
    next
      case (Some r)
      show ?thesis
      proof (cases r)
        case (Inl err)
        then have "fire_eventData js parseFloat now_b countryCode ?fd = Some (Inl err)"
          using Some fire_eventData_clock [of js parseFloat now_a countryCode ?fd now_b err] by simp
        then show ?thesis using False by simp
      next
        case (Inr d)
        then obtain d' where d': "fire_eventData js parseFloat now_b countryCode ?fd = Some (Inr d')"
          and same: "event_id d' = event_id d"
          using Some fire_eventData_clock [of js parseFloat now_a countryCode ?fd now_b _ d] by auto
        have run1: "ingest_fires js parseFloat now_a countryCode headers (l # lines) st
                      = ingest_fires js parseFloat now_a countryCode headers lines (write_event d st)"
          using False Some Inr by simp
        have run2: "ingest_fires js parseFloat now_b countryCode headers (l # lines) st_b
                      = ingest_fires js parseFloat now_b countryCode headers lines (write_event d' st_b)"
          using False d' by simp
        have "event_id d \<in> event_id ` set (docs (write_event d st))"
          by (simp add: write_event_ids_set)
        then have "event_id d \<in> event_id ` set (docs (ingest_fires js parseFloat now_a countryCode headers lines
                                                          (write_event d st)))"
          using ingest_fires_ids_grow [of "write_event d st" js parseFloat now_a countryCode headers lines]
          by blast
        then have known: "event_id d' \<in> event_id ` set (docs st_b)"
          using Cons.prems same unfolding run1 by auto
        then have ids: "map event_id (docs (write_event d' st_b)) = map event_id (docs st_b)"
          by (rule write_event_ids_known)
        then have "event_id ` set (docs (write_event d' st_b)) = event_id ` set (docs st_b)"
          by (metis set_map)
        then have "event_id ` set (docs (ingest_fires js parseFloat now_a countryCode headers lines
                                           (write_event d st)))
                     \<subseteq> event_id ` set (docs (write_event d' st_b))"
          using Cons.prems unfolding run1 by simp
        from Cons.IH [OF this] show ?thesis unfolding run2 using ids by simp
      qed
    qed
  qed
qed

lemma ingest_fire_countries_step:
  "ingest_fire_countries js parseFloat yesterday clock fetch i (c # cs) st =
     ingest_fire_countries js parseFloat yesterday clock fetch (Suc i) cs
       (case fetch c (isoDate js (yesterday (clock i))) of
          Inl err \<Rightarrow> st
        | Inr csvText \<Rightarrow>
            (if includes_str csvText ''No data'' then st
             else (case split_on CHR 0x0A csvText of
                     [] \<Rightarrow> st
                   | line0 # lines \<Rightarrow>
                       ingest_fires js parseFloat (clock i) c (split_on CHR '','' line0) lines st)))"
  by (simp add: Let_def)

lemma ingest_fire_countries_ids_grow:
  "event_id ` set (docs st)
     \<subseteq> event_id ` set (docs (ingest_fire_countries js parseFloat yesterday clock fetch i cs st))"
proof (induction cs arbitrary: i st)
  case Nil
  then show ?case by simp
next
  case (Cons c cs)
  define st' where
    "st' = (case fetch c (isoDate js (yesterday (clock i))) of
          Inl err \<Rightarrow> st
        | Inr csvText \<Rightarrow>
            (if includes_str csvText ''No data'' then st
             else (case split_on CHR 0x0A csvText of
                     [] \<Rightarrow> st
                   | line0 # lines \<Rightarrow>
                       ingest_fires js parseFloat (clock i) c (split_on CHR '','' line0) lines st)))"
  have "event_id ` set (docs st) \<subseteq> event_id ` set (docs st')"
    unfolding st'_def using ingest_fires_ids_grow [of st js parseFloat "clock i" c]
    by (auto split: sum.splits list.splits)
  then show ?case
    using Cons.IH [of st' "Suc i"] unfolding ingest_fire_countries_step st'_def by blast
qed

lemma ingest_fire_countries_again:
  assumes same: "\<forall>c i. fetch c (isoDate js (yesterday (clock_b i))) = fetch c (isoDate js (yesterday (clock_a i)))"
  shows "event_id ` set (docs (ingest_fire_countries js parseFloat yesterday clock_a fetch i cs st))
           \<subseteq> event_id ` set (docs st_b) \<Longrightarrow>
         map event_id (docs (ingest_fire_countries js parseFloat yesterday clock_b fetch i cs st_b))
           = map event_id (docs st_b)"
proof (induction cs arbitrary: i st st_b)
  case Nil
  then show ?case by simp
next
  case (Cons c cs)
  define body where
    "body = (\<lambda>now (st :: ingest_state).
        case fetch c (isoDate js (yesterday (clock_a i))) of
          Inl err \<Rightarrow> st
        | Inr csvText \<Rightarrow>
            (if includes_str csvText ''No data'' then st
             else (case split_on CHR 0x0A csvText of
                     [] \<Rightarrow> st
                   | line0 # lines \<Rightarrow>
                       ingest_fires js parseFloat now c (split_on CHR '','' line0) lines st)))"
  have run1: "ingest_fire_countries js parseFloat yesterday clock_a fetch i (c # cs) st
                = ingest_fire_countries js parseFloat yesterday clock_a fetch (Suc i) cs (body (clock_a i) st)"
    unfolding ingest_fire_countries_step body_def ..
  have run2: "ingest_fire_countries js parseFloat yesterday clock_b fetch i (c # cs) st_b
                = ingest_fire_countries js parseFloat yesterday clock_b fetch (Suc i) cs (body (clock_b i) st_b)"
    unfolding ingest_fire_countries_step body_def using same by simp
  have sub: "event_id ` set (docs (body (clock_a i) st)) \<subseteq> event_id ` set (docs st_b)"
    using ingest_fire_countries_ids_grow [of "body (clock_a i) st" js parseFloat yesterday clock_a fetch "Suc i" cs]
      Cons.prems unfolding run1 by blast
  have ids: "map event_id (docs (body (clock_b i) st_b)) = map event_id (docs st_b)"
  proof (cases "fetch c (isoDate js (yesterday (clock_a i)))")
    case (Inl err)
    then show ?thesis by (simp add: body_def)
  next
    case (Inr csvText)
    show ?thesis
    proof (cases "includes_str csvText ''No data''")
      case True
      then show ?thesis using Inr by (simp add: body_def)
    next
      case False
      show ?thesis
      proof (cases "split_on CHR 0x0A csvText")
        case Nil
        then show ?thesis using Inr False by (simp add: body_def)
      next
        case (Cons line0 lines)
        have "event_id ` set (docs (ingest_fires js parseFloat (clock_a i) c (split_on CHR '','' line0) lines st))
                \<subseteq> event_id ` set (docs st_b)"
          using sub Inr False Cons by (simp add: body_def)
        from ingest_fires_again [OF this, of "clock_b i"] show ?thesis
          using Inr False Cons by (simp add: body_def)
      qed
    qed
  qed
  then have "event_id ` set (docs (body (clock_b i) st_b)) = event_id ` set (docs st_b)"
    by (metis set_map)
  then have "event_id ` set (docs (ingest_fire_countries js parseFloat yesterday clock_a fetch (Suc i) cs
                                     (body (clock_a i) st)))
               \<subseteq> event_id ` set (docs (body (clock_b i) st_b))"
    using Cons.prems unfolding run1 by simp
  from Cons.IH [OF this] show ?case unfolding run2 using ids by simp
qed

lemma ingestFIRMSData_again:
  assumes "\<forall>c i. fetch c (isoDate js (yesterday (clock_b i))) = fetch c (isoDate js (yesterday (clock_a i)))"
  shows "map event_id (snd (ingestFIRMSData js parseFloat yesterday clock_b fetch countryCodes
                              (snd (ingestFIRMSData js parseFloat yesterday clock_a fetch countryCodes db))))
           = map event_id (snd (ingestFIRMSData js parseFloat yesterday clock_a fetch countryCodes db))"
proof -
  let ?st1 = "ingest_fire_countries js parseFloat yesterday clock_a fetch 0 countryCodes
                \<lparr>docs = db, inserted = 0, updated = 0\<rparr>"
  have "map event_id (docs (ingest_fire_countries js parseFloat yesterday clock_b fetch 0 countryCodes
                              \<lparr>docs = docs ?st1, inserted = 0, updated = 0\<rparr>))
          = map event_id (docs \<lparr>docs = docs ?st1, inserted = 0, updated = 0\<rparr>)"
    using assms
    by (intro ingest_fire_countries_again [where clock_a = clock_a and st = "\<lparr>docs = db, inserted = 0, updated = 0\<rparr>"])
       simp_all
  then show ?thesis by (simp add: ingestFIRMSData_def Let_def)
qed

text \<open>The decimal digits of two different integers differ.\<close>

lemma show_nat_digits: "set (show_nat n) \<subseteq> set ''0123456789''"
proof (induction n rule: show_nat.induct)
  case (1 n)
  have d: "''0123456789'' ! k \<in> set ''0123456789''" if "k < 10" for k
    using that by (intro nth_mem) simp
  show ?case
  proof (cases "n < 10")
    case True
    then show ?thesis using d [of n] by (subst show_nat.simps) simp
  next
    case False
    have "n mod 10 < 10" by simp
    then show ?thesis using False 1 d [of "n mod 10"] by (subst show_nat.simps) simp
  qed
qed

lemma show_nat_nonempty: "show_nat n \<noteq> []"
  by (subst show_nat.simps) simp

lemma digit_inj: "j < 10 \<Longrightarrow> k < 10 \<Longrightarrow> ''0123456789'' ! j = ''0123456789'' ! k \<Longrightarrow> j = k"
proof -
  assume "j < 10" and "k < 10" and eq: "''0123456789'' ! j = ''0123456789'' ! k"
  have "distinct ''0123456789''" by simp
  moreover have "j < length ''0123456789''" "k < length ''0123456789''"
    using \<open>j < 10\<close> \<open>k < 10\<close> by simp_all
  ultimately show "j = k" using eq by (simp only: nth_eq_iff_index_eq)
qed

lemma show_nat_inj: "show_nat m = show_nat n \<Longrightarrow> m = n"
proof (induction m arbitrary: n rule: show_nat.induct)
  case (1 m)
  show ?case
  proof (cases "m < 10")
    case True
    note m = this
    show ?thesis
    proof (cases "n < 10")
      case True
      have "''0123456789'' ! m = ''0123456789'' ! n"
        using 1(2) m True by (simp add: show_nat.simps [of m] show_nat.simps [of n])
      then show ?thesis using m True by (intro digit_inj)
    next
      case False
      have "length (show_nat m) = 1" using m by (simp add: show_nat.simps [of m])
      moreover have "length (show_nat n) = Suc (length (show_nat (n div 10)))"
        using False by (simp add: show_nat.simps [of n])
      moreover have "length (show_nat (n div 10)) \<noteq> 0" using show_nat_nonempty by simp
      ultimately show ?thesis using 1(2) by simp
    qed
  next
    case False
    note m = this
    show ?thesis
    proof (cases "n < 10")
      case True
      have "length (show_nat n) = 1" using True by (simp add: show_nat.simps [of n])
      moreover have "length (show_nat m) = Suc (length (show_nat (m div 10)))"
        using m by (simp add: show_nat.simps [of m])
      moreover have "length (show_nat (m div 10)) \<noteq> 0" using show_nat_nonempty by simp
      ultimately show ?thesis using 1(2) by simp
    next
      case False
      have "show_nat (m div 10) @ [''0123456789'' ! (m mod 10)]
              = show_nat (n div 10) @ [''0123456789'' ! (n mod 10)]"
        using 1(2) m False by (simp add: show_nat.simps [of m] show_nat.simps [of n])
      then have a: "show_nat (m div 10) = show_nat (n div 10)"
        and b: "''0123456789'' ! (m mod 10) = ''0123456789'' ! (n mod 10)"
        by simp_all
      have "m div 10 = n div 10" using 1(1) [OF m a] .
      moreover have "m mod 10 = n mod 10" using b by (intro digit_inj) simp_all
      ultimately show ?thesis by (metis div_mult_mod_eq)
    qed
  qed
qed

lemma show_int_inj: "show_int a = show_int b \<Longrightarrow> a = b"
proof -
  assume eq: "show_int a = show_int b"
  have no_minus: "hd (show_nat k) \<noteq> CHR ''-''" for k
  proof -
    have "hd (show_nat k) \<in> set (show_nat k)" using show_nat_nonempty by simp
    then have "hd (show_nat k) \<in> set ''0123456789''" using show_nat_digits by blast
    then show ?thesis by auto
  qed
  show "a = b"
  proof (cases "a < 0")
    case True
    note a = this
    show ?thesis
    proof (cases "b < 0")
      case True
      then have "show_nat (nat (- a)) = show_nat (nat (- b))" using eq a by (simp add: show_int_def)
      then have "nat (- a) = nat (- b)" by (rule show_nat_inj)
      then show ?thesis using a True by simp
    next
      case False
      then have "CHR ''-'' # show_nat (nat (- a)) = show_nat (nat b)" using eq a by (simp add: show_int_def)
      then have "hd (show_nat (nat b)) = CHR ''-''" by (metis list.sel(1))
      then show ?thesis using no_minus by simp
    qed
  next
    case False
    note a = this
    show ?thesis
    proof (cases "b < 0")
      case True
      then have "show_nat (nat a) = CHR ''-'' # show_nat (nat (- b))" using eq a by (simp add: show_int_def)
      then have "hd (show_nat (nat a)) = CHR ''-''" by (metis list.sel(1))
      then show ?thesis using no_minus by simp
    next
      case False
      then have "show_nat (nat a) = show_nat (nat b)" using eq a by (simp add: show_int_def)
      then have "nat a = nat b" by (rule show_nat_inj)
      then show ?thesis using a False by simp
    qed
  qed
qed

lemma severe_event_id:
  "event_id (severe_eventData now loc cw weather0) = ''openweather-severe-'' @ l_name loc @ ''-'' @ show_int now"
  by (simp add: severe_eventData_def Let_def)

text \<open>
  What a poll of the weather feed adds to the ids of a collection that has the alerts of
  the replies: the ids of the storm events of the locations with severe conditions.
\<close>

lemma ingest_current_news:
  "\<exists>news. map event_id (docs (ingest_current now loc current st)) = map event_id (docs st) @ news
     \<and> (\<forall>x \<in> set news. x \<notin> event_id ` set (docs st)
          \<and> (\<exists>cw. current = Some cw \<and> isSevereWeather cw
                 \<and> x = ''openweather-severe-'' @ l_name loc @ ''-'' @ show_int now))"
proof (cases current)
  case None
  then show ?thesis by (simp add: ingest_current_def)
next
  case (Some cw)
  show ?thesis
  proof (cases "isSevereWeather cw")
    case False
    then show ?thesis using Some by (simp add: ingest_current_def)
  next
    case True
    show ?thesis
    proof (cases "c_weather cw")
      case Nil
      then show ?thesis using Some True by (simp add: ingest_current_def)
    next
      case (Cons weather0 others)
      let ?d = "severe_eventData now loc cw weather0"
      have run: "docs (ingest_current now loc current st) = snd (findOneAndUpdate ?d (docs st))"
        using Some True Cons by (simp add: ingest_current_def split: prod.splits)
      show ?thesis
      proof (cases "event_id ?d \<in> event_id ` set (docs st)")
        case True
        then show ?thesis unfolding run by (simp add: findOneAndUpdate_ids_known)
      next
        case False
        then have "map event_id (snd (findOneAndUpdate ?d (docs st))) = map event_id (docs st) @ [event_id ?d]"
          by (rule findOneAndUpdate_ids_new)
        then show ?thesis
          unfolding run using False Some \<open>isSevereWeather cw\<close> severe_event_id [of now loc cw weather0]
          by simp
      qed
    qed
  qed
qed

lemma ingest_locations_step:
  "ingest_locations clock fetch i (loc # rest) st =
     ingest_locations clock fetch (Suc i) rest
       (case fetch loc of
          Inl err \<Rightarrow> st
        | Inr data \<Rightarrow>
            ingest_current (clock i) loc (oc_current data)
              (foldl (\<lambda>st alert. write_event (alert_eventData (clock i) loc alert) st)
                 st (oc_alerts data)))"
  by simp

lemma ingest_locations_news:
  assumes "\<forall>loc \<in> set locs. \<forall>data. fetch loc = Inr data \<longrightarrow>
             (\<forall>a \<in> set (oc_alerts data). event_id (alert_eventData 0 loc a) \<in> event_id ` set (docs st))"
  shows "\<exists>news. map event_id (docs (ingest_locations clock fetch i locs st)) = map event_id (docs st) @ news
           \<and> (\<forall>x \<in> set news. x \<notin> event_id ` set (docs st)
                \<and> (\<exists>k < length locs. \<exists>data cw. fetch (locs ! k) = Inr data \<and> oc_current data = Some cw
                       \<and> isSevereWeather cw
                       \<and> x = ''openweather-severe-'' @ l_name (locs ! k) @ ''-'' @ show_int (clock (i + k))))"
  using assms
proof (induction locs arbitrary: i st)
  case Nil
  then show ?case by simp
next
  case (Cons l locs)
  define st' where
    "st' = (case fetch l of
              Inl err \<Rightarrow> st
            | Inr data \<Rightarrow>
                ingest_current (clock i) l (oc_current data)
                  (foldl (\<lambda>st alert. write_event (alert_eventData (clock i) l alert) st)
                     st (oc_alerts data)))"
  have step: "ingest_locations clock fetch i (l # locs) st = ingest_locations clock fetch (Suc i) locs st'"
    unfolding st'_def by (rule ingest_locations_step)
  have first: "\<exists>news. map event_id (docs st') = map event_id (docs st) @ news
     \<and> (\<forall>x \<in> set news. x \<notin> event_id ` set (docs st)
          \<and> (\<exists>data cw. fetch l = Inr data \<and> oc_current data = Some cw \<and> isSevereWeather cw
                 \<and> x = ''openweather-severe-'' @ l_name l @ ''-'' @ show_int (clock i)))"
  proof (cases "fetch l")
    case (Inl err)
    then show ?thesis by (simp add: st'_def)
  next
    case (Inr data)
    let ?alerts = "foldl (\<lambda>st alert. write_event (alert_eventData (clock i) l alert) st) st (oc_alerts data)"
    have k: "\<forall>a \<in> set (oc_alerts data). event_id (alert_eventData 0 l a) \<in> event_id ` set (docs st)"
      using Cons.prems Inr by simp
    have same: "map event_id (docs ?alerts) = map event_id (docs st)"
      using ingest_alerts_ids_known [OF k] .
    then have sets: "event_id ` set (docs ?alerts) = event_id ` set (docs st)"
      by (metis set_map)
    from ingest_current_news [of "clock i" l "oc_current data" ?alerts]
    show ?thesis unfolding st'_def using Inr same sets by simp
  qed
  then obtain news1 where n1: "map event_id (docs st') = map event_id (docs st) @ news1"
    and p1: "\<forall>x \<in> set news1. x \<notin> event_id ` set (docs st)
          \<and> (\<exists>data cw. fetch l = Inr data \<and> oc_current data = Some cw \<and> isSevereWeather cw
                 \<and> x = ''openweather-severe-'' @ l_name l @ ''-'' @ show_int (clock i))"
    by blast
  have sub: "event_id ` set (docs st) \<subseteq> event_id ` set (docs st')"
  proof -
    have "set (map event_id (docs st)) \<subseteq> set (map event_id (docs st'))" unfolding n1 by simp
    then show ?thesis by simp
  qed
  have "\<forall>loc \<in> set locs. \<forall>data. fetch loc = Inr data \<longrightarrow>
             (\<forall>a \<in> set (oc_alerts data). event_id (alert_eventData 0 loc a) \<in> event_id ` set (docs st'))"
    using Cons.prems sub by auto
  from Cons.IH [OF this, of "Suc i"]
  obtain news2 where n2: "map event_id (docs (ingest_locations clock fetch (Suc i) locs st'))
                            = map event_id (docs st') @ news2"
    and p2: "\<forall>x \<in> set news2. x \<notin> event_id ` set (docs st')
                \<and> (\<exists>k < length locs. \<exists>data cw. fetch (locs ! k) = Inr data \<and> oc_current data = Some cw
                       \<and> isSevereWeather cw
                       \<and> x = ''openweather-severe-'' @ l_name (locs ! k) @ ''-'' @ show_int (clock (Suc i + k)))"
    by blast
  have "map event_id (docs (ingest_locations clock fetch i (l # locs) st))
          = map event_id (docs st) @ (news1 @ news2)"
    unfolding step n2 n1 by simp
  moreover have "\<forall>x \<in> set (news1 @ news2). x \<notin> event_id ` set (docs st)
                \<and> (\<exists>k < length (l # locs). \<exists>data cw. fetch ((l # locs) ! k) = Inr data
                       \<and> oc_current data = Some cw \<and> isSevereWeather cw
                       \<and> x = ''openweather-severe-'' @ l_name ((l # locs) ! k) @ ''-''
                             @ show_int (clock (i + k)))"
  proof
    fix x
    assume "x \<in> set (news1 @ news2)"
    then consider "x \<in> set news1" | "x \<in> set news2" by auto
    then show "x \<notin> event_id ` set (docs st)
                \<and> (\<exists>k < length (l # locs). \<exists>data cw. fetch ((l # locs) ! k) = Inr data
                       \<and> oc_current data = Some cw \<and> isSevereWeather cw
                       \<and> x = ''openweather-severe-'' @ l_name ((l # locs) ! k) @ ''-''
                             @ show_int (clock (i + k)))"
    proof cases
      case 1
      then have "x \<notin> event_id ` set (docs st)" and
        "\<exists>data cw. fetch l = Inr data \<and> oc_current data = Some cw \<and> isSevereWeather cw
                 \<and> x = ''openweather-severe-'' @ l_name l @ ''-'' @ show_int (clock i)"
        using p1 by blast+
      then show ?thesis by (intro conjI exI [of _ 0]) simp_all
    next
      case 2
      then have out: "x \<notin> event_id ` set (docs st')" and
        "\<exists>k < length locs. \<exists>data cw. fetch (locs ! k) = Inr data \<and> oc_current data = Some cw
                       \<and> isSevereWeather cw
                       \<and> x = ''openweather-severe-'' @ l_name (locs ! k) @ ''-'' @ show_int (clock (Suc i + k))"
        using p2 by blast+
      then obtain k where "k < length locs" and
        "\<exists>data cw. fetch (locs ! k) = Inr data \<and> oc_current data = Some cw
                       \<and> isSevereWeather cw
                       \<and> x = ''openweather-severe-'' @ l_name (locs ! k) @ ''-'' @ show_int (clock (Suc i + k))"
        by blast
      then have "Suc k < length (l # locs) \<and> (\<exists>data cw. fetch ((l # locs) ! Suc k) = Inr data
                       \<and> oc_current data = Some cw \<and> isSevereWeather cw
                       \<and> x = ''openweather-severe-'' @ l_name ((l # locs) ! Suc k) @ ''-''
                             @ show_int (clock (i + Suc k)))"
        by simp
      then show ?thesis using out sub by blast
    qed
  qed
  ultimately show ?case by blast
qed

text \<open>The storm event of a location with severe conditions is in the collection after the poll.\<close>

lemma ingest_locations_severe_written:
  "k < length locs \<Longrightarrow> fetch (locs ! k) = Inr data \<Longrightarrow> oc_current data = Some cw \<Longrightarrow>
   isSevereWeather cw \<Longrightarrow> c_weather cw = weather0 # others \<Longrightarrow>
     event_id (severe_eventData (clock (i + k)) (locs ! k) cw weather0)
       \<in> event_id ` set (docs (ingest_locations clock fetch i locs st))"
proof (induction locs arbitrary: i k st)
  case Nil
  then show ?case by simp
next
  case (Cons l locs)
  define st' where
    "st' = (case fetch l of
              Inl err \<Rightarrow> st
            | Inr data \<Rightarrow>
                ingest_current (clock i) l (oc_current data)
                  (foldl (\<lambda>st alert. write_event (alert_eventData (clock i) l alert) st)
                     st (oc_alerts data)))"
  have step: "ingest_locations clock fetch i (l # locs) st = ingest_locations clock fetch (Suc i) locs st'"
    unfolding st'_def by (rule ingest_locations_step)
  show ?case
  proof (cases k)
    case 0
    let ?alerts = "foldl (\<lambda>st alert. write_event (alert_eventData (clock i) l alert) st) st (oc_alerts data)"
    have "docs st' = snd (findOneAndUpdate (severe_eventData (clock i) l cw weather0) (docs ?alerts))"
      using Cons.prems 0 by (simp add: st'_def ingest_current_def split: prod.splits)
    then have "event_id (severe_eventData (clock i) l cw weather0) \<in> event_id ` set (docs st')"
      by (simp add: findOneAndUpdate_ids_set)
    then show ?thesis
      using ingest_locations_ids_grow [of st' clock fetch "Suc i" locs] 0 unfolding step by auto
  next
    case (Suc j)
    then have "j < length locs" "fetch (locs ! j) = Inr data" using Cons.prems by simp_all
    from Cons.IH [OF this Cons.prems(3,4,5), of "Suc i" st'] show ?thesis
      unfolding step using Suc by simp
  qed
qed

text \<open>A poll keeps the events that are there, in their places.\<close>

lemma write_event_ids_append:
  "\<exists>news. map event_id (docs (write_event d st)) = map event_id (docs st) @ news"
  using write_event_ids_known [of d st] write_event_ids_new [of d st] by (cases "event_id d \<in> event_id ` set (docs st)") auto

lemma ingest_alerts_ids_append:
  "\<exists>news. map event_id (docs (foldl (\<lambda>st alert. write_event (alert_eventData now loc alert) st) st alerts))
            = map event_id (docs st) @ news"
proof (induction alerts arbitrary: st)
  case Nil
  then show ?case by simp
next
  case (Cons a alerts)
  obtain n1 where "map event_id (docs (write_event (alert_eventData now loc a) st)) = map event_id (docs st) @ n1"
    using write_event_ids_append by blast
  moreover obtain n2 where
    "map event_id (docs (foldl (\<lambda>st alert. write_event (alert_eventData now loc alert) st)
                          (write_event (alert_eventData now loc a) st) alerts))
       = map event_id (docs (write_event (alert_eventData now loc a) st)) @ n2"
    using Cons.IH by blast
  ultimately show ?case by simp
qed

lemma ingest_locations_ids_append:
  "\<exists>news. map event_id (docs (ingest_locations clock fetch i locs st)) = map event_id (docs st) @ news"
proof (induction locs arbitrary: i st)
  case Nil
  then show ?case by simp
next
  case (Cons l locs)
  define st' where
    "st' = (case fetch l of
              Inl err \<Rightarrow> st
            | Inr data \<Rightarrow>
                ingest_current (clock i) l (oc_current data)
                  (foldl (\<lambda>st alert. write_event (alert_eventData (clock i) l alert) st)
                     st (oc_alerts data)))"
  have step: "ingest_locations clock fetch i (l # locs) st = ingest_locations clock fetch (Suc i) locs st'"
    unfolding st'_def by (rule ingest_locations_step)
  have "\<exists>news. map event_id (docs st') = map event_id (docs st) @ news"
  proof (cases "fetch l")
    case (Inl err)
    then show ?thesis by (simp add: st'_def)
  next
    case (Inr data)
    let ?alerts = "foldl (\<lambda>st alert. write_event (alert_eventData (clock i) l alert) st) st (oc_alerts data)"
    obtain n1 where "map event_id (docs ?alerts) = map event_id (docs st) @ n1"
      using ingest_alerts_ids_append by blast
    moreover obtain n2 where
      "map event_id (docs (ingest_current (clock i) l (oc_current data) ?alerts)) = map event_id (docs ?alerts) @ n2"
      using ingest_current_news by blast
    ultimately show ?thesis using Inr by (simp add: st'_def)
  qed
  then obtain n1 where "map event_id (docs st') = map event_id (docs st) @ n1" by blast
  moreover obtain n2 where
    "map event_id (docs (ingest_locations clock fetch (Suc i) locs st')) = map event_id (docs st') @ n2"
    using Cons.IH by blast
  ultimately show ?case unfolding step by simp
qed

text \<open>
  C5 (amended). The Event id of a record is a function of the record's source data alone
  for the seismic feed (\<^verbatim>\<open>usgs-\<close> and the feature id), the orbital-event feed
  (\<^verbatim>\<open>nasa-eonet-\<close> and the event id), the fire-detection feed (\<^verbatim>\<open>nasa-firms-\<close>,
  the country code, the acquisition date and the position to four decimals) and the alerts
  of the weather feed (\<^verbatim>\<open>openweather-\<close>, the location name, the start of the alert and
  its event name with hyphens for white space), whatever the time of the ingestion. So
  re-ingesting the same records of these feeds in a later poll leaves the ids of the stored
  events as they are and creates no second Event; for the weather feed, whatever a later
  poll of the same replies adds is a storm event made from severe current conditions. For
  the air-quality feed the id is made of the source, the country, the location key and the
  calendar date of the ingestion: re-ingestion on the same date creates no second Event,
  and the ids of two different dates differ. The id of the synthetic storm event made from
  the current conditions of a location contains the time of the ingestion in milliseconds:
  the ids of two different times differ, and a poll that finds severe conditions at a
  location stores the storm event, one Event more whenever none with that id is stored.
\<close>

theorem ids_from_source_records:
  "event_id (usgs_eventData now feature magnitude) = ''usgs-'' @ f_id feature
   \<and> (eonet_eventData js cast_rings now entry latest = Inr orbital
        \<longrightarrow> event_id orbital = ''nasa-eonet-'' @ en_id entry)
   \<and> (fire_eventData js parseFloat now countryCode fireData = Some (Inr fire)
        \<longrightarrow> (\<exists>lat lng. coordinates (geometry fire) = [lng, lat]
               \<and> event_id fire
                   = ''nasa-firms-'' @ countryCode @ ''-''
                     @ (case get_field fireData ''acq_date'' of None \<Rightarrow> ''undefined'' | Some day \<Rightarrow> day)
                     @ ''-'' @ toFixed js lat 4 @ ''-'' @ toFixed js lng 4))
   \<and> event_id (alert_eventData now loc alert)
       = ''openweather-'' @ l_name loc @ ''-'' @ show_int (w_start alert) @ ''-''
         @ replace_spaces (w_event alert)
   \<and> (location_event js now country grp = Some d
        \<longrightarrow> event_id d = ''openaq-'' @ country @ ''-'' @ fst grp @ ''-'' @ isoDate js now)
   \<and> map event_id (snd (ingestEarthquakes clock_b (Inr features)
                           (snd (ingestEarthquakes clock_a (Inr features) db))))
       = map event_id (snd (ingestEarthquakes clock_a (Inr features) db))
   \<and> map event_id (snd (ingestEONETEvents js cast_rings clock_b (Inr entries)
                           (snd (ingestEONETEvents js cast_rings clock_a (Inr entries) db))))
       = map event_id (snd (ingestEONETEvents js cast_rings clock_a (Inr entries) db))
   \<and> ((\<forall>c i. fetch_fires c (isoDate js (yesterday (clock_b i)))
                = fetch_fires c (isoDate js (yesterday (clock_a i))))
        \<longrightarrow> map event_id (snd (ingestFIRMSData js parseFloat yesterday clock_b fetch_fires countryCodes
                                (snd (ingestFIRMSData js parseFloat yesterday clock_a fetch_fires countryCodes db))))
            = map event_id (snd (ingestFIRMSData js parseFloat yesterday clock_a fetch_fires countryCodes db)))
   \<and> (\<exists>news. map event_id (snd (ingestWeatherAlerts api_key clock_b fetch locations
                                  (snd (ingestWeatherAlerts api_key clock_a fetch locations db))))
                = map event_id (snd (ingestWeatherAlerts api_key clock_a fetch locations db)) @ news
         \<and> (\<forall>x \<in> set news.
               x \<notin> event_id ` set (snd (ingestWeatherAlerts api_key clock_a fetch locations db))
               \<and> (\<exists>k < length locations. \<exists>data cw.
                      fetch (locations ! k) = Inr data \<and> oc_current data = Some cw \<and> isSevereWeather cw
                      \<and> x = ''openweather-severe-'' @ l_name (locations ! k) @ ''-'' @ show_int (clock_b k))))
   \<and> ((\<forall>i. isoDate js (clock_a i) = day \<and> isoDate js (clock_b i) = day)
        \<longrightarrow> map event_id (snd (ingestAirQualityData js clock_b fetch_aq countries
                                (snd (ingestAirQualityData js clock_a fetch_aq countries db))))
            = map event_id (snd (ingestAirQualityData js clock_a fetch_aq countries db)))
   \<and> event_id (severe_eventData now loc conditions first_weather)
       = ''openweather-severe-'' @ l_name loc @ ''-'' @ show_int now
   \<and> (now \<noteq> later
        \<longrightarrow> event_id (severe_eventData now loc conditions first_weather)
            \<noteq> event_id (severe_eventData later loc conditions first_weather))
   \<and> (truthy_string api_key \<and> n < length locations \<and> fetch (locations ! n) = Inr reply
        \<and> oc_current reply = Some conditions \<and> isSevereWeather conditions
        \<and> c_weather conditions = first_weather # others
        \<longrightarrow> event_id (severe_eventData (clock_b n) (locations ! n) conditions first_weather)
              \<in> event_id ` set (snd (ingestWeatherAlerts api_key clock_b fetch locations store))
          \<and> (event_id (severe_eventData (clock_b n) (locations ! n) conditions first_weather)
                \<notin> event_id ` set store
              \<longrightarrow> length store < length (snd (ingestWeatherAlerts api_key clock_b fetch locations store))))
   \<and> (location_event js now country grp = Some d \<and> location_event js later country grp = Some e
        \<and> isoDate js now \<noteq> isoDate js later
        \<longrightarrow> event_id d \<noteq> event_id e)"
proof -
  have aq: "map event_id (snd (ingestAirQualityData js clock_b fetch_aq countries
                                (snd (ingestAirQualityData js clock_a fetch_aq countries db))))
            = map event_id (snd (ingestAirQualityData js clock_a fetch_aq countries db))"
    if day: "\<forall>i. isoDate js (clock_a i) = day \<and> isoDate js (clock_b i) = day"
  proof -
    let ?st1 = "ingest_countries js clock_a fetch_aq 0 countries \<lparr>docs = db, inserted = 0, updated = 0\<rparr>"
    have d1: "\<forall>i. isoDate js (clock_a i) = isoDate js (clock_a 0)"
      and d2: "\<forall>i. isoDate js (clock_b i) = isoDate js (clock_a 0)"
      using day by simp_all
    have "map event_id (docs (ingest_countries js clock_b fetch_aq 0 countries
                                \<lparr>docs = docs ?st1, inserted = 0, updated = 0\<rparr>))
            = map event_id (docs \<lparr>docs = docs ?st1, inserted = 0, updated = 0\<rparr>)"
    proof (rule ingest_countries_ids_known [OF d2], intro ballI allI impI)
      fix c rs g e
      assume "c \<in> set countries" and "fetch_aq c = Inr (Some rs)"
        and "g \<in> set (group_by_location js rs [])"
        and "location_event js (clock_a 0) c g = Some e"
      then show "event_id e \<in> event_id ` set (docs \<lparr>docs = docs ?st1, inserted = 0, updated = 0\<rparr>)"
        using ingest_countries_ids_written [OF d1, of c countries fetch_aq rs g e 0] by simp
    qed
    then show ?thesis by (simp add: ingestAirQualityData_def Let_def)
  qed
  have usgs: "map event_id (snd (ingestEarthquakes clock_b (Inr features)
                           (snd (ingestEarthquakes clock_a (Inr features) db))))
       = map event_id (snd (ingestEarthquakes clock_a (Inr features) db))"
  proof -
    let ?st1 = "ingest_features clock_a 0 features \<lparr>docs = db, inserted = 0, updated = 0\<rparr>"
    have "map event_id (docs (ingest_features clock_b 0 features \<lparr>docs = docs ?st1, inserted = 0, updated = 0\<rparr>))
            = map event_id (docs \<lparr>docs = docs ?st1, inserted = 0, updated = 0\<rparr>)"
    proof (rule ingest_features_ids_known, intro ballI allI impI)
      fix f m
      assume "f \<in> set features" and "f_mag f = Some m"
      then show "m < 2.5 \<or> ''usgs-'' @ f_id f
                   \<in> event_id ` set (docs \<lparr>docs = docs ?st1, inserted = 0, updated = 0\<rparr>)"
        using ingest_features_ids_written [of f features m clock_a 0] by auto
    qed
    then show ?thesis by (simp add: ingestEarthquakes_def Let_def)
  qed
  have weather: "\<exists>news. map event_id (snd (ingestWeatherAlerts api_key clock_b fetch locations
                                  (snd (ingestWeatherAlerts api_key clock_a fetch locations db))))
                = map event_id (snd (ingestWeatherAlerts api_key clock_a fetch locations db)) @ news
         \<and> (\<forall>x \<in> set news.
               x \<notin> event_id ` set (snd (ingestWeatherAlerts api_key clock_a fetch locations db))
               \<and> (\<exists>k < length locations. \<exists>data cw.
                      fetch (locations ! k) = Inr data \<and> oc_current data = Some cw \<and> isSevereWeather cw
                      \<and> x = ''openweather-severe-'' @ l_name (locations ! k) @ ''-'' @ show_int (clock_b k)))"
  proof (cases "truthy_string api_key")
    case False
    then show ?thesis by (simp add: ingestWeatherAlerts_def)
  next
    case True
    let ?st1 = "ingest_locations clock_a fetch 0 locations \<lparr>docs = db, inserted = 0, updated = 0\<rparr>"
    have known: "\<forall>loc \<in> set locations. \<forall>data. fetch loc = Inr data \<longrightarrow>
             (\<forall>a \<in> set (oc_alerts data). event_id (alert_eventData 0 loc a)
                \<in> event_id ` set (docs \<lparr>docs = docs ?st1, inserted = 0, updated = 0\<rparr>))"
      by (auto intro: ingest_locations_ids_written)
    from ingest_locations_news [OF known, of clock_b 0]
    show ?thesis using True by (simp add: ingestWeatherAlerts_def Let_def)
  qed
  have severe: "event_id (severe_eventData (clock_b n) (locations ! n) conditions first_weather)
              \<in> event_id ` set (snd (ingestWeatherAlerts api_key clock_b fetch locations store))
          \<and> (event_id (severe_eventData (clock_b n) (locations ! n) conditions first_weather)
                \<notin> event_id ` set store
              \<longrightarrow> length store < length (snd (ingestWeatherAlerts api_key clock_b fetch locations store)))"
    if h: "truthy_string api_key \<and> n < length locations \<and> fetch (locations ! n) = Inr reply
        \<and> oc_current reply = Some conditions \<and> isSevereWeather conditions
        \<and> c_weather conditions = first_weather # others"
  proof -
    let ?st = "ingest_locations clock_b fetch 0 locations \<lparr>docs = store, inserted = 0, updated = 0\<rparr>"
    let ?sid = "event_id (severe_eventData (clock_b n) (locations ! n) conditions first_weather)"
    have run: "snd (ingestWeatherAlerts api_key clock_b fetch locations store) = docs ?st"
      using h by (simp add: ingestWeatherAlerts_def Let_def)
    have mem: "?sid \<in> event_id ` set (docs ?st)"
      using ingest_locations_severe_written [of n locations fetch reply conditions first_weather others clock_b 0
          "\<lparr>docs = store, inserted = 0, updated = 0\<rparr>"] h
      by simp
    obtain news where news: "map event_id (docs ?st) = map event_id store @ news"
      using ingest_locations_ids_append [of clock_b fetch 0 locations "\<lparr>docs = store, inserted = 0, updated = 0\<rparr>"]
      by auto
    have "length store < length (docs ?st)" if "?sid \<notin> event_id ` set store"
    proof -
      have "?sid \<in> set (map event_id (docs ?st))" using mem by simp
      then have "?sid \<in> set news" using that unfolding news by auto
      then have "news \<noteq> []" by auto
      then have "length (map event_id store) < length (map event_id (docs ?st))"
        unfolding news by simp
      then show ?thesis by simp
    qed
    then show ?thesis using mem unfolding run by blast
  qed
  have differ: "event_id (severe_eventData now loc conditions first_weather)
            \<noteq> event_id (severe_eventData later loc conditions first_weather)" if "now \<noteq> later"
    using that show_int_inj [of now later] by (auto simp: severe_event_id)
  have fire_id: "\<exists>lat lng. coordinates (geometry fire) = [lng, lat]
               \<and> event_id fire
                   = ''nasa-firms-'' @ countryCode @ ''-''
                     @ (case get_field fireData ''acq_date'' of None \<Rightarrow> ''undefined'' | Some day \<Rightarrow> day)
                     @ ''-'' @ toFixed js lat 4 @ ''-'' @ toFixed js lng 4"
    if "fire_eventData js parseFloat now countryCode fireData = Some (Inr fire)"
    using fire_eventData_id [OF that] by (auto simp: firms_eventId_def)
  have dates: "event_id d \<noteq> event_id e"
    if "location_event js now country grp = Some d \<and> location_event js later country grp = Some e
        \<and> isoDate js now \<noteq> isoDate js later"
    using that location_event_id [of js now country grp d] location_event_id [of js later country grp e]
    by simp
  show ?thesis
    using usgs weather aq severe differ fire_id dates
      location_event_id [of js now country grp d]
      eonet_eventData_id [of js cast_rings now entry latest orbital]
      ingestEONETEvents_again [of js cast_rings clock_b entries clock_a db]
      ingestFIRMSData_again [of fetch_fires js yesterday clock_b clock_a parseFloat countryCodes db]
    by (simp add: usgs_event_id alert_event_id severe_event_id)
qed

theorem ids_from_source_records_witness:
  "(let js = \<lparr>toFixed = (\<lambda>x n. if x = 3.139 then ''3.1390'' else ''101.6869''),
          toISOString = (\<lambda>d. if d < 86400000 then ''1970-01-01T00:00:01.000Z''
                             else ''1970-01-02T00:00:01.000Z''),
          parseDate = (\<lambda>s. 0), String_of = (\<lambda>v. ''[object Object]'')\<rparr>;
        quake = \<lparr>f_id = ''us7000abcd'', f_mag = Some 5.2, f_lng = 101, f_lat = 3, f_depth = 10,
          f_time = 1700000000000, f_place = JStr ''Malaysia'', f_magType = JStr ''mb'',
          f_alert = JNull, f_tsunami = JNum 0, f_url = JNull, f_felt = JNull, f_sig = JNum 416\<rparr>;
        wildfire = \<lparr>en_id = ''EONET_6789'', en_title = ''Wildfire - Riau, Indonesia'',
          en_description = JNull, en_link = JStr ''https://eonet.gsfc.nasa.gov/api/v3/events/EONET_6789'',
          en_closed = JNull, en_magnitudeValue = JNull, en_magnitudeUnit = JNull,
          en_categories = [\<lparr>ec_id = JStr ''wildfires'', ec_title = JStr ''Wildfires''\<rparr>],
          en_geometry = Some [\<lparr>eg_shape = PointAt 101.45 0.51, eg_date = ''2025-01-26T00:00:00Z''\<rparr>]\<rparr>;
        refuse = (\<lambda>rings. Inl ''CastError'');
        parseFloat = (\<lambda>s. if s = ''3.1390'' then Some 3.139 else if s = ''101.6869'' then Some 101.6869
                 else if s = ''330.5'' then Some 330.5 else if s = ''85'' then Some 85
                 else if s = ''1'' then Some 1 else if s = ''0'' then Some 0 else None);
        yesterday = (\<lambda>d. d - 86400000);
        fires = (\<lambda>c dateStr. Inr (''latitude,longitude,brightness,confidence,acq_date,acq_time''
                                    @ [CHR 0x0A] @ ''3.1390,101.6869,330.5,85,2025-01-26,0412''));
        kl = \<lparr>l_lat = 3.139, l_lng = 101.6869, l_name = ''kuala-lumpur''\<rparr>;
        reply = \<lparr>oc_alerts = [\<lparr>w_event = ''Thunderstorm Warning'', w_description = ''Heavy rain expected'',
          w_start = 1738008000, w_end = 1738018800, w_sender_name = JStr ''MET Malaysia'',
          w_tags = JUndefined\<rparr>],
          oc_current = Some \<lparr>c_temp = 300, c_feels_like = 303, c_humidity = Some 80, c_pressure = JNum 1008,
          c_wind_speed = Some 20, c_wind_deg = JNum 250,
          c_weather = [(''Thunderstorm'', ''thunderstorm with rain'')]\<rparr>\<rparr>;
        haze = \<lparr>m_parameter = ''PM25'', m_value = 60, m_unit = ug_m3,
          m_coordinates = Some (3.139, 101.6869), m_date_utc = ''1970-01-01T00:00:00Z'',
          m_location = JStr ''Kuala Lumpur'', m_city = JNull, m_country = JStr ''MY'',
          m_sourceName = JNull, m_mobile = False\<rparr>;
        weather_a = snd (ingestWeatherAlerts (Some ''key'') (\<lambda>i. 1000) (\<lambda>l. Inr reply) [kl] []);
        weather_b = snd (ingestWeatherAlerts (Some ''key'') (\<lambda>i. 2000) (\<lambda>l. Inr reply) [kl] weather_a)
    in map event_id (snd (ingestEarthquakes (\<lambda>i. 2000) (Inr [quake])
                            (snd (ingestEarthquakes (\<lambda>i. 1000) (Inr [quake]) []))))
         = [''usgs-us7000abcd'']
     \<and> map event_id (snd (ingestEONETEvents js refuse (\<lambda>i. 2000) (Inr [wildfire])
                            (snd (ingestEONETEvents js refuse (\<lambda>i. 1000) (Inr [wildfire]) []))))
         = [''nasa-eonet-EONET_6789'']
     \<and> map event_id (snd (ingestFIRMSData js parseFloat yesterday (\<lambda>i. 2000) fires [''MYS'']
                            (snd (ingestFIRMSData js parseFloat yesterday (\<lambda>i. 1000) fires [''MYS''] []))))
         = [''nasa-firms-MYS-2025-01-26-3.1390-101.6869'']
     \<and> map event_id (snd (ingestAirQualityData js (\<lambda>i. 2000) (\<lambda>c. Inr (Some [haze])) [''MY'']
                            (snd (ingestAirQualityData js (\<lambda>i. 1000) (\<lambda>c. Inr (Some [haze])) [''MY''] []))))
         = [''openaq-MY-3.1390-101.6869-1970-01-01'']
     \<and> map event_id weather_a
         = [''openweather-kuala-lumpur-1738008000-Thunderstorm-Warning'',
            ''openweather-severe-kuala-lumpur-1000'']
     \<and> (\<exists>news. map event_id weather_b = map event_id weather_a @ news
            \<and> set news \<subseteq> {''openweather-severe-kuala-lumpur-2000''})
     \<and> ''openweather-severe-kuala-lumpur-2000'' \<in> event_id ` set weather_b
     \<and> length weather_a < length weather_b
     \<and> (\<exists>d e. location_event js 1000 ''MY'' (''3.1390-101.6869'', [haze]) = Some d
            \<and> location_event js 86401000 ''MY'' (''3.1390-101.6869'', [haze]) = Some e
            \<and> event_id d \<noteq> event_id e))"
proof -
  let ?js = "\<lparr>toFixed = (\<lambda>x n. if x = 3.139 then ''3.1390'' else ''101.6869''),
          toISOString = (\<lambda>d. if d < 86400000 then ''1970-01-01T00:00:01.000Z''
                             else ''1970-01-02T00:00:01.000Z''),
          parseDate = (\<lambda>s. 0), String_of = (\<lambda>v. ''[object Object]'')\<rparr>"
  let ?quake = "\<lparr>f_id = ''us7000abcd'', f_mag = Some 5.2, f_lng = 101, f_lat = 3, f_depth = 10,
          f_time = 1700000000000, f_place = JStr ''Malaysia'', f_magType = JStr ''mb'',
          f_alert = JNull, f_tsunami = JNum 0, f_url = JNull, f_felt = JNull, f_sig = JNum 416\<rparr>"
  let ?geo = "\<lparr>eg_shape = PointAt 101.45 0.51, eg_date = ''2025-01-26T00:00:00Z''\<rparr>"
  let ?wildfire = "\<lparr>en_id = ''EONET_6789'', en_title = ''Wildfire - Riau, Indonesia'',
          en_description = JNull, en_link = JStr ''https://eonet.gsfc.nasa.gov/api/v3/events/EONET_6789'',
          en_closed = JNull, en_magnitudeValue = JNull, en_magnitudeUnit = JNull,
          en_categories = [\<lparr>ec_id = JStr ''wildfires'', ec_title = JStr ''Wildfires''\<rparr>],
          en_geometry = Some [?geo]\<rparr>"
  let ?refuse = "\<lambda>rings :: ring list. Inl ''CastError'' :: string + real list"
  let ?parseFloat = "\<lambda>s. if s = ''3.1390'' then Some 3.139 else if s = ''101.6869'' then Some 101.6869
                 else if s = ''330.5'' then Some 330.5 else if s = ''85'' then Some 85
                 else if s = ''1'' then Some 1 else if s = ''0'' then Some (0::real) else None"
  let ?yesterday = "\<lambda>d :: int. d - 86400000"
  let ?fires = "\<lambda>(c :: string) (dateStr :: string).
          Inr (''latitude,longitude,brightness,confidence,acq_date,acq_time''
                 @ [CHR 0x0A] @ ''3.1390,101.6869,330.5,85,2025-01-26,0412'') :: string + string"
  let ?row = "[(''latitude'', Some ''3.1390''), (''longitude'', Some ''101.6869''),
      (''brightness'', Some ''330.5''), (''confidence'', Some ''85''),
      (''acq_date'', Some ''2025-01-26''), (''acq_time'', Some ''0412'')]"
  let ?kl = "\<lparr>l_lat = 3.139, l_lng = 101.6869, l_name = ''kuala-lumpur''\<rparr>"
  let ?alert = "\<lparr>w_event = ''Thunderstorm Warning'', w_description = ''Heavy rain expected'',
          w_start = 1738008000, w_end = 1738018800, w_sender_name = JStr ''MET Malaysia'',
          w_tags = JUndefined\<rparr>"
  let ?conditions = "\<lparr>c_temp = 300, c_feels_like = 303, c_humidity = Some 80, c_pressure = JNum 1008,
          c_wind_speed = Some 20, c_wind_deg = JNum 250,
          c_weather = [(''Thunderstorm'', ''thunderstorm with rain'')]\<rparr>"
  let ?reply = "\<lparr>oc_alerts = [?alert], oc_current = Some ?conditions\<rparr>"
  let ?haze = "\<lparr>m_parameter = ''PM25'', m_value = 60, m_unit = ug_m3,
          m_coordinates = Some (3.139, 101.6869), m_date_utc = ''1970-01-01T00:00:00Z'',
          m_location = JStr ''Kuala Lumpur'', m_city = JNull, m_country = JStr ''MY'',
          m_sourceName = JNull, m_mobile = False\<rparr>"
  let ?grp = "(''3.1390-101.6869'', [?haze])"
  let ?weather_a = "snd (ingestWeatherAlerts (Some ''key'') (\<lambda>i. 1000) (\<lambda>l. Inr ?reply) [?kl] [])"
  let ?weather_b = "snd (ingestWeatherAlerts (Some ''key'') (\<lambda>i. 2000) (\<lambda>l. Inr ?reply) [?kl] ?weather_a)"

  have n: "show_int 1738008000 = ''1738008000''" "show_int 1000 = ''1000''" "show_int 2000 = ''2000''"
    by (simp_all add: show_int_def show_nat.simps)
  have trims:
    "trim ''latitude'' = ''latitude''" "trim ''longitude'' = ''longitude''"
    "trim ''brightness'' = ''brightness''" "trim ''confidence'' = ''confidence''"
    "trim ''acq_date'' = ''acq_date''" "trim ''acq_time'' = ''acq_time''"
    "trim ''3.1390'' = ''3.1390''" "trim ''101.6869'' = ''101.6869''" "trim ''330.5'' = ''330.5''"
    "trim ''85'' = ''85''" "trim ''2025-01-26'' = ''2025-01-26''" "trim ''0412'' = ''0412''"
    "trim ''3.1390,101.6869,330.5,85,2025-01-26,0412'' = ''3.1390,101.6869,330.5,85,2025-01-26,0412''"
    by (simp_all add: trim_def skip_all.simps skip_one_def white_space_def)
  have day: "isoDate ?js 1000 = ''1970-01-01''" "isoDate ?js 2000 = ''1970-01-01''"
    "isoDate ?js 86401000 = ''1970-01-02''"
    by (simp_all add: isoDate_def)

  have first_q: "map event_id (snd (ingestEarthquakes (\<lambda>i. 1000) (Inr [?quake]) [])) = [''usgs-us7000abcd'']"
    by (simp add: ingestEarthquakes_def write_event_def usgs_eventData_def Let_def)
  obtain orbital where orbital: "eonet_eventData ?js ?refuse 1000 ?wildfire ?geo = Inr orbital"
    by (simp add: eonet_eventData_def calculateBoundingBoxFromGeometry_def Let_def)
  have first_e: "map event_id (snd (ingestEONETEvents ?js ?refuse (\<lambda>i. 1000) (Inr [?wildfire]) []))
                   = [''nasa-eonet-EONET_6789'']"
    using orbital eonet_eventData_id [OF orbital]
    by (simp add: ingestEONETEvents_def write_event_def)
  have row: "fireData_of [''latitude'', ''longitude'', ''brightness'', ''confidence'', ''acq_date'', ''acq_time'']
               [''3.1390'', ''101.6869'', ''330.5'', ''85'', ''2025-01-26'', ''0412''] = ?row"
    by (simp add: fireData_of_def trims)
  obtain fire where fire: "fire_eventData ?js ?parseFloat 1000 ''MYS'' ?row = Some (Inr fire)"
    and fire_is: "event_id fire = ''nasa-firms-MYS-2025-01-26-3.1390-101.6869''"
    by (simp add: fire_eventData_def get_field_def or_string_def truthy_string_def firms_eventId_def Let_def)
  have first_f: "map event_id (snd (ingestFIRMSData ?js ?parseFloat ?yesterday (\<lambda>i. 1000) ?fires [''MYS''] []))
                   = [''nasa-firms-MYS-2025-01-26-3.1390-101.6869'']"
    using fire fire_is by (simp add: ingestFIRMSData_def Let_def row trims write_event_def)
  have first_w: "map event_id ?weather_a
                   = [''openweather-kuala-lumpur-1738008000-Thunderstorm-Warning'',
                      ''openweather-severe-kuala-lumpur-1000'']"
    by (simp add: ingestWeatherAlerts_def truthy_string_def write_event_def alert_event_id n
          skip_one_def skip_all.simps white_space_def
          ingest_current_def isSevereWeather_def or_0_def severe_event_id Let_def)
  have severe: "isSevereWeather ?conditions"
    by (simp add: isSevereWeather_def or_0_def Let_def)
  obtain d where d: "location_event ?js 1000 ''MY'' ?grp = Some d"
    by (simp add: location_event_def calculateAQI_def toLowerCase_def toLowerChar_def
          pollutantAQI_def pm25ToAQI_def linearInterpolation_def Math_round_def Let_def ug_m3_def)
  obtain e where e: "location_event ?js 86401000 ''MY'' ?grp = Some e"
    by (simp add: location_event_def calculateAQI_def toLowerCase_def toLowerChar_def
          pollutantAQI_def pm25ToAQI_def linearInterpolation_def Math_round_def Let_def ug_m3_def)
  have first_a: "map event_id (snd (ingestAirQualityData ?js (\<lambda>i. 1000) (\<lambda>c. Inr (Some [?haze])) [''MY''] []))
                   = [event_id d]"
    using d by (simp add: ingestAirQualityData_def process_location_def write_event_def Let_def)

  note ids = ids_from_source_records [where now = 1000 and later = 86401000 and feature = ?quake
      and magnitude = "5.2" and js = ?js and cast_rings = ?refuse and entry = ?wildfire and latest = ?geo
      and orbital = orbital and parseFloat = ?parseFloat and countryCode = "''MYS''" and fireData = ?row
      and fire = fire and loc = ?kl and alert = ?alert and country = "''MY''" and grp = ?grp and d = d
      and e = e and clock_a = "\<lambda>i. 1000" and clock_b = "\<lambda>i. 2000" and features = "[?quake]"
      and db = "[]" and entries = "[?wildfire]" and fetch_fires = ?fires and yesterday = ?yesterday
      and countryCodes = "[''MYS'']" and api_key = "Some ''key''" and fetch = "\<lambda>l. Inr ?reply"
      and locations = "[?kl]" and day = "''1970-01-01''" and fetch_aq = "\<lambda>c. Inr (Some [?haze])"
      and countries = "[''MY'']" and conditions = ?conditions
      and first_weather = "(''Thunderstorm'', ''thunderstorm with rain'')" and others = "[]"
      and n = 0 and reply = ?reply and store = ?weather_a]
  note r1 = ids [THEN conjunct2]
  note r2 = r1 [THEN conjunct2]
  note r3 = r2 [THEN conjunct2]
  note r4 = r3 [THEN conjunct2]
  note r5 = r4 [THEN conjunct2]
  note r6 = r5 [THEN conjunct2]
  note r7 = r6 [THEN conjunct2]
  note r8 = r7 [THEN conjunct2]
  note r9 = r8 [THEN conjunct2]
  note r10 = r9 [THEN conjunct2]
  note r11 = r10 [THEN conjunct2]
  note r12 = r11 [THEN conjunct2]
  note r13 = r12 [THEN conjunct2]
  have again_q: "map event_id (snd (ingestEarthquakes (\<lambda>i. 2000) (Inr [?quake])
                            (snd (ingestEarthquakes (\<lambda>i. 1000) (Inr [?quake]) []))))
         = [''usgs-us7000abcd'']"
    by (rule trans [OF r5 [THEN conjunct1] first_q])
  have again_e: "map event_id (snd (ingestEONETEvents ?js ?refuse (\<lambda>i. 2000) (Inr [?wildfire])
                            (snd (ingestEONETEvents ?js ?refuse (\<lambda>i. 1000) (Inr [?wildfire]) []))))
         = [''nasa-eonet-EONET_6789'']"
    by (rule trans [OF r6 [THEN conjunct1] first_e])
  have again_f: "map event_id (snd (ingestFIRMSData ?js ?parseFloat ?yesterday (\<lambda>i. 2000) ?fires [''MYS'']
                            (snd (ingestFIRMSData ?js ?parseFloat ?yesterday (\<lambda>i. 1000) ?fires [''MYS''] []))))
         = [''nasa-firms-MYS-2025-01-26-3.1390-101.6869'']"
    by (rule trans [OF r7 [THEN conjunct1, THEN mp] first_f]) simp
  have again_a: "map event_id (snd (ingestAirQualityData ?js (\<lambda>i. 2000) (\<lambda>c. Inr (Some [?haze])) [''MY'']
                            (snd (ingestAirQualityData ?js (\<lambda>i. 1000) (\<lambda>c. Inr (Some [?haze])) [''MY''] []))))
         = [''openaq-MY-3.1390-101.6869-1970-01-01'']"
  proof -
    have "event_id d = ''openaq-MY-3.1390-101.6869-1970-01-01''"
      using r4 [THEN conjunct1, THEN mp, OF d] by (simp add: isoDate_def)
    then have f: "map event_id (snd (ingestAirQualityData ?js (\<lambda>i. 1000) (\<lambda>c. Inr (Some [?haze])) [''MY''] []))
                   = [''openaq-MY-3.1390-101.6869-1970-01-01'']"
      using first_a by simp
    show ?thesis
      by (rule trans [OF r9 [THEN conjunct1, THEN mp] f]) (simp add: isoDate_def)
  qed
  have news: "\<exists>news. map event_id ?weather_b = map event_id ?weather_a @ news
            \<and> set news \<subseteq> {''openweather-severe-kuala-lumpur-2000''}"
  proof -
    from r8 [THEN conjunct1] obtain news where
      a: "map event_id ?weather_b = map event_id ?weather_a @ news"
      and b: "\<forall>x \<in> set news. x \<notin> event_id ` set ?weather_a
               \<and> (\<exists>k < length [?kl]. \<exists>data cw.
                      (Inr ?reply :: string + onecall) = Inr data \<and> oc_current data = Some cw \<and> isSevereWeather cw
                      \<and> x = ''openweather-severe-'' @ l_name ([?kl] ! k) @ ''-'' @ show_int 2000)"
      by (elim exE conjE)
    have "set news \<subseteq> {''openweather-severe-kuala-lumpur-2000''}"
    proof
      fix x
      assume "x \<in> set news"
      then obtain k where "k < length [?kl]"
        and "x = ''openweather-severe-'' @ l_name ([?kl] ! k) @ ''-'' @ show_int 2000"
        using b by blast
      then show "x \<in> {''openweather-severe-kuala-lumpur-2000''}" by (simp add: n)
    qed
    then show ?thesis using a by blast
  qed
  have stored: "''openweather-severe-kuala-lumpur-2000'' \<in> event_id ` set ?weather_b
                  \<and> length ?weather_a < length ?weather_b"
  proof -
    have "''openweather-severe-kuala-lumpur-2000'' \<notin> set (map event_id ?weather_a)"
      unfolding first_w by simp
    then have new: "''openweather-severe-kuala-lumpur-2000'' \<notin> event_id ` set ?weather_a" by simp
    have sid: "event_id (severe_eventData 2000 ([?kl] ! 0) ?conditions (''Thunderstorm'', ''thunderstorm with rain''))
                 = ''openweather-severe-kuala-lumpur-2000''"
      by (simp add: severe_event_id n)
    have "truthy_string (Some ''key'') \<and> 0 < length [?kl] \<and> (Inr ?reply :: string + onecall) = Inr ?reply
        \<and> oc_current ?reply = Some ?conditions \<and> isSevereWeather ?conditions
        \<and> c_weather ?conditions = (''Thunderstorm'', ''thunderstorm with rain'') # []"
      using severe by (simp add: truthy_string_def)
    from r12 [THEN conjunct1, THEN mp, OF this] show ?thesis
      unfolding sid using new by blast
  qed
  have differ: "\<exists>d e. location_event ?js 1000 ''MY'' ?grp = Some d
            \<and> location_event ?js 86401000 ''MY'' ?grp = Some e \<and> event_id d \<noteq> event_id e"
  proof -
    have "isoDate ?js 1000 \<noteq> isoDate ?js 86401000" by (simp add: isoDate_def)
    with d e have "location_event ?js 1000 ''MY'' ?grp = Some d
        \<and> location_event ?js 86401000 ''MY'' ?grp = Some e
        \<and> isoDate ?js 1000 \<noteq> isoDate ?js 86401000"
      by blast
    from r13 [THEN mp, OF this] show ?thesis using d e by blast
  qed
  show ?thesis
    unfolding Let_def
    by (intro conjI again_q again_e again_f again_a first_w news stored [THEN conjunct1]
          stored [THEN conjunct2] differ)
qed

text \<open>
  The id of the synthetic storm event made from the current conditions of a location
  contains the time of the ingestion in milliseconds: two polls of the same conditions, at
  times 1000 and 2000, store two events, and the second poll counts one more insert. The
  id of an air-quality event contains the date of the ingestion: the same measurement
  polled on the next day is stored as a second event.
\<close>

theorem severe_weather_id_counterexample:
  "(let kl = \<lparr>l_lat = 3.139, l_lng = 101.6869, l_name = ''kuala-lumpur''\<rparr>;
        reply = \<lparr>oc_alerts = [],
                  oc_current = Some \<lparr>c_temp = 300, c_feels_like = 303, c_humidity = Some 80, c_pressure = JNum 1008,
          c_wind_speed = Some 20, c_wind_deg = JNum 250,
          c_weather = [(''Thunderstorm'', ''thunderstorm with rain'')]\<rparr>\<rparr>;
        first = ingestWeatherAlerts (Some ''key'') (\<lambda>i. 1000) (\<lambda>l. Inr reply) [kl] [];
        second = ingestWeatherAlerts (Some ''key'') (\<lambda>i. 2000) (\<lambda>l. Inr reply) [kl] (snd first);
        js = \<lparr>toFixed = (\<lambda>x n. if x = 3.139 then ''3.1390'' else ''101.6869''),
          toISOString = (\<lambda>d. if d < 86400000 then ''1970-01-01T00:00:01.000Z''
                             else ''1970-01-02T00:00:01.000Z''),
          parseDate = (\<lambda>s. 0), String_of = (\<lambda>v. ''[object Object]'')\<rparr>;
        haze = \<lparr>m_parameter = ''PM25'', m_value = 60, m_unit = ug_m3,
          m_coordinates = Some (3.139, 101.6869), m_date_utc = ''1970-01-01T00:00:00Z'',
          m_location = JStr ''Kuala Lumpur'', m_city = JNull, m_country = JStr ''MY'',
          m_sourceName = JNull, m_mobile = False\<rparr>;
        day1 = ingestAirQualityData js (\<lambda>i. 1000) (\<lambda>c. Inr (Some [haze])) [''MY''] [];
        day2 = ingestAirQualityData js (\<lambda>i. 86401000) (\<lambda>c. Inr (Some [haze])) [''MY''] (snd day1)
    in map event_id (snd first) = [''openweather-severe-kuala-lumpur-1000'']
     \<and> map event_id (snd second)
         = [''openweather-severe-kuala-lumpur-1000'', ''openweather-severe-kuala-lumpur-2000'']
     \<and> fst second = Inr (1, 0)
     \<and> map event_id (snd day1) = [''openaq-MY-3.1390-101.6869-1970-01-01'']
     \<and> map event_id (snd day2)
         = [''openaq-MY-3.1390-101.6869-1970-01-01'', ''openaq-MY-3.1390-101.6869-1970-01-02''])"
proof -
  have n: "show_int 1000 = ''1000''" "show_int 2000 = ''2000''"
    by (simp_all add: show_int_def show_nat.simps)
  show ?thesis
    by (simp add: ingestWeatherAlerts_def truthy_string_def ingest_current_def isSevereWeather_def
          or_0_def severe_eventData_def n set_fields_def Let_def
          ingestAirQualityData_def process_location_def location_event_def calculateAQI_def
          toLowerCase_def toLowerChar_def pollutantAQI_def pm25ToAQI_def linearInterpolation_def
          Math_round_def ug_m3_def write_event_def openaq_eventData_def isoDate_def)
qed

end
